theory Spec2Isabelle
  imports Main "HOL-Library.Word"
begin

unbundle bit_operations_syntax

section \<open>Machine types and the constants of wav.h\<close>

text \<open>
  The library is compiled for a little-endian LP64 host (the first branch of the
  endianness test in wav.c).  Fields of the packed structures are machine words; byte
  counts and indices of type \<open>size_t\<close> and \<open>long\<close> are natural numbers and integers
  (they stay far below \<open>2 ^ 64\<close> for buffers that exist in memory), and the one place
  where \<open>size_t\<close> wrap-around is observable (\<open>len_remain\<close> in \<open>wav_read\<close>) writes it out.

  Every function that can leave the defined behaviour of C (a failed \<open>assert\<close>, a division
  by zero, a null stream or mode string, an access outside an object) returns an option:
  \<open>None\<close> stands for that abort, \<open>Some\<close> for a normal return.
\<close>

type_synonym byte = "8 word"
type_synonym u16 = "16 word"
type_synonym u32 = "32 word"

text \<open>Modelled from the spec: the status enumeration \<open>WavErr\<close> of wav.h (section 7 of
  the specification lists the kinds); a zeroed handle holds \<open>WAV_OK\<close>.\<close>

datatype WavErr = WAV_OK | WAV_ERR_OS | WAV_ERR_FORMAT | WAV_ERR_MODE | WAV_ERR_PARAM | WAV_ERR_NOMEM

text \<open>Modelled from the spec: the format tags of wav.h
  (PCM=1, IEEE float=3, A-law=6, mu-law=7, extensible=0xFFFE).\<close>

definition WAV_FORMAT_PCM :: u16 where "WAV_FORMAT_PCM = 1"
definition WAV_FORMAT_IEEE_FLOAT :: u16 where "WAV_FORMAT_IEEE_FLOAT = 3"
definition WAV_FORMAT_ALAW :: u16 where "WAV_FORMAT_ALAW = 6"
definition WAV_FORMAT_MULAW :: u16 where "WAV_FORMAT_MULAW = 7"
definition WAV_FORMAT_EXTENSIBLE :: u16 where "WAV_FORMAT_EXTENSIBLE = 0xFFFE"

text \<open>The multi-character constants of the little-endian branch: \<open>'FFIR'\<close> is the word
  whose bytes in memory spell RIFF, and so on.\<close>

definition WAV_RIFF_CHUNK_ID :: u32 where "WAV_RIFF_CHUNK_ID = 0x46464952"
definition WAV_FORMAT_CHUNK_ID :: u32 where "WAV_FORMAT_CHUNK_ID = 0x20746D66"
definition WAV_FACT_CHUNK_ID :: u32 where "WAV_FACT_CHUNK_ID = 0x74636166"
definition WAV_DATA_CHUNK_ID :: u32 where "WAV_DATA_CHUNK_ID = 0x61746164"
definition WAV_WAVE_ID :: u32 where "WAV_WAVE_ID = 0x45564157"

definition WAV_RIFF_HEADER_SIZE :: nat where "WAV_RIFF_HEADER_SIZE = 8"

section \<open>The C library: strings and streams\<close>

text \<open>\<open>strncmp(a, b, n) == 0\<close> on NUL-terminated strings: the first \<open>n\<close> characters agree,
  the terminator included when a string is shorter than \<open>n\<close>.\<close>

definition strncmp_eq :: "string \<Rightarrow> string \<Rightarrow> nat \<Rightarrow> bool" where
  "strncmp_eq a b n = (take n (a @ [CHR 0x00]) = take n (b @ [CHR 0x00]))"

text \<open>
  A stream is the file's bytes, the position, the two indicators, and how it was opened.
  \<open>broken\<close> stands for a failing device: every transfer, \<open>ftell\<close>, \<open>fseek\<close> and \<open>fclose\<close>
  then fails.  A stream opened for appending writes at the end of the file wherever the
  position is.
\<close>

record FILE =
  contents :: "byte list"
  fpos :: nat
  eof_ind :: bool
  err_ind :: bool
  readable :: bool
  writable :: bool
  append_mode :: bool
  broken :: bool

text \<open>\<open>fopen(filename, mode)\<close> for the eight canonical modes; the first argument is what
  the named file holds now (\<open>None\<close> when it does not exist).\<close>

definition fopen :: "byte list option \<Rightarrow> string \<Rightarrow> FILE option" where
  "fopen existing m =
    (let mk = (\<lambda>bs r w a. Some \<lparr>contents = bs, fpos = 0, eof_ind = False, err_ind = False,
                              readable = r, writable = w, append_mode = a, broken = False\<rparr>)
     in if m = ''rb'' then (case existing of None \<Rightarrow> None | Some bs \<Rightarrow> mk bs True False False)
     else if m = ''rb+'' then (case existing of None \<Rightarrow> None | Some bs \<Rightarrow> mk bs True True False)
     else if m = ''wb'' then mk [] False True False
     else if m = ''wb+'' then mk [] True True False
     else if m = ''wbx'' then (case existing of None \<Rightarrow> mk [] False True False | Some bs \<Rightarrow> None)
     else if m = ''wb+x'' then (case existing of None \<Rightarrow> mk [] True True False | Some bs \<Rightarrow> None)
     else if m = ''ab'' then mk (case existing of None \<Rightarrow> [] | Some bs \<Rightarrow> bs) False True True
     else if m = ''ab+'' then mk (case existing of None \<Rightarrow> [] | Some bs \<Rightarrow> bs) True True True
     else None)"

text \<open>\<open>fread(ptr, size, nmemb, fp)\<close>: the stream after the call, the bytes transferred and
  the number of complete items.\<close>

definition fread :: "FILE \<Rightarrow> nat \<Rightarrow> nat \<Rightarrow> FILE \<times> byte list \<times> nat" where
  "fread f sz nmemb =
    (if sz * nmemb = 0 then (f, [], 0)
     else if broken f \<or> \<not> readable f then (f\<lparr>err_ind := True\<rparr>, [], 0)
     else let got = take (sz * nmemb) (drop (fpos f) (contents f))
          in (f\<lparr>fpos := fpos f + length got,
                 eof_ind := (eof_ind f \<or> length got < sz * nmemb)\<rparr>, got, length got div sz))"

text \<open>\<open>fwrite(ptr, size, nmemb, fp)\<close>, \<open>ptr\<close> pointing at the bytes \<open>bs\<close>: the stream after the
  call and the number of complete items.  Writing past the end first fills the gap with
  zero bytes.\<close>

definition fwrite :: "byte list \<Rightarrow> nat \<Rightarrow> nat \<Rightarrow> FILE \<Rightarrow> FILE \<times> nat" where
  "fwrite bs sz nmemb f =
    (if sz * nmemb = 0 then (f, 0)
     else if broken f \<or> \<not> writable f then (f\<lparr>err_ind := True\<rparr>, 0)
     else let p = (if append_mode f then length (contents f) else fpos f);
              out = take (sz * nmemb) bs;
              old = contents f @ replicate (p - length (contents f)) 0
          in (f\<lparr>contents := take p old @ out @ drop (p + length out) old,
                 fpos := p + length out\<rparr>, nmemb))"

text \<open>\<open>fseek(fp, offset, SEEK_SET)\<close>: the stream and whether the call returned 0.\<close>

definition fseek_set :: "FILE \<Rightarrow> int \<Rightarrow> FILE \<times> bool" where
  "fseek_set f off =
    (if broken f \<or> off < 0 then (f, False)
     else (f\<lparr>fpos := nat off, eof_ind := False\<rparr>, True))"

definition ftell :: "FILE \<Rightarrow> int" where
  "ftell f = (if broken f then - 1 else int (fpos f))"

definition rewind :: "FILE \<Rightarrow> FILE" where
  "rewind f = (if broken f then f\<lparr>err_ind := False\<rparr>
               else f\<lparr>fpos := 0, eof_ind := False, err_ind := False\<rparr>)"

definition feof :: "FILE \<Rightarrow> bool" where
  "feof f = eof_ind f"

definition ferror :: "FILE \<Rightarrow> bool" where
  "ferror f = err_ind f"

text \<open>\<open>fclose(fp) == 0\<close>.\<close>

definition fclose_ok :: "FILE \<Rightarrow> bool" where
  "fclose_ok f = (\<not> broken f)"

section \<open>The chunk model\<close>

text \<open>
  \<open>WavMasterChunk\<close> with its three nested chunks, flattened: the fields of the packed
  structures in declaration order.  In memory the structure is 80 bytes:
  RIFF header and form id at 0, \<open>format_chunk\<close> at 12 (48 bytes), \<open>fact_chunk\<close> at 60
  (12 bytes), \<open>data_chunk\<close> at 72 (8 bytes).
\<close>

record WavMasterChunk =
  riff_id :: u32
  riff_size :: u32
  wave_id :: u32
  fmt_id :: u32
  fmt_size :: u32
  format_tag :: u16
  n_channels :: u16
  sample_rate :: u32
  avg_bytes_per_sec :: u32
  block_align :: u16
  bits_per_sample :: u16
  ext_size :: u16
  valid_bits_per_sample :: u16
  channel_mask :: u32
  sub_format :: "byte list"
  fact_id :: u32
  fact_size :: u32
  sample_length :: u32
  data_id :: u32
  data_size :: u32

definition le16 :: "u16 \<Rightarrow> byte list" where
  "le16 w = [ucast w, ucast (drop_bit 8 w)]"

definition le32 :: "u32 \<Rightarrow> byte list" where
  "le32 w = [ucast w, ucast (drop_bit 8 w), ucast (drop_bit 16 w), ucast (drop_bit 24 w)]"

definition rd16 :: "byte list \<Rightarrow> nat \<Rightarrow> u16" where
  "rd16 m off = ucast (m ! off) OR push_bit 8 (ucast (m ! (off + 1)))"

definition rd32 :: "byte list \<Rightarrow> nat \<Rightarrow> u32" where
  "rd32 m off = ucast (m ! off) OR push_bit 8 (ucast (m ! (off + 1)))
                OR push_bit 16 (ucast (m ! (off + 2))) OR push_bit 24 (ucast (m ! (off + 3)))"

text \<open>The sixteen bytes of the array \<open>sub_format\<close>.\<close>

definition array16 :: "byte list \<Rightarrow> byte list" where
  "array16 xs = take 16 (xs @ replicate 16 0)"

text \<open>The bytes of the structure in memory, and the structure a memory image holds.\<close>

definition chunk_bytes :: "WavMasterChunk \<Rightarrow> byte list" where
  "chunk_bytes c =
     le32 (riff_id c) @ le32 (riff_size c) @ le32 (wave_id c) @
     le32 (fmt_id c) @ le32 (fmt_size c) @ le16 (format_tag c) @ le16 (n_channels c) @
     le32 (sample_rate c) @ le32 (avg_bytes_per_sec c) @ le16 (block_align c) @
     le16 (bits_per_sample c) @ le16 (ext_size c) @ le16 (valid_bits_per_sample c) @
     le32 (channel_mask c) @ array16 (sub_format c) @
     le32 (fact_id c) @ le32 (fact_size c) @ le32 (sample_length c) @
     le32 (data_id c) @ le32 (data_size c)"

definition chunk_of_bytes :: "byte list \<Rightarrow> WavMasterChunk" where
  "chunk_of_bytes m =
     \<lparr>riff_id = rd32 m 0, riff_size = rd32 m 4, wave_id = rd32 m 8,
      fmt_id = rd32 m 12, fmt_size = rd32 m 16, format_tag = rd16 m 20, n_channels = rd16 m 22,
      sample_rate = rd32 m 24, avg_bytes_per_sec = rd32 m 28, block_align = rd16 m 32,
      bits_per_sample = rd16 m 34, ext_size = rd16 m 36, valid_bits_per_sample = rd16 m 38,
      channel_mask = rd32 m 40, sub_format = take 16 (drop 44 m),
      fact_id = rd32 m 60, fact_size = rd32 m 64, sample_length = rd32 m 68,
      data_id = rd32 m 72, data_size = rd32 m 76\<rparr>"

definition sizeof_WavMasterChunk :: nat where "sizeof_WavMasterChunk = 80"
definition sizeof_WavFormatChunk :: nat where "sizeof_WavFormatChunk = 48"
definition offsetof_format_chunk :: nat where "offsetof_format_chunk = 12"
definition offsetof_fact_chunk :: nat where "offsetof_fact_chunk = 60"
definition offsetof_data_chunk :: nat where "offsetof_data_chunk = 72"

text \<open>Byte offsets of three fields inside \<open>WavFormatChunk\<close>, and the difference of two
  pointers to \<open>uint16_t\<close>, which C counts in elements of two bytes.\<close>

definition offsetof_format_tag :: nat where "offsetof_format_tag = 8"
definition offsetof_ext_size :: nat where "offsetof_ext_size = 24"
definition offsetof_valid_bits_per_sample :: nat where "offsetof_valid_bits_per_sample = 26"

definition ptrdiff_u16 :: "nat \<Rightarrow> nat \<Rightarrow> nat" where
  "ptrdiff_u16 p q = (p - q) div 2"

text \<open>Reading \<open>n\<close> bytes of the structure from offset \<open>off\<close>, and storing bytes into it;
  both stay inside the 80 bytes or abort.\<close>

definition chunk_load :: "WavMasterChunk \<Rightarrow> nat \<Rightarrow> nat \<Rightarrow> byte list option" where
  "chunk_load c off n =
    (if off + n \<le> sizeof_WavMasterChunk then Some (take n (drop off (chunk_bytes c))) else None)"

definition chunk_store :: "WavMasterChunk \<Rightarrow> nat \<Rightarrow> byte list \<Rightarrow> WavMasterChunk option" where
  "chunk_store c off bs =
    (if off + length bs \<le> sizeof_WavMasterChunk
     then Some (chunk_of_bytes (take off (chunk_bytes c) @ bs @ drop (off + length bs) (chunk_bytes c)))
     else None)"

definition default_sub_format :: "byte list" where
  "default_sub_format =
     [0x01, 0x00, 0x00, 0x00, 0x00, 0x00, 0x10, 0x00, 0x80, 0x00, 0x00, 0xaa, 0x00, 0x38, 0x9b, 0x71]"

section \<open>The handle\<close>

text \<open>\<open>struct _WavFile\<close>.  The duplicated file name is only ever freed and is left out.
  \<open>tmp\<close> is the scratch buffer (\<open>None\<close> for the null pointer).\<close>

record WavFile =
  fp :: "FILE option"
  mode :: "string option"
  error_code :: WavErr
  chunk :: WavMasterChunk
  tmp :: "byte list option"
  tmp_size :: nat

definition zero_chunk :: WavMasterChunk where
  "zero_chunk =
     \<lparr>riff_id = 0, riff_size = 0, wave_id = 0, fmt_id = 0, fmt_size = 0, format_tag = 0,
      n_channels = 0, sample_rate = 0, avg_bytes_per_sec = 0, block_align = 0,
      bits_per_sample = 0, ext_size = 0, valid_bits_per_sample = 0, channel_mask = 0,
      sub_format = replicate 16 0, fact_id = 0, fact_size = 0, sample_length = 0,
      data_id = 0, data_size = 0\<rparr>"

text \<open>The handle after \<open>memset(self, 0, sizeof(WavFile))\<close>.\<close>

definition zero_WavFile :: WavFile where
  "zero_WavFile = \<lparr>fp = None, mode = None, error_code = WAV_OK, chunk = zero_chunk,
                    tmp = None, tmp_size = 0\<rparr>"

subsection \<open>Header size\<close>

text \<open>The first sum is computed in \<open>uint32_t\<close> (an \<open>int\<close> plus a \<open>uint32_t\<close>) and then widened
  to \<open>size_t\<close>; so is the fact chunk's contribution.\<close>

definition wav_get_header_size :: "WavFile \<Rightarrow> nat" where
  "wav_get_header_size self =
    (let header_size = unat (8 + 4 + 8 + fmt_size (chunk self) + 8)
     in if fact_id (chunk self) = WAV_FACT_CHUNK_ID
        then header_size + unat (8 + fact_size (chunk self))
        else header_size)"

subsection \<open>Header parser\<close>

text \<open>\<open>fread(base + off, size, 1, fp)\<close> with \<open>base\<close> the address of the master chunk: the
  bytes that arrive are stored even when the item is incomplete.\<close>

definition fread_chunk :: "WavMasterChunk \<Rightarrow> nat \<Rightarrow> nat \<Rightarrow> FILE \<Rightarrow> (WavMasterChunk \<times> FILE \<times> nat) option" where
  "fread_chunk c off sz f =
    (case fread f sz 1 of (f', got, n) \<Rightarrow>
       (case chunk_store c off got of None \<Rightarrow> None | Some c' \<Rightarrow> Some (c', f', n)))"

definition format_error :: "WavFile \<Rightarrow> WavMasterChunk \<Rightarrow> FILE \<Rightarrow> WavFile option" where
  "format_error self c f = Some (self\<lparr>fp := Some f, chunk := c, error_code := WAV_ERR_FORMAT\<rparr>)"

text \<open>The second half of \<open>wav_parse_header\<close>, from the read of the chunk header that
  follows the fmt body (a fact chunk or the data chunk) to the end.\<close>

definition wav_parse_header_tail :: "WavFile \<Rightarrow> WavMasterChunk \<Rightarrow> FILE \<Rightarrow> WavFile option" where
  "wav_parse_header_tail self c4 f4 =
    (case fread_chunk c4 offsetof_fact_chunk WAV_RIFF_HEADER_SIZE f4 of None \<Rightarrow> None | Some (c5, f5, n5) \<Rightarrow>
      if n5 \<noteq> 1 then format_error self c5 f5 else
      if fact_id c5 = WAV_FACT_CHUNK_ID then
        (case fread_chunk c5 (offsetof_fact_chunk + WAV_RIFF_HEADER_SIZE) (unat (fact_size c5)) f5 of
           None \<Rightarrow> None | Some (c6, f6, n6) \<Rightarrow>
         if n6 \<noteq> 1 then format_error self c6 f6 else
         (case fread_chunk c6 offsetof_data_chunk WAV_RIFF_HEADER_SIZE f6 of
            None \<Rightarrow> None | Some (c7, f7, n7) \<Rightarrow>
          if n7 \<noteq> 1 then format_error self c7 f7
          else Some (self\<lparr>fp := Some f7, chunk := c7, error_code := WAV_OK\<rparr>)))
      else if fact_id c5 = WAV_DATA_CHUNK_ID then
        Some (self\<lparr>fp := Some f5,
                   chunk := c5\<lparr>data_id := fact_id c5, data_size := fact_size c5, fact_size := 0\<rparr>,
                   error_code := WAV_OK\<rparr>)
      else Some (self\<lparr>fp := Some f5, chunk := c5, error_code := WAV_OK\<rparr>))"

definition wav_parse_header :: "WavFile \<Rightarrow> WavFile option" where
  "wav_parse_header self =
    (case fp self of None \<Rightarrow> None | Some f0 \<Rightarrow>
     (case fread_chunk (chunk self) 0 WAV_RIFF_HEADER_SIZE f0 of None \<Rightarrow> None | Some (c1, f1, n1) \<Rightarrow>
      if \<not> (n1 = 1 \<and> riff_id c1 = WAV_RIFF_CHUNK_ID) then format_error self c1 f1 else
     (case fread_chunk c1 8 4 f1 of None \<Rightarrow> None | Some (c2, f2, n2) \<Rightarrow>
      if \<not> (n2 = 1 \<and> wave_id c2 = WAV_WAVE_ID) then format_error self c2 f2 else
     (case fread_chunk c2 offsetof_format_chunk WAV_RIFF_HEADER_SIZE f2 of None \<Rightarrow> None | Some (c3, f3, n3) \<Rightarrow>
      if \<not> (n3 = 1 \<and> fmt_id c3 = WAV_FORMAT_CHUNK_ID) then format_error self c3 f3 else
     (case fread_chunk c3 (offsetof_format_chunk + WAV_RIFF_HEADER_SIZE) (unat (fmt_size c3)) f3 of
        None \<Rightarrow> None | Some (c4, f4, n4) \<Rightarrow>
      if n4 \<noteq> 1 then format_error self c4 f4 else
      if format_tag c4 = WAV_FORMAT_PCM then wav_parse_header_tail self c4 f4
      else if format_tag c4 = WAV_FORMAT_IEEE_FLOAT then wav_parse_header_tail self c4 f4
      else if format_tag c4 = WAV_FORMAT_ALAW \<or> format_tag c4 = WAV_FORMAT_MULAW
        then wav_parse_header_tail self c4 f4
      else format_error self c4 f4)))))"

subsection \<open>Header writer\<close>

definition os_error :: "WavFile \<Rightarrow> FILE \<Rightarrow> WavFile option" where
  "os_error self f = Some (self\<lparr>fp := Some f, error_code := WAV_ERR_OS\<rparr>)"

text \<open>The last write of \<open>wav_write_header\<close>: the data chunk's header.\<close>

definition wav_write_header_data :: "WavFile \<Rightarrow> FILE \<Rightarrow> WavFile option" where
  "wav_write_header_data self f =
    (case chunk_load (chunk self) offsetof_data_chunk WAV_RIFF_HEADER_SIZE of None \<Rightarrow> None | Some b \<Rightarrow>
     (case fwrite b WAV_RIFF_HEADER_SIZE 1 f of (f', n) \<Rightarrow>
        if n \<noteq> 1 then os_error self f'
        else Some (self\<lparr>fp := Some f', error_code := WAV_OK\<rparr>)))"

text \<open>The RIFF size is computed in \<open>uint32_t\<close>; the result of the first \<open>fseek\<close> is ignored,
  as in the source.\<close>

definition wav_riff_size :: "WavMasterChunk \<Rightarrow> WavMasterChunk" where
  "wav_riff_size c0 =
    (let c1 = c0\<lparr>riff_size := 4 + (8 + fmt_size c0) + (8 + data_size c0)\<rparr>;
         c2 = (if fact_id c1 = WAV_FACT_CHUNK_ID
               then c1\<lparr>riff_size := riff_size c1 + (8 + fact_size c1)\<rparr> else c1)
     in if riff_size c2 mod 2 \<noteq> 0 then c2\<lparr>riff_size := riff_size c2 + 1\<rparr> else c2)"

definition wav_write_header :: "WavFile \<Rightarrow> WavFile option" where
  "wav_write_header self0 =
    (case fp self0 of None \<Rightarrow> None | Some f \<Rightarrow>
     let f0 = fst (fseek_set f 0);
         c = wav_riff_size (chunk self0);
         self = self0\<lparr>chunk := c\<rparr>
     in
     (case chunk_load c 0 (WAV_RIFF_HEADER_SIZE + 4) of None \<Rightarrow> None | Some b1 \<Rightarrow>
      (case fwrite b1 (WAV_RIFF_HEADER_SIZE + 4) 1 f0 of (f1, n1) \<Rightarrow>
       if n1 \<noteq> 1 then os_error self f1 else
      (case chunk_load c offsetof_format_chunk (unat (8 + fmt_size c)) of None \<Rightarrow> None | Some b2 \<Rightarrow>
       (case fwrite b2 (unat (8 + fmt_size c)) 1 f1 of (f2, n2) \<Rightarrow>
        if n2 \<noteq> 1 then os_error self f2 else
        if fact_id c = WAV_FACT_CHUNK_ID then
          (case chunk_load c offsetof_fact_chunk (unat (8 + fact_size c)) of None \<Rightarrow> None | Some b3 \<Rightarrow>
           (case fwrite b3 (unat (8 + fact_size c)) 1 f2 of (f3, n3) \<Rightarrow>
            if n3 \<noteq> 1 then os_error self f3 else wav_write_header_data self f3))
        else wav_write_header_data self f2)))))"

subsection \<open>Lifecycle\<close>

text \<open>The resolution of the mode string at the head of \<open>wav_init\<close>; \<open>None\<close> is the final
  \<open>else\<close>, which sets \<open>WAV_ERR_MODE\<close>.\<close>

definition wav_init_mode :: "string \<Rightarrow> string option" where
  "wav_init_mode m =
    (if strncmp_eq m ''r'' 1 \<or> strncmp_eq m ''rb'' 2 then Some ''rb''
     else if strncmp_eq m ''r+'' 2 \<or> strncmp_eq m ''rb+'' 3 \<or> strncmp_eq m ''r+b'' 3 then Some ''rb+''
     else if strncmp_eq m ''w'' 1 \<or> strncmp_eq m ''wb'' 2 then Some ''wb''
     else if strncmp_eq m ''w+'' 2 \<or> strncmp_eq m ''wb+'' 3 \<or> strncmp_eq m ''w+b'' 3 then Some ''wb+''
     else if strncmp_eq m ''wx'' 2 \<or> strncmp_eq m ''wbx'' 3 then Some ''wbx''
     else if strncmp_eq m ''w+x'' 3 \<or> strncmp_eq m ''wb+x'' 4 \<or> strncmp_eq m ''w+bx'' 4 then Some ''wb+x''
     else if strncmp_eq m ''a'' 1 \<or> strncmp_eq m ''ab'' 2 then Some ''ab''
     else if strncmp_eq m ''a+'' 2 \<or> strncmp_eq m ''ab+'' 3 \<or> strncmp_eq m ''a+b'' 3 then Some ''ab+''
     else None)"

text \<open>\<open>mode[0]\<close> of a NUL-terminated string.\<close>

definition char0 :: "string \<Rightarrow> char" where
  "char0 m = (case m of [] \<Rightarrow> CHR 0x00 | c # cs \<Rightarrow> c)"

text \<open>The assignments of \<open>wav_init\<close> for a new file.  The fmt size is the difference of the
  addresses of two \<open>uint16_t\<close> fields, taken as pointers to \<open>uint16_t\<close>.\<close>

definition wav_init_defaults :: "WavMasterChunk \<Rightarrow> WavMasterChunk" where
  "wav_init_defaults c =
     c\<lparr>riff_id := WAV_RIFF_CHUNK_ID, wave_id := WAV_WAVE_ID,
       fmt_id := WAV_FORMAT_CHUNK_ID,
       fmt_size := of_nat (ptrdiff_u16 offsetof_ext_size offsetof_format_tag),
       format_tag := WAV_FORMAT_PCM, n_channels := 2, sample_rate := 44100,
       avg_bytes_per_sec := 44100 * 2 * 2, block_align := 4, bits_per_sample := 16,
       sub_format := default_sub_format,
       fact_id := WAV_DATA_CHUNK_ID, fact_size := 0,
       data_id := WAV_DATA_CHUNK_ID, data_size := 0\<rparr>"

definition wav_init_new :: "WavFile \<Rightarrow> WavFile option" where
  "wav_init_new self = wav_write_header (self\<lparr>chunk := wav_init_defaults (chunk self)\<rparr>)"

text \<open>\<open>wav_init(self, filename, mode)\<close>; \<open>existing\<close> is what the named file holds.\<close>

definition wav_init :: "byte list option \<Rightarrow> string \<Rightarrow> WavFile option" where
  "wav_init existing m =
    (case wav_init_mode m of
       None \<Rightarrow> Some (zero_WavFile\<lparr>error_code := WAV_ERR_MODE\<rparr>)
     | Some cm \<Rightarrow>
       (case fopen existing cm of
          None \<Rightarrow> Some (zero_WavFile\<lparr>mode := Some cm, error_code := WAV_ERR_OS\<rparr>)
        | Some f \<Rightarrow>
          let self = zero_WavFile\<lparr>mode := Some cm, fp := Some f\<rparr> in
          if char0 cm = CHR ''r'' then wav_parse_header self
          else if char0 cm = CHR ''a'' then
            (case wav_parse_header self of None \<Rightarrow> None | Some s1 \<Rightarrow>
               if error_code s1 = WAV_OK then Some s1
               else wav_init_new (s1\<lparr>fp := map_option rewind (fp s1)\<rparr>))
          else wav_init_new self))"

definition wav_eof :: "WavFile \<Rightarrow> bool option" where
  "wav_eof self =
    (case fp self of None \<Rightarrow> None
     | Some f \<Rightarrow> Some (feof f \<or>
         ftell f = int (wav_get_header_size self + unat (data_size (chunk self)))))"

definition wav_finalize_close :: "WavFile \<Rightarrow> FILE \<Rightarrow> WavFile option" where
  "wav_finalize_close self f =
    (if fclose_ok f then Some (self\<lparr>fp := Some f, error_code := WAV_OK\<rparr>) else os_error self f)"

definition wav_finalize :: "WavFile \<Rightarrow> WavFile option" where
  "wav_finalize self =
    (case fp self of None \<Rightarrow> Some self | Some f \<Rightarrow>
     (case mode self of None \<Rightarrow> None | Some m \<Rightarrow>
      if (strncmp_eq m ''wb'' 2 \<or> strncmp_eq m ''wb+'' 3 \<or> strncmp_eq m ''wbx'' 3 \<or>
          strncmp_eq m ''wb+x'' 4 \<or> strncmp_eq m ''ab'' 2 \<or> strncmp_eq m ''ab+'' 3) \<and>
         data_size (chunk self) mod 2 \<noteq> 0 \<and> wav_eof self = Some True
      then (case fwrite [0] 1 1 f of (f1, ret) \<Rightarrow>
              if ret \<noteq> 1 then os_error self f1 else wav_finalize_close self f1)
      else wav_finalize_close self f))"

text \<open>\<open>wav_reopen\<close>: finalize, then initialize again (the handle is zeroed by \<open>wav_init\<close>);
  \<open>existing\<close> is what the newly named file holds.\<close>

definition wav_reopen :: "WavFile \<Rightarrow> byte list option \<Rightarrow> string \<Rightarrow> WavFile option" where
  "wav_reopen self existing m =
    (case wav_finalize self of None \<Rightarrow> None | Some s \<Rightarrow> wav_init existing m)"

subsection \<open>Accessors, position and length\<close>

definition wav_get_num_channels :: "WavFile \<Rightarrow> u16" where
  "wav_get_num_channels self = n_channels (chunk self)"

definition wav_get_sample_size :: "WavFile \<Rightarrow> nat option" where
  "wav_get_sample_size self =
    (if n_channels (chunk self) = 0 then None
     else Some (unat (block_align (chunk self)) div unat (n_channels (chunk self))))"

definition wav_get_length :: "WavFile \<Rightarrow> nat option" where
  "wav_get_length self =
    (if block_align (chunk self) = 0 then None
     else Some (unat (data_size (chunk self)) div unat (block_align (chunk self))))"

text \<open>The \<open>assert\<close> is active: a position before the end of the header aborts.\<close>

definition wav_tell :: "WavFile \<Rightarrow> (WavFile \<times> int) option" where
  "wav_tell self =
    (case fp self of None \<Rightarrow> None | Some f \<Rightarrow>
     let pos = ftell f in
     if pos = - 1 then Some (self\<lparr>error_code := WAV_ERR_OS\<rparr>, - 1)
     else let header_size = int (wav_get_header_size self) in
       if pos < header_size then None
       else if block_align (chunk self) = 0 then None
       else Some (self\<lparr>error_code := WAV_OK\<rparr>,
                  (pos - header_size) div uint (block_align (chunk self))))"

datatype origin = SEEK_SET | SEEK_CUR | SEEK_END

definition wav_seek :: "WavFile \<Rightarrow> int \<Rightarrow> origin \<Rightarrow> (WavFile \<times> WavErr) option" where
  "wav_seek self0 offset0 orig =
    (case wav_get_length self0 of None \<Rightarrow> None | Some len \<Rightarrow>
     (case (if orig = SEEK_CUR
            then (case wav_tell self0 of None \<Rightarrow> None | Some (s, t) \<Rightarrow> Some (s, offset0 + t))
            else if orig = SEEK_END then Some (self0, offset0 + int len)
            else Some (self0, offset0)) of
        None \<Rightarrow> None
      | Some (self, offset) \<Rightarrow>
        if 0 \<le> offset \<and> offset \<le> int len then
          (let offset1 = uint (block_align (chunk self)) in
           case fp self of None \<Rightarrow> None | Some f \<Rightarrow>
           (case fseek_set f offset1 of (f1, ok) \<Rightarrow>
              if \<not> ok then Some (self\<lparr>fp := Some f1, error_code := WAV_ERR_OS\<rparr>, WAV_ERR_OS)
              else Some (self\<lparr>fp := Some f1, error_code := WAV_OK\<rparr>, WAV_OK)))
        else Some (self\<lparr>error_code := WAV_ERR_PARAM\<rparr>, WAV_ERR_PARAM)))"

subsection \<open>Sample transcoder\<close>

definition wav_container_sizes :: "nat list" where
  "wav_container_sizes = [0, 1, 2, 4, 4]"

text \<open>An index past the table of five entries is an access outside the object.\<close>

definition wav_calc_container_size :: "nat \<Rightarrow> nat option" where
  "wav_calc_container_size sample_size =
    (if sample_size < 5 then Some (wav_container_sizes ! sample_size) else None)"

text \<open>Modelled from the spec: the allocation macro \<open>WAV_NEW\<close> of wav.h is a parameter
  \<open>alloc\<close> of the two transfer functions, true of the byte counts whose allocation succeeds.
  The (re)allocation of the scratch buffer shared by \<open>wav_read\<close> and \<open>wav_write\<close>: the
  handle and whether the buffer is there.  Fresh memory is written before it is read; it
  is shown as zero bytes.\<close>

definition wav_scratch :: "(nat \<Rightarrow> bool) \<Rightarrow> WavFile \<Rightarrow> nat \<Rightarrow> WavFile \<times> bool" where
  "wav_scratch alloc self need =
    (if tmp_size self < need \<or> tmp self = None then
       (if alloc need then (self\<lparr>tmp := Some (replicate need 0), tmp_size := need\<rparr>, True)
        else (self\<lparr>tmp := None, tmp_size := 0, error_code := WAV_ERR_NOMEM\<rparr>, False))
     else (self, True))"

text \<open>The application's buffers are one byte array per channel, distinct from each other.
  \<open>buffers_fit\<close>: there are \<open>n_ch\<close> of them and each holds \<open>n\<close> bytes.\<close>

definition buffers_fit :: "byte list list \<Rightarrow> nat \<Rightarrow> nat \<Rightarrow> bool" where
  "buffers_fit buffers n_ch n = (n_ch \<le> length buffers \<and> list_all (\<lambda>b. n \<le> length b) (take n_ch buffers))"

text \<open>The body of the two inner loops of \<open>wav_read\<close> for channel \<open>i\<close> and frame \<open>j\<close>: copy
  \<open>ss\<close> bytes, then fill the rest of the container from the top bit of the last one.\<close>

definition read_sample :: "byte list \<Rightarrow> nat \<Rightarrow> nat \<Rightarrow> nat \<Rightarrow> nat \<Rightarrow> nat \<Rightarrow> byte list \<Rightarrow> byte list" where
  "read_sample t n_ch ss cs i j buf =
    (let b1 = fold (\<lambda>k b. b[j * cs + k := t ! (j * n_ch * ss + i * ss + k)]) [0..<ss] buf;
         fill = (if (b1 ! (j * cs + ss - 1)) AND 0x80 \<noteq> 0 then 0xff else 0x00)
     in fold (\<lambda>k b. b[j * cs + k := fill]) [ss..<cs] b1)"

definition read_channel :: "byte list \<Rightarrow> nat \<Rightarrow> nat \<Rightarrow> nat \<Rightarrow> nat \<Rightarrow> nat \<Rightarrow> byte list \<Rightarrow> byte list" where
  "read_channel t n_ch ss cs frames i buf = fold (read_sample t n_ch ss cs i) [0..<frames] buf"

definition deinterleave :: "byte list \<Rightarrow> nat \<Rightarrow> nat \<Rightarrow> nat \<Rightarrow> nat \<Rightarrow> byte list list \<Rightarrow> byte list list" where
  "deinterleave t n_ch ss cs frames buffers =
     fold (\<lambda>i bs. bs[i := read_channel t n_ch ss cs frames i (bs ! i)]) [0..<n_ch] buffers"

text \<open>\<open>wav_get_length(self) - (size_t)wav_tell(self)\<close>: the subtraction is done in
  \<open>size_t\<close>, modulo \<open>2 ^ 64\<close>.\<close>

definition size_t_sub :: "nat \<Rightarrow> int \<Rightarrow> nat" where
  "size_t_sub len t = nat ((int len - t) mod 2 ^ 64)"

text \<open>The second half of \<open>wav_read\<close>, once the clamped count is known to be positive:
  scratch buffer, bulk read, de-interleaving.\<close>

definition wav_read_transfer ::
  "(nat \<Rightarrow> bool) \<Rightarrow> WavFile \<Rightarrow> byte list list \<Rightarrow> nat \<Rightarrow> nat \<Rightarrow> nat \<Rightarrow> nat \<Rightarrow> (WavFile \<times> byte list list \<times> nat) option" where
  "wav_read_transfer alloc s1 buffers n_ch sample_size container_size count =
    (case wav_scratch alloc s1 (n_ch * count * sample_size) of (s2, have) \<Rightarrow>
      (if \<not> have then Some (s2, buffers, 0)
       else
       (case fp s2 of None \<Rightarrow> None | Some f \<Rightarrow>
        (case tmp s2 of None \<Rightarrow> None | Some t0 \<Rightarrow>
         (case fread f sample_size (n_ch * count) of (f1, got, read_count) \<Rightarrow>
           (let t1 = got @ drop (length got) t0;
                s3 = s2\<lparr>fp := Some f1, tmp := Some t1\<rparr>;
                frames = read_count div n_ch
            in
            if ferror f1 then Some (s3\<lparr>error_code := WAV_ERR_OS\<rparr>, buffers, 0)
            else if frames = 0 \<or> buffers_fit buffers n_ch (frames * container_size)
              then Some (s3\<lparr>error_code := WAV_OK\<rparr>,
                         deinterleave t1 n_ch sample_size container_size frames buffers, frames)
            else None))))))"

definition wav_read ::
  "(nat \<Rightarrow> bool) \<Rightarrow> WavFile \<Rightarrow> byte list list \<Rightarrow> nat \<Rightarrow> (WavFile \<times> byte list list \<times> nat) option" where
  "wav_read alloc self buffers count0 =
    (case wav_get_sample_size self of None \<Rightarrow> None | Some sample_size \<Rightarrow>
     (case wav_calc_container_size sample_size of None \<Rightarrow> None | Some container_size \<Rightarrow>
      (case mode self of None \<Rightarrow> None | Some m \<Rightarrow>
       (if strncmp_eq m ''wb'' 2 \<or> strncmp_eq m ''wbx'' 3 \<or> strncmp_eq m ''ab'' 2
          then Some (self\<lparr>error_code := WAV_ERR_MODE\<rparr>, buffers, 0)
        else if format_tag (chunk self) = WAV_FORMAT_EXTENSIBLE
          then Some (self\<lparr>error_code := WAV_ERR_FORMAT\<rparr>, buffers, 0)
        else
        (case wav_get_length self of None \<Rightarrow> None | Some len \<Rightarrow>
         (case wav_tell self of None \<Rightarrow> None | Some (s1, t) \<Rightarrow>
          (let len_remain = size_t_sub len t;
               count = (if count0 \<le> len_remain then count0 else len_remain)
           in
           if error_code s1 \<noteq> WAV_OK then Some (s1, buffers, 0)
           else if count = 0 then Some (s1\<lparr>error_code := WAV_OK\<rparr>, buffers, 0)
           else wav_read_transfer alloc s1 buffers (unat (wav_get_num_channels self))
                  sample_size container_size count)))))))"

text \<open>The three nested loops of \<open>wav_write\<close> that fill the scratch buffer.\<close>

definition write_sample :: "byte list list \<Rightarrow> nat \<Rightarrow> nat \<Rightarrow> nat \<Rightarrow> nat \<Rightarrow> nat \<Rightarrow> byte list \<Rightarrow> byte list" where
  "write_sample buffers n_ch ss cs i j t =
     fold (\<lambda>k b. b[j * n_ch * ss + i * ss + k := (buffers ! i) ! (j * cs + k)]) [0..<ss] t"

definition write_channel :: "byte list list \<Rightarrow> nat \<Rightarrow> nat \<Rightarrow> nat \<Rightarrow> nat \<Rightarrow> nat \<Rightarrow> byte list \<Rightarrow> byte list" where
  "write_channel buffers n_ch ss cs count i t = fold (write_sample buffers n_ch ss cs i) [0..<count] t"

definition interleave :: "byte list list \<Rightarrow> nat \<Rightarrow> nat \<Rightarrow> nat \<Rightarrow> nat \<Rightarrow> byte list \<Rightarrow> byte list" where
  "interleave buffers n_ch ss cs count t = fold (write_channel buffers n_ch ss cs count) [0..<n_ch] t"

text \<open>The tail of \<open>wav_write\<close> after the transfer: the sizes grow, the header is rewritten and
  the position restored.\<close>

definition wav_write_sizes :: "WavMasterChunk \<Rightarrow> nat \<Rightarrow> nat \<Rightarrow> nat \<Rightarrow> WavMasterChunk" where
  "wav_write_sizes c write_count sample_size n_ch =
    (let c1 = c\<lparr>data_size := data_size c + of_nat (write_count * sample_size)\<rparr>
     in if fact_id c1 = WAV_FACT_CHUNK_ID
        then c1\<lparr>sample_length := sample_length c1 + of_nat (write_count div n_ch)\<rparr> else c1)"

definition wav_write_finish :: "WavFile \<Rightarrow> FILE \<Rightarrow> nat \<Rightarrow> nat \<Rightarrow> nat \<Rightarrow> (WavFile \<times> nat) option" where
  "wav_write_finish s f1 write_count sample_size n_ch =
    (let s4 = s\<lparr>fp := Some f1, chunk := wav_write_sizes (chunk s) write_count sample_size n_ch\<rparr>;
         save_pos = ftell f1
     in if save_pos = - 1 then Some (s4\<lparr>error_code := WAV_ERR_OS\<rparr>, 0)
        else
        (case wav_write_header s4 of None \<Rightarrow> None | Some s5 \<Rightarrow>
          (if error_code s5 \<noteq> WAV_OK then Some (s5, 0)
           else
           (case fp s5 of None \<Rightarrow> None | Some f5 \<Rightarrow>
            (case fseek_set f5 save_pos of (f6, ok) \<Rightarrow>
              (if \<not> ok then Some (s5\<lparr>fp := Some f6, error_code := WAV_ERR_OS\<rparr>, 0)
               else Some (s5\<lparr>fp := Some f6, error_code := WAV_OK\<rparr>, write_count div n_ch)))))))"

text \<open>The middle of \<open>wav_write\<close>: scratch buffer, interleaving, bulk write.\<close>

definition wav_write_transfer ::
  "(nat \<Rightarrow> bool) \<Rightarrow> WavFile \<Rightarrow> byte list list \<Rightarrow> nat \<Rightarrow> nat \<Rightarrow> nat \<Rightarrow> nat \<Rightarrow> (WavFile \<times> nat) option" where
  "wav_write_transfer alloc s1 buffers n_ch sample_size container_size count =
    (case wav_scratch alloc s1 (n_ch * count * sample_size) of (s2, have) \<Rightarrow>
      (if \<not> have then Some (s2, 0)
       else
       (case fp s2 of None \<Rightarrow> None | Some f \<Rightarrow>
        (case tmp s2 of None \<Rightarrow> None | Some t0 \<Rightarrow>
          (if \<not> (sample_size = 0 \<or>
                   buffers_fit buffers n_ch ((count - 1) * container_size + sample_size))
           then None
           else
           (let t1 = interleave buffers n_ch sample_size container_size count t0;
                s3 = s2\<lparr>tmp := Some t1\<rparr>
            in
            (case fwrite t1 sample_size (n_ch * count) f of (f1, write_count) \<Rightarrow>
              (if ferror f1 then Some (s3\<lparr>fp := Some f1, error_code := WAV_ERR_OS\<rparr>, 0)
               else wav_write_finish s3 f1 write_count sample_size n_ch))))))))"

definition wav_write :: "(nat \<Rightarrow> bool) \<Rightarrow> WavFile \<Rightarrow> byte list list \<Rightarrow> nat \<Rightarrow> (WavFile \<times> nat) option" where
  "wav_write alloc self buffers count =
    (case wav_get_sample_size self of None \<Rightarrow> None | Some sample_size \<Rightarrow>
     (case wav_calc_container_size sample_size of None \<Rightarrow> None | Some container_size \<Rightarrow>
      (case mode self of None \<Rightarrow> None | Some m \<Rightarrow>
       (if strncmp_eq m ''rb'' 2 then Some (self\<lparr>error_code := WAV_ERR_MODE\<rparr>, 0)
        else if format_tag (chunk self) = WAV_FORMAT_EXTENSIBLE
          then Some (self\<lparr>error_code := WAV_ERR_FORMAT\<rparr>, 0)
        else if count = 0 then Some (self\<lparr>error_code := WAV_OK\<rparr>, 0)
        else
        (case wav_tell self of None \<Rightarrow> None | Some (s1, t) \<Rightarrow>
          (if error_code s1 \<noteq> WAV_OK then Some (s1, 0)
           else wav_write_transfer alloc s1 buffers (unat (wav_get_num_channels self))
                  sample_size container_size count))))))"

subsection \<open>Format mutators\<close>

text \<open>Arithmetic on \<open>uint16_t\<close> fields is done in \<open>int\<close> after promotion; the results are
  truncated when they are stored.\<close>

definition wav_set_format :: "WavFile \<Rightarrow> u16 \<Rightarrow> WavFile option" where
  "wav_set_format self format =
    (case mode self of None \<Rightarrow> None | Some m \<Rightarrow>
     if char0 m = CHR ''r'' then Some (self\<lparr>error_code := WAV_ERR_MODE\<rparr>)
     else
     let c1 = (chunk self)\<lparr>format_tag := format\<rparr>;
         c2 = (if format \<noteq> WAV_FORMAT_PCM \<and> format \<noteq> WAV_FORMAT_EXTENSIBLE
               then c1\<lparr>ext_size := 0,
                       fmt_size := of_nat (ptrdiff_u16 offsetof_valid_bits_per_sample offsetof_format_tag)\<rparr>
               else if format = WAV_FORMAT_EXTENSIBLE
               then c1\<lparr>ext_size := 22,
                       fmt_size := of_nat (sizeof_WavFormatChunk - WAV_RIFF_HEADER_SIZE)\<rparr>
               else c1);
         c3 = (if format = WAV_FORMAT_ALAW \<or> format = WAV_FORMAT_MULAW
               then c2\<lparr>bits_per_sample := 8\<rparr>
               else if format = WAV_FORMAT_IEEE_FLOAT
               then (let c = (if block_align c2 \<noteq> 4 \<and> block_align c2 \<noteq> 8
                              then c2\<lparr>block_align := 4\<rparr> else c2)
                     in if uint (bits_per_sample c) > 8 * uint (block_align c)
                        then c\<lparr>bits_per_sample := of_int (8 * uint (block_align c))\<rparr> else c)
               else c2)
     in wav_write_header (self\<lparr>chunk := c3\<rparr>))"

definition wav_set_num_channels :: "WavFile \<Rightarrow> u16 \<Rightarrow> WavFile option" where
  "wav_set_num_channels self n =
    (case mode self of None \<Rightarrow> None | Some m \<Rightarrow>
     if char0 m = CHR ''r'' then Some (self\<lparr>error_code := WAV_ERR_MODE\<rparr>)
     else if n < 1 then Some (self\<lparr>error_code := WAV_ERR_PARAM\<rparr>)
     else
     let c1 = (chunk self)\<lparr>n_channels := n\<rparr>;
         c2 = c1\<lparr>avg_bytes_per_sec := ucast (block_align c1) * sample_rate c1\<rparr>
     in wav_write_header (self\<lparr>chunk := c2\<rparr>))"

definition wav_set_sample_rate :: "WavFile \<Rightarrow> u32 \<Rightarrow> WavFile option" where
  "wav_set_sample_rate self rate =
    (case mode self of None \<Rightarrow> None | Some m \<Rightarrow>
     if char0 m = CHR ''r'' then Some (self\<lparr>error_code := WAV_ERR_MODE\<rparr>)
     else
     let c1 = (chunk self)\<lparr>sample_rate := rate\<rparr>;
         c2 = c1\<lparr>avg_bytes_per_sec := ucast (block_align c1) * sample_rate c1\<rparr>
     in wav_write_header (self\<lparr>chunk := c2\<rparr>))"

text \<open>The range check divides by the channel count before anything else can reject it.\<close>

definition wav_set_valid_bits_per_sample :: "WavFile \<Rightarrow> u16 \<Rightarrow> WavFile option" where
  "wav_set_valid_bits_per_sample self bits =
    (case mode self of None \<Rightarrow> None | Some m \<Rightarrow>
     if char0 m = CHR ''r'' then Some (self\<lparr>error_code := WAV_ERR_MODE\<rparr>)
     else if bits < 1 then Some (self\<lparr>error_code := WAV_ERR_PARAM\<rparr>)
     else if n_channels (chunk self) = 0 then None
     else
     let width = 8 * uint (block_align (chunk self)) div uint (n_channels (chunk self)) in
     if uint bits > width then Some (self\<lparr>error_code := WAV_ERR_PARAM\<rparr>)
     else if (format_tag (chunk self) = WAV_FORMAT_ALAW \<or> format_tag (chunk self) = WAV_FORMAT_MULAW)
             \<and> bits \<noteq> 8
       then Some (self\<lparr>error_code := WAV_ERR_PARAM\<rparr>)
     else
     let c = (if format_tag (chunk self) \<noteq> WAV_FORMAT_EXTENSIBLE
              then (chunk self)\<lparr>bits_per_sample := bits\<rparr>
              else (chunk self)\<lparr>bits_per_sample := of_int width, valid_bits_per_sample := bits\<rparr>)
     in wav_write_header (self\<lparr>chunk := c\<rparr>))"

definition wav_set_sample_size :: "WavFile \<Rightarrow> nat \<Rightarrow> WavFile option" where
  "wav_set_sample_size self sample_size =
    (case mode self of None \<Rightarrow> None | Some m \<Rightarrow>
     if char0 m = CHR ''r'' then Some (self\<lparr>error_code := WAV_ERR_MODE\<rparr>)
     else if sample_size < 1 then Some (self\<lparr>error_code := WAV_ERR_PARAM\<rparr>)
     else
     let c1 = (chunk self)\<lparr>block_align := of_nat (sample_size * unat (n_channels (chunk self)))\<rparr>;
         c2 = c1\<lparr>avg_bytes_per_sec := ucast (block_align c1) * sample_rate c1\<rparr>;
         c3 = c2\<lparr>bits_per_sample := of_nat (sample_size * 8)\<rparr>;
         c4 = (if format_tag c3 = WAV_FORMAT_EXTENSIBLE
               then c3\<lparr>valid_bits_per_sample := of_nat (sample_size * 8)\<rparr> else c3)
     in wav_write_header (self\<lparr>chunk := c4\<rparr>))"

definition wav_set_channel_mask :: "WavFile \<Rightarrow> u32 \<Rightarrow> WavFile option" where
  "wav_set_channel_mask self cmask =
    (case mode self of None \<Rightarrow> None | Some m \<Rightarrow>
     if char0 m = CHR ''r'' then Some (self\<lparr>error_code := WAV_ERR_MODE\<rparr>)
     else if format_tag (chunk self) \<noteq> WAV_FORMAT_EXTENSIBLE
       then Some (self\<lparr>error_code := WAV_ERR_FORMAT\<rparr>)
     else wav_write_header (self\<lparr>chunk := (chunk self)\<lparr>channel_mask := cmask\<rparr>\<rparr>))"

text \<open>The store through \<open>(uint16_t*)&sub_format\<close> replaces the first two bytes of the array.\<close>

definition wav_set_sub_format :: "WavFile \<Rightarrow> u16 \<Rightarrow> WavFile option" where
  "wav_set_sub_format self sf =
    (case mode self of None \<Rightarrow> None | Some m \<Rightarrow>
     if char0 m = CHR ''r'' then Some (self\<lparr>error_code := WAV_ERR_MODE\<rparr>)
     else if format_tag (chunk self) \<noteq> WAV_FORMAT_EXTENSIBLE
       then Some (self\<lparr>error_code := WAV_ERR_FORMAT\<rparr>)
     else wav_write_header
            (self\<lparr>chunk := (chunk self)\<lparr>sub_format := le16 sf @ drop 2 (sub_format (chunk self))\<rparr>\<rparr>))"

section \<open>Concrete files and handles\<close>

text \<open>A 16-bit stereo PCM file of two frames with the usual 44-byte header, the same
  audio in the extensible layout (40-byte fmt body), and the handle reached by opening a
  new file for writing, selecting one channel of one byte and writing three frames.\<close>

definition pcm_file :: "byte list" where
  "pcm_file = [0x52, 0x49, 0x46, 0x46, 44, 0, 0, 0, 0x57, 0x41, 0x56, 0x45,
               0x66, 0x6D, 0x74, 0x20, 16, 0, 0, 0, 1, 0, 2, 0, 0x44, 0xAC, 0, 0,
               0x10, 0xB1, 0x02, 0, 4, 0, 16, 0,
               0x64, 0x61, 0x74, 0x61, 8, 0, 0, 0,
               1, 2, 3, 4, 5, 6, 7, 8]"

definition ext_file :: "byte list" where
  "ext_file = [0x52, 0x49, 0x46, 0x46, 68, 0, 0, 0, 0x57, 0x41, 0x56, 0x45,
               0x66, 0x6D, 0x74, 0x20, 40, 0, 0, 0, 0xFE, 0xFF, 2, 0, 0x44, 0xAC, 0, 0,
               0x10, 0xB1, 0x02, 0, 4, 0, 16, 0, 22, 0, 16, 0, 3, 0, 0, 0,
               0x01, 0x00, 0x00, 0x00, 0x00, 0x00, 0x10, 0x00,
               0x80, 0x00, 0x00, 0xaa, 0x00, 0x38, 0x9b, 0x71,
               0x64, 0x61, 0x74, 0x61, 8, 0, 0, 0,
               1, 2, 3, 4, 5, 6, 7, 8]"

definition mono8_handle :: WavFile where
  "mono8_handle =
     \<lparr>fp = Some \<lparr>contents = [0x52, 0x49, 0x46, 0x46, 32, 0, 0, 0, 0x57, 0x41, 0x56, 0x45,
                              0x66, 0x6D, 0x74, 0x20, 8, 0, 0, 0, 1, 0, 1, 0, 0x44, 0xAC, 0, 0,
                              0x64, 0x61, 0x74, 0x61, 3, 0, 0, 0, 1, 2, 3],
                  fpos = 39, eof_ind = False, err_ind = False, readable = False,
                  writable = True, append_mode = False, broken = False\<rparr>,
      mode = Some ''wb'', error_code = WAV_OK,
      chunk = \<lparr>riff_id = 0x46464952, riff_size = 32, wave_id = 0x45564157,
                fmt_id = 0x20746D66, fmt_size = 8, format_tag = 1, n_channels = 1,
                sample_rate = 44100, avg_bytes_per_sec = 44100, block_align = 1,
                bits_per_sample = 8, ext_size = 0, valid_bits_per_sample = 0,
                channel_mask = 0,
                sub_format = [0x01, 0x00, 0x00, 0x00, 0x00, 0x00, 0x10, 0x00,
                              0x80, 0x00, 0x00, 0xaa, 0x00, 0x38, 0x9b, 0x71],
                fact_id = 0x61746164, fact_size = 0, sample_length = 0,
                data_id = 0x61746164, data_size = 3\<rparr>,
      tmp = Some [1, 2, 3], tmp_size = 3\<rparr>"

text \<open>The handle that opening the PCM file for reading gives, and its stream.\<close>

definition pcm_stream :: FILE where
  "pcm_stream = \<lparr>contents = pcm_file, fpos = 44, eof_ind = False, err_ind = False,
                  readable = True, writable = False, append_mode = False, broken = False\<rparr>"

definition pcm_handle :: WavFile where
  "pcm_handle =
     \<lparr>fp = Some pcm_stream, mode = Some ''rb'', error_code = WAV_OK,
      chunk = \<lparr>riff_id = 0x46464952, riff_size = 44, wave_id = 0x45564157,
                fmt_id = 0x20746D66, fmt_size = 16, format_tag = 1, n_channels = 2,
                sample_rate = 44100, avg_bytes_per_sec = 176400, block_align = 4,
                bits_per_sample = 16, ext_size = 0, valid_bits_per_sample = 0,
                channel_mask = 0, sub_format = replicate 16 0,
                fact_id = 0x61746164, fact_size = 0, sample_length = 0,
                data_id = 0x61746164, data_size = 8\<rparr>,
      tmp = None, tmp_size = 0\<rparr>"

text \<open>The handle \<open>wav_init\<close> passes to the parser when the extensible file is opened for
  reading.\<close>

definition ext_handle :: WavFile where
  "ext_handle = zero_WavFile\<lparr>mode := Some ''rb'', fp := fopen (Some ext_file) ''rb''\<rparr>"

text \<open>The frames between the stream position and the end of the data: the total length
  minus the current frame position.\<close>

definition frames_remaining :: "WavFile \<Rightarrow> FILE \<Rightarrow> nat" where
  "frames_remaining self f =
     unat (data_size (chunk self)) div unat (block_align (chunk self)) -
     (fpos f - wav_get_header_size self) div unat (block_align (chunk self))"

subsection \<open>Notions used to state the round trip\<close>

text \<open>A function on byte arrays that keeps the length and stores \<open>v x\<close> at every index \<open>x\<close>
  of \<open>S\<close> inside the array, leaving the rest alone; the byte the interleaving loops store at
  index \<open>x\<close> of the scratch buffer, and the byte the de-interleaving loops store at index \<open>x\<close>
  of channel \<open>i\<close>; two streams that agree from byte \<open>p\<close> on; a handle whose scratch buffer
  has the recorded size; and a container whose bytes past the sample are its sign
  extension, as in every value of the sample width.\<close>

definition writes :: "(byte list \<Rightarrow> byte list) \<Rightarrow> nat set \<Rightarrow> (nat \<Rightarrow> byte) \<Rightarrow> bool" where
  "writes g S v = (\<forall>b. length (g b) = length b \<and>
                       (\<forall>x. x < length b \<longrightarrow> g b ! x = (if x \<in> S then v x else b ! x)))"

definition vwrite :: "byte list list \<Rightarrow> nat \<Rightarrow> nat \<Rightarrow> nat \<Rightarrow> nat \<Rightarrow> byte" where
  "vwrite buffers n_ch ss cs x =
     (buffers ! ((x div ss) mod n_ch)) ! ((x div (n_ch * ss)) * cs + x mod ss)"

definition vread :: "byte list \<Rightarrow> nat \<Rightarrow> nat \<Rightarrow> nat \<Rightarrow> nat \<Rightarrow> nat \<Rightarrow> byte" where
  "vread t n_ch ss cs i x =
     (if x mod cs < ss then t ! ((x div cs) * n_ch * ss + i * ss + x mod cs)
      else if (t ! ((x div cs) * n_ch * ss + i * ss + ss - 1)) AND 0x80 \<noteq> 0 then 0xff else 0x00)"

definition same_tail :: "nat \<Rightarrow> FILE \<Rightarrow> FILE \<Rightarrow> bool" where
  "same_tail p f f' =
     (drop p (contents f') = drop p (contents f) \<and> length (contents f') = length (contents f) \<and>
      writable f' = writable f \<and> readable f' = readable f \<and> broken f' = broken f \<and>
      append_mode f' = append_mode f \<and> err_ind f' = err_ind f)"

definition scratch_ok :: "WavFile \<Rightarrow> bool" where
  "scratch_ok s = (case tmp s of None \<Rightarrow> True | Some t \<Rightarrow> length t = tmp_size s)"

definition sign_extended :: "nat \<Rightarrow> nat \<Rightarrow> byte list \<Rightarrow> nat \<Rightarrow> bool" where
  "sign_extended ss cs buf j =
     list_all (\<lambda>k. buf ! (j * cs + k) = (if (buf ! (j * cs + ss - 1)) AND 0x80 \<noteq> 0 then 0xff else 0x00))
       [ss..<cs]"

subsection \<open>The header as it lies in the file\<close>

text \<open>The bytes \<open>wav_write_header\<close> sends for a chunk model, write by write: the RIFF header
  with the WAVE id and the fmt chunk, then the fact chunk when there is one, then the data
  chunk's header.\<close>

definition fmt_image :: "WavMasterChunk \<Rightarrow> byte list" where
  "fmt_image c =
     take 12 (chunk_bytes c) @ take (unat (8 + fmt_size c)) (drop 12 (chunk_bytes c))"

definition header_image :: "WavMasterChunk \<Rightarrow> byte list" where
  "header_image c =
     fmt_image c @
     (if fact_id c = WAV_FACT_CHUNK_ID
      then take (unat (8 + fact_size c)) (drop 60 (chunk_bytes c)) else []) @
     take 8 (drop 72 (chunk_bytes c))"

text \<open>What the file of a handle holds.\<close>

definition file_bytes :: "WavFile \<Rightarrow> byte list" where
  "file_bytes s = (case fp s of None \<Rightarrow> [] | Some f \<Rightarrow> contents f)"

text \<open>Where the next \<open>fwrite\<close> on a stream puts its first byte: at the end of the file on
  a stream opened for appending, at the stream position otherwise.\<close>

definition write_pos :: "FILE \<Rightarrow> nat" where
  "write_pos f = (if append_mode f then length (contents f) else fpos f)"

subsection \<open>Sessions\<close>

text \<open>The file left by this session: open a new file for writing, select the formats
  listed one after the other, one channel and three bytes per sample, write the two frames
  0x830201 (negative) and 0x060504 from 32-bit containers, and finalize.  Then the session
  that opens such a file for reading and reads two frames into a zeroed buffer: the status,
  the buffers and the count; \<open>None\<close> when the program aborts.\<close>

definition session_file :: "u16 list \<Rightarrow> byte list option" where
  "session_file formats =
     Option.bind (wav_init None ''w'') (\<lambda>h.
     Option.bind (fold (\<lambda>t ho. Option.bind ho (\<lambda>h. wav_set_format h t)) formats (Some h)) (\<lambda>h.
     Option.bind (wav_set_num_channels h 1) (\<lambda>h.
     Option.bind (wav_set_sample_size h 3) (\<lambda>h.
     Option.bind (wav_write (\<lambda>n. True) h [[0x01, 0x02, 0x83, 0xFF, 0x04, 0x05, 0x06, 0x00]] 2) (\<lambda>(h, n).
     map_option file_bytes (wav_finalize h))))))"

definition read_back :: "byte list \<Rightarrow> (WavErr \<times> byte list list \<times> nat) option" where
  "read_back bs =
     Option.bind (wav_init (Some bs) ''r'') (\<lambda>r.
       map_option (\<lambda>(s, b, n). (error_code s, b, n)) (wav_read (\<lambda>n. True) r [replicate 8 0] 2))"

text \<open>Two handles with three bytes of data, one byte a frame.  The first is opened for
  writing and given the extensible format and then A-law before the write, so that its
  header shrinks from 68 to 37 bytes; the second is opened for appending on a new file.\<close>

definition shrunk_header_handle :: "WavFile option" where
  "shrunk_header_handle =
     Option.bind (wav_init None ''w'') (\<lambda>h.
     Option.bind (wav_set_format h WAV_FORMAT_EXTENSIBLE) (\<lambda>h.
     Option.bind (wav_set_format h WAV_FORMAT_ALAW) (\<lambda>h.
     Option.bind (wav_set_num_channels h 1) (\<lambda>h.
     Option.bind (wav_set_sample_size h 1) (\<lambda>h.
     map_option fst (wav_write (\<lambda>n. True) h [[1, 2, 3]] 3))))))"

definition append_handle :: "WavFile option" where
  "append_handle =
     Option.bind (wav_init None ''a'') (\<lambda>h.
     Option.bind (wav_set_num_channels h 1) (\<lambda>h.
     Option.bind (wav_set_sample_size h 1) (\<lambda>h.
     map_option fst (wav_write (\<lambda>n. True) h [[1, 2, 3]] 3))))"

text \<open>A handle whose last operation was refused with a mode, parameter or format error.\<close>

definition refused :: "WavFile \<Rightarrow> bool" where
  "refused s = (error_code s = WAV_ERR_MODE \<or> error_code s = WAV_ERR_PARAM \<or> error_code s = WAV_ERR_FORMAT)"

section \<open>The header writer\<close>

lemma mono8_handle_reached:
  "Option.bind (wav_init None ''w'') (\<lambda>h. Option.bind (wav_set_num_channels h 1)
     (\<lambda>h. Option.bind (wav_set_sample_size h 1)
     (\<lambda>h. map_option fst (wav_write (\<lambda>n. True) h [[1, 2, 3]] 3)))) = Some mono8_handle"
  by code_simp

lemma word_mod2_succ: "(w :: u32) mod 2 \<noteq> 0 \<Longrightarrow> (w + 1) mod 2 = 0"
  by (metis even_iff_mod_2_eq_zero even_plus_one_iff)

lemma riff_size_even: "riff_size (wav_riff_size c) mod 2 = 0"
  by (simp add: wav_riff_size_def Let_def word_mod2_succ)

lemma wav_riff_size_other:
  "data_size (wav_riff_size c) = data_size c"
  "fmt_size (wav_riff_size c) = fmt_size c"
  "fact_size (wav_riff_size c) = fact_size c"
  "fact_id (wav_riff_size c) = fact_id c"
  by (simp_all add: wav_riff_size_def Let_def)

lemma wav_write_header_data_chunk:
  "wav_write_header_data s f = Some s' \<Longrightarrow> chunk s' = chunk s \<and> (error_code s' = WAV_OK \<or> error_code s' = WAV_ERR_OS)"
  by (auto simp: wav_write_header_data_def os_error_def split: option.splits prod.splits if_splits)

lemma wav_write_header_chunk:
  "wav_write_header s = Some s' \<Longrightarrow> chunk s' = wav_riff_size (chunk s) \<and> (error_code s' = WAV_OK \<or> error_code s' = WAV_ERR_OS)"
  unfolding wav_write_header_def Let_def
  by (auto simp: os_error_def split: option.splits prod.splits if_splits dest!: wav_write_header_data_chunk)

lemma wav_write_header_data_total: "\<exists>s'. wav_write_header_data s f = Some s'"
  by (simp add: wav_write_header_data_def chunk_load_def sizeof_WavMasterChunk_def offsetof_data_chunk_def
      WAV_RIFF_HEADER_SIZE_def os_error_def split: prod.splits)

lemma unat_8_plus: "unat (w :: u32) \<le> 60 \<Longrightarrow> unat (8 + w) = 8 + unat w"
  by (simp add: unat_word_ariths)

lemma wav_write_header_total:
  assumes "fp s = Some f" "unat (fmt_size (chunk s)) \<le> 40" "unat (fact_size (chunk s)) \<le> 4"
  shows "\<exists>s'. wav_write_header s = Some s'"
  using assms wav_write_header_data_total
  unfolding wav_write_header_def Let_def
  by (auto simp: os_error_def chunk_load_def sizeof_WavMasterChunk_def offsetof_format_chunk_def offsetof_fact_chunk_def
       WAV_RIFF_HEADER_SIZE_def wav_riff_size_other unat_8_plus split: option.splits prod.splits if_splits)

text \<open>
  Claim C6.  Every run of the header writer on a handle with a stream whose fmt and fact
  bodies fit their structures returns, and then the RIFF size is
  \<open>4 + (8 + fmt.size) + (8 + data.size)\<close>, plus \<open>8 + fact.size\<close> when the fact chunk is
  present, plus one when that sum is odd (all in 32-bit arithmetic); it is even, and the
  data size is unchanged.
\<close>

theorem wav_write_header_riff_size:
  assumes "fp self = Some f"
    and "unat (fmt_size (chunk self)) \<le> 40"
    and "unat (fact_size (chunk self)) \<le> 4"
  shows "\<exists>s'. wav_write_header self = Some s' \<and>
           riff_size (chunk s') =
             (let total = 4 + (8 + fmt_size (chunk self)) + (8 + data_size (chunk self)) +
                          (if fact_id (chunk self) = WAV_FACT_CHUNK_ID
                           then 8 + fact_size (chunk self) else 0)
              in if total mod 2 \<noteq> 0 then total + 1 else total) \<and>
           riff_size (chunk s') mod 2 = 0 \<and>
           data_size (chunk s') = data_size (chunk self)"
proof -
  from assms obtain s' where s': "wav_write_header self = Some s'"
    using wav_write_header_total by blast
  then have c: "chunk s' = wav_riff_size (chunk self)"
    by (simp add: wav_write_header_chunk)
  have r: "riff_size (chunk s') =
             (let total = 4 + (8 + fmt_size (chunk self)) + (8 + data_size (chunk self)) +
                          (if fact_id (chunk self) = WAV_FACT_CHUNK_ID
                           then 8 + fact_size (chunk self) else 0)
              in if total mod 2 \<noteq> 0 then total + 1 else total)"
    unfolding c by (simp add: wav_riff_size_def Let_def)
  have e: "riff_size (chunk s') mod 2 = 0"
    unfolding c by (rule riff_size_even)
  have d: "data_size (chunk s') = data_size (chunk self)"
    unfolding c by (simp add: wav_riff_size_other)
  show ?thesis by (intro exI [of _ s'] conjI s' r e d)
qed

theorem wav_write_header_riff_size_witness:
  "fp mono8_handle \<noteq> None \<and> data_size (chunk mono8_handle) = 3 \<and>
   (\<exists>s'. wav_write_header mono8_handle = Some s' \<and> riff_size (chunk s') = 32 \<and>
         riff_size (chunk s') mod 2 = 0 \<and> data_size (chunk s') = 3)"
  using wav_write_header_riff_size [of mono8_handle "the (fp mono8_handle)"]
  by (simp add: mono8_handle_def WAV_FACT_CHUNK_ID_def)

section \<open>Format mutators\<close>

lemma wav_write_header_status:
  "wav_write_header s = Some s' \<Longrightarrow> error_code s' = WAV_OK \<or> error_code s' = WAV_ERR_OS"
  by (simp add: wav_write_header_chunk)

lemma refused_write_header: "wav_write_header s = Some s' \<Longrightarrow> \<not> refused s'"
  by (auto simp: refused_def dest: wav_write_header_status)

lemma set_format_refused:
  "wav_set_format self a = Some s' \<Longrightarrow> refused s' \<Longrightarrow> s' = self\<lparr>error_code := error_code s'\<rparr>"
  unfolding wav_set_format_def Let_def
  by (auto split: option.splits if_splits dest: refused_write_header)

lemma set_num_channels_refused:
  "wav_set_num_channels self a = Some s' \<Longrightarrow> refused s' \<Longrightarrow> s' = self\<lparr>error_code := error_code s'\<rparr>"
  unfolding wav_set_num_channels_def Let_def
  by (auto split: option.splits if_splits dest: refused_write_header)

lemma set_sample_rate_refused:
  "wav_set_sample_rate self a = Some s' \<Longrightarrow> refused s' \<Longrightarrow> s' = self\<lparr>error_code := error_code s'\<rparr>"
  unfolding wav_set_sample_rate_def Let_def
  by (auto split: option.splits if_splits dest: refused_write_header)

lemma set_valid_bits_refused:
  "wav_set_valid_bits_per_sample self a = Some s' \<Longrightarrow> refused s' \<Longrightarrow> s' = self\<lparr>error_code := error_code s'\<rparr>"
  unfolding wav_set_valid_bits_per_sample_def Let_def
  by (auto split: option.splits if_splits dest: refused_write_header)

lemma set_sample_size_refused:
  "wav_set_sample_size self n = Some s' \<Longrightarrow> refused s' \<Longrightarrow> s' = self\<lparr>error_code := error_code s'\<rparr>"
  unfolding wav_set_sample_size_def Let_def
  by (auto split: option.splits if_splits dest: refused_write_header)

lemma set_channel_mask_refused:
  "wav_set_channel_mask self a = Some s' \<Longrightarrow> refused s' \<Longrightarrow> s' = self\<lparr>error_code := error_code s'\<rparr>"
  unfolding wav_set_channel_mask_def Let_def
  by (auto split: option.splits if_splits dest: refused_write_header)

lemma set_sub_format_refused:
  "wav_set_sub_format self a = Some s' \<Longrightarrow> refused s' \<Longrightarrow> s' = self\<lparr>error_code := error_code s'\<rparr>"
  unfolding wav_set_sub_format_def Let_def
  by (auto split: option.splits if_splits dest: refused_write_header)

text \<open>
  Claim C10.  Whenever one of the seven format mutators returns with a mode, parameter or
  format error, the handle is the one it was given but for the status: the chunk model is
  unchanged and so is the stream (nothing was written, the position has not moved).
\<close>

theorem mutators_refuse_before_mutation:
  assumes "error_code s' = WAV_ERR_MODE \<or> error_code s' = WAV_ERR_PARAM \<or> error_code s' = WAV_ERR_FORMAT"
    and "wav_set_format self tag = Some s' \<or> wav_set_num_channels self n = Some s' \<or>
         wav_set_sample_rate self rate = Some s' \<or> wav_set_valid_bits_per_sample self bits = Some s' \<or>
         wav_set_sample_size self sz = Some s' \<or> wav_set_channel_mask self cmask = Some s' \<or>
         wav_set_sub_format self sf = Some s'"
  shows "chunk s' = chunk self \<and> fp s' = fp self \<and> s' = self\<lparr>error_code := error_code s'\<rparr>"
proof -
  from assms(1) have r: "refused s'" by (simp add: refused_def)
  from assms(2) have "s' = self\<lparr>error_code := error_code s'\<rparr>"
    using set_format_refused [OF _ r] set_num_channels_refused [OF _ r]
      set_sample_rate_refused [OF _ r] set_valid_bits_refused [OF _ r]
      set_sample_size_refused [OF _ r] set_channel_mask_refused [OF _ r]
      set_sub_format_refused [OF _ r]
    by blast
  then show ?thesis
    by (metis WavFile.select_convs(1,4) WavFile.surjective WavFile.update_convs(3))
qed

theorem mutators_refuse_before_mutation_witness:
  "wav_set_num_channels mono8_handle 0 = Some (mono8_handle\<lparr>error_code := WAV_ERR_PARAM\<rparr>) \<and>
   wav_set_channel_mask mono8_handle 3 = Some (mono8_handle\<lparr>error_code := WAV_ERR_FORMAT\<rparr>) \<and>
   chunk (mono8_handle\<lparr>error_code := WAV_ERR_PARAM\<rparr>) = chunk mono8_handle \<and>
   fp (mono8_handle\<lparr>error_code := WAV_ERR_PARAM\<rparr>) = fp mono8_handle"
  using mutators_refuse_before_mutation [of "mono8_handle\<lparr>error_code := WAV_ERR_PARAM\<rparr>" mono8_handle 1 0]
  by (simp add: wav_set_num_channels_def wav_set_channel_mask_def mono8_handle_def char0_def WAV_FORMAT_EXTENSIBLE_def)

section \<open>The memory image of the chunk model\<close>

lemma le16_word:
  "ucast (ucast w :: byte) OR push_bit 8 (ucast (ucast (drop_bit 8 w) :: byte)) = (w :: u16)"
  by (rule bit_word_eqI) (auto simp: bit_simps)

lemma le32_word:
  "ucast (ucast w :: byte) OR push_bit 8 (ucast (ucast (drop_bit 8 w) :: byte)) OR
   push_bit 16 (ucast (ucast (drop_bit 16 w) :: byte)) OR
   push_bit 24 (ucast (ucast (drop_bit 24 w) :: byte)) = (w :: u32)"
proof (rule bit_word_eqI)
  fix n assume n: "n < LENGTH(32)"
  have c: "n < 8 \<or> (8 \<le> n \<and> n < 16) \<or> (16 \<le> n \<and> n < 24) \<or> (24 \<le> n \<and> n < 32)"
    using n by auto
  show "bit (ucast (ucast w :: byte) OR push_bit 8 (ucast (ucast (drop_bit 8 w) :: byte)) OR
   push_bit 16 (ucast (ucast (drop_bit 16 w) :: byte)) OR
   push_bit 24 (ucast (ucast (drop_bit 24 w) :: byte)) :: u32) n = bit w n"
    using c n by (auto simp: bit_simps)
qed

lemma length_le32 [simp]: "length (le32 w) = 4" by (simp add: le32_def)
lemma length_le16 [simp]: "length (le16 w) = 2" by (simp add: le16_def)
lemma length_array16 [simp]: "length (array16 xs) = 16" by (simp add: array16_def)

lemma length_chunk_bytes [simp]: "length (chunk_bytes c) = 80"
  by (simp add: chunk_bytes_def)

lemma rd32_le32: "rd32 (le32 w) 0 = w"
  by (simp add: rd32_def le32_def le32_word)

lemma rd16_le16: "rd16 (le16 w) 0 = w"
  by (simp add: rd16_def le16_def le16_word)

lemma rd32_append_left: "p + 4 \<le> length xs \<Longrightarrow> rd32 (xs @ ys) p = rd32 xs p"
  by (simp add: rd32_def nth_append)

lemma rd32_append_right: "length xs \<le> p \<Longrightarrow> rd32 (xs @ ys) p = rd32 ys (p - length xs)"
  by (simp add: rd32_def nth_append Suc_diff_le)

lemma rd16_append_left: "p + 2 \<le> length xs \<Longrightarrow> rd16 (xs @ ys) p = rd16 xs p"
  by (simp add: rd16_def nth_append)

lemma rd16_append_right: "length xs \<le> p \<Longrightarrow> rd16 (xs @ ys) p = rd16 ys (p - length xs)"
  by (simp add: rd16_def nth_append Suc_diff_le)

lemma rd32_take: "p + 4 \<le> k \<Longrightarrow> rd32 (take k xs) p = rd32 xs p"
  by (simp add: rd32_def)

lemma rd16_take: "p + 2 \<le> k \<Longrightarrow> rd16 (take k xs) p = rd16 xs p"
  by (simp add: rd16_def)

lemma rd32_drop: "k \<le> length xs \<Longrightarrow> rd32 (drop k xs) p = rd32 xs (k + p)"
  by (simp add: rd32_def add.assoc)

lemma rd16_drop: "k \<le> length xs \<Longrightarrow> rd16 (drop k xs) p = rd16 xs (k + p)"
  by (simp add: rd16_def add.assoc)

lemmas rd_append = rd32_append_left rd32_append_right rd16_append_left rd16_append_right

text \<open>Reading a field back from the memory image.\<close>

lemma chunk_bytes_fields:
  "rd32 (chunk_bytes c) 0 = riff_id c"
  "rd32 (chunk_bytes c) 4 = riff_size c"
  "rd32 (chunk_bytes c) 8 = wave_id c"
  "rd32 (chunk_bytes c) 12 = fmt_id c"
  "rd32 (chunk_bytes c) 16 = fmt_size c"
  "rd16 (chunk_bytes c) 20 = format_tag c"
  "rd16 (chunk_bytes c) 22 = n_channels c"
  "rd32 (chunk_bytes c) 60 = fact_id c"
  "rd32 (chunk_bytes c) 64 = fact_size c"
  "rd32 (chunk_bytes c) 72 = data_id c"
  "rd32 (chunk_bytes c) 76 = data_size c"
  by (simp_all add: chunk_bytes_def rd_append rd32_le32 rd16_le16)


section \<open>The header parser\<close>

lemma chunk_store_format_tag:
  assumes "chunk_store c off bs = Some c'" and "22 \<le> off"
  shows "format_tag c' = format_tag c"
proof -
  from assms(1) have le: "off + length bs \<le> 80"
    and c': "c' = chunk_of_bytes (take off (chunk_bytes c) @ bs @ drop (off + length bs) (chunk_bytes c))"
    by (auto simp: chunk_store_def sizeof_WavMasterChunk_def split: if_splits)
  have "format_tag c' = rd16 (take off (chunk_bytes c)) 20"
    unfolding c' using assms(2) le by (simp add: chunk_of_bytes_def rd16_append_left)
  also have "\<dots> = format_tag c"
    using assms(2) by (simp add: rd16_take chunk_bytes_fields)
  finally show ?thesis .
qed

lemma fread_chunk_format_tag:
  "fread_chunk c off sz f = Some (c', f', n) \<Longrightarrow> 22 \<le> off \<Longrightarrow> format_tag c' = format_tag c"
  by (auto simp: fread_chunk_def split: prod.splits option.splits dest: chunk_store_format_tag)

lemma wav_parse_header_tail_tag:
  assumes "wav_parse_header_tail self c4 f4 = Some s'"
  shows "format_tag (chunk s') = format_tag c4"
  using assms unfolding wav_parse_header_tail_def format_error_def
  by (auto simp: offsetof_fact_chunk_def offsetof_data_chunk_def WAV_RIFF_HEADER_SIZE_def
      split: option.splits prod.splits if_splits dest!: fread_chunk_format_tag)

lemma wav_parse_header_tail_status:
  assumes "wav_parse_header_tail self c4 f4 = Some s'"
  shows "error_code s' = WAV_OK \<or> error_code s' = WAV_ERR_FORMAT"
  using assms unfolding wav_parse_header_tail_def format_error_def
  by (auto split: option.splits prod.splits if_splits)

subsection \<open>Reading a well-formed header\<close>

lemma chunk_store_eq:
  "chunk_store c off bs = Some c' \<Longrightarrow>
   off + length bs \<le> 80 \<and>
   c' = chunk_of_bytes (take off (chunk_bytes c) @ bs @ drop (off + length bs) (chunk_bytes c))"
  by (auto simp: chunk_store_def sizeof_WavMasterChunk_def split: if_splits)

lemma chunk_store_Some:
  "off + length bs \<le> 80 \<Longrightarrow> \<exists>c'. chunk_store c off bs = Some c'"
  by (simp add: chunk_store_def sizeof_WavMasterChunk_def)

lemma chunk_store_new:
  assumes "chunk_store c off bs = Some c'"
  shows "off = 0 \<Longrightarrow> 8 \<le> length bs \<Longrightarrow> riff_id c' = rd32 bs 0"
    and "off = 8 \<Longrightarrow> 4 \<le> length bs \<Longrightarrow> wave_id c' = rd32 bs 0"
    and "off = 12 \<Longrightarrow> 8 \<le> length bs \<Longrightarrow> fmt_id c' = rd32 bs 0 \<and> fmt_size c' = rd32 bs 4"
    and "off = 20 \<Longrightarrow> 2 \<le> length bs \<Longrightarrow> format_tag c' = rd16 bs 0"
    and "off = 60 \<Longrightarrow> 8 \<le> length bs \<Longrightarrow> fact_id c' = rd32 bs 0 \<and> fact_size c' = rd32 bs 4"
  using chunk_store_eq [OF assms]
  by (simp_all add: chunk_of_bytes_def rd_append)

lemma chunk_store_keep:
  assumes "chunk_store c off bs = Some c'" "20 \<le> off"
  shows "fmt_size c' = fmt_size c"
proof -
  from chunk_store_eq [OF assms(1)] have le: "off + length bs \<le> 80"
    and c': "c' = chunk_of_bytes (take off (chunk_bytes c) @ bs @ drop (off + length bs) (chunk_bytes c))"
    by simp_all
  have "fmt_size c' = rd32 (take off (chunk_bytes c)) 16"
    unfolding c' using assms(2) le by (simp add: chunk_of_bytes_def rd32_append_left)
  also have "\<dots> = fmt_size c"
    using assms(2) by (simp add: rd32_take chunk_bytes_fields)
  finally show ?thesis .
qed

lemma fread_full:
  assumes "readable g" "\<not> broken g" "0 < sz" "fpos g + sz \<le> length (contents g)"
  shows "fread g sz 1 = (g\<lparr>fpos := fpos g + sz\<rparr>, take sz (drop (fpos g) (contents g)), 1)"
proof -
  have "min (length (contents g) - fpos g) sz = sz" using assms(4) by simp
  then show ?thesis using assms(1,2,3) by (simp add: fread_def Let_def)
qed

lemma fread_chunk_full:
  assumes "readable g" "\<not> broken g" "0 < sz" "fpos g + sz \<le> length (contents g)"
    and "off + sz \<le> 80"
  shows "\<exists>c'. fread_chunk c off sz g = Some (c', g\<lparr>fpos := fpos g + sz\<rparr>, 1) \<and>
              chunk_store c off (take sz (drop (fpos g) (contents g))) = Some c'"
proof -
  have "length (take sz (drop (fpos g) (contents g))) = sz" using assms(4) by simp
  then obtain c' where "chunk_store c off (take sz (drop (fpos g) (contents g))) = Some c'"
    using chunk_store_Some [of off "take sz (drop (fpos g) (contents g))" c] assms(5) by auto
  then show ?thesis
    using fread_full [OF assms(1-4)] by (simp add: fread_chunk_def)
qed


text \<open>The parser up to the check of the format tag, on a stream that starts with the
  RIFF header, the WAVE id and the fmt chunk of the chunk model \<open>c\<close>.\<close>

lemma wav_parse_header_fmt:
  assumes g: "readable g" "\<not> broken g" "fpos g = 0"
    and hdr: "contents g = fmt_image c @ rest"
    and c: "riff_id c = WAV_RIFF_CHUNK_ID" "wave_id c = WAV_WAVE_ID" "fmt_id c = WAV_FORMAT_CHUNK_ID"
    and n: "2 \<le> unat (fmt_size c)" "unat (fmt_size c) \<le> 40"
    and s: "fp self = Some g"
  shows "\<exists>c4. format_tag c4 = format_tag c \<and> fmt_size c4 = fmt_size c \<and>
           wav_parse_header self =
             (if format_tag c = WAV_FORMAT_PCM \<or> format_tag c = WAV_FORMAT_IEEE_FLOAT \<or>
                 format_tag c = WAV_FORMAT_ALAW \<or> format_tag c = WAV_FORMAT_MULAW
              then wav_parse_header_tail self c4 (g\<lparr>fpos := 20 + unat (fmt_size c)\<rparr>)
              else format_error self c4 (g\<lparr>fpos := 20 + unat (fmt_size c)\<rparr>))"
proof -
  define n where "n = unat (fmt_size c)"
  define img where "img = chunk_bytes c"
  let ?B = "contents g"
  have li: "length img = 80" by (simp add: img_def)
  have u: "unat (8 + fmt_size c) = 8 + n"
    using n by (simp add: n_def unat_word_ariths)
  have B: "?B = take 12 img @ take (8 + n) (drop 12 img) @ rest"
    by (simp add: hdr fmt_image_def u img_def)
  have n40: "n \<le> 40" "2 \<le> n" using n by (simp_all add: n_def)
  have lB: "20 + n \<le> length ?B" unfolding B using li n40 by simp
  have B1: "take 8 ?B = take 8 img" unfolding B using li by simp
  have B2: "take 4 (drop 8 ?B) = take 4 (drop 8 img)" unfolding B using li by (simp add: drop_take)
  have B3: "take 8 (drop 12 ?B) = take 8 (drop 12 img)" unfolding B using li by simp
  have B4: "take n (drop 20 ?B) = take n (drop 20 img)" unfolding B using li n40 by (simp add: drop_take)
  obtain c1 where r1: "fread_chunk (chunk self) 0 8 g = Some (c1, g\<lparr>fpos := 8\<rparr>, 1)"
      and s1: "chunk_store (chunk self) 0 (take 8 img) = Some c1"
    using fread_chunk_full [of g 8 0 "chunk self"] g lB by (auto simp: B1)
  have i1: "riff_id c1 = WAV_RIFF_CHUNK_ID"
    using chunk_store_new(1) [OF s1] li by (simp add: rd32_take img_def chunk_bytes_fields c)
  obtain c2 where r2: "fread_chunk c1 8 4 (g\<lparr>fpos := 8\<rparr>) = Some (c2, g\<lparr>fpos := 12\<rparr>, 1)"
      and s2: "chunk_store c1 8 (take 4 (drop 8 img)) = Some c2"
    using fread_chunk_full [of "g\<lparr>fpos := 8\<rparr>" 4 8 c1] g lB by (auto simp: B2)
  have i2: "wave_id c2 = WAV_WAVE_ID"
    using chunk_store_new(2) [OF s2] li by (simp add: rd32_take rd32_drop img_def chunk_bytes_fields c)
  obtain c3 where r3: "fread_chunk c2 12 8 (g\<lparr>fpos := 12\<rparr>) = Some (c3, g\<lparr>fpos := 20\<rparr>, 1)"
      and s3: "chunk_store c2 12 (take 8 (drop 12 img)) = Some c3"
    using fread_chunk_full [of "g\<lparr>fpos := 12\<rparr>" 8 12 c2] g lB by (auto simp: B3)
  have i3: "fmt_id c3 = WAV_FORMAT_CHUNK_ID" "fmt_size c3 = fmt_size c"
    using chunk_store_new(3) [OF s3] li by (simp_all add: rd32_take rd32_drop img_def chunk_bytes_fields c)
  obtain c4 where r4: "fread_chunk c3 20 n (g\<lparr>fpos := 20\<rparr>) = Some (c4, g\<lparr>fpos := 20 + n\<rparr>, 1)"
      and s4: "chunk_store c3 20 (take n (drop 20 img)) = Some c4"
    using fread_chunk_full [of "g\<lparr>fpos := 20\<rparr>" n 20 c3] g lB n40 by (auto simp: B4)
  have i4: "format_tag c4 = format_tag c" "fmt_size c4 = fmt_size c"
    using chunk_store_new(4) [OF s4] chunk_store_keep [OF s4] li n40 i3(2)
    by (simp_all add: rd16_take rd16_drop img_def chunk_bytes_fields)
  have "wav_parse_header self =
             (if format_tag c = WAV_FORMAT_PCM \<or> format_tag c = WAV_FORMAT_IEEE_FLOAT \<or>
                 format_tag c = WAV_FORMAT_ALAW \<or> format_tag c = WAV_FORMAT_MULAW
              then wav_parse_header_tail self c4 (g\<lparr>fpos := 20 + n\<rparr>)
              else format_error self c4 (g\<lparr>fpos := 20 + n\<rparr>))"
    unfolding wav_parse_header_def
    using s r1 i1 r2 i2 r3 i3 r4 i4(1)
    by (auto simp: offsetof_format_chunk_def WAV_RIFF_HEADER_SIZE_def n_def)
  then show ?thesis using i4 by (intro exI [of _ c4]) (simp add: n_def)
qed

text \<open>The rest of the parser when the data chunk's header follows the fmt body.\<close>

lemma wav_parse_header_tail_data:
  assumes g: "readable g" "\<not> broken g" "fpos g + 8 \<le> length (contents g)"
    and hdr: "take 8 (drop (fpos g) (contents g)) = le32 WAV_DATA_CHUNK_ID @ le32 d"
  shows "\<exists>c5. fmt_size c5 = fmt_size c4 \<and>
           wav_parse_header_tail self c4 g =
             Some (self\<lparr>fp := Some (g\<lparr>fpos := fpos g + 8\<rparr>),
                       chunk := c5\<lparr>data_id := WAV_DATA_CHUNK_ID, data_size := d, fact_size := 0\<rparr>,
                       error_code := WAV_OK\<rparr>) \<and>
           fact_id c5 = WAV_DATA_CHUNK_ID"
proof -
  obtain c5 where r5: "fread_chunk c4 60 8 g = Some (c5, g\<lparr>fpos := fpos g + 8\<rparr>, 1)"
      and s5: "chunk_store c4 60 (le32 WAV_DATA_CHUNK_ID @ le32 d) = Some c5"
    using fread_chunk_full [of g 8 60 c4] g by (auto simp: hdr)
  have i5: "fact_id c5 = WAV_DATA_CHUNK_ID" "fact_size c5 = d" "fmt_size c5 = fmt_size c4"
    using chunk_store_new(5) [OF s5] chunk_store_keep [OF s5]
    by (simp_all add: rd_append rd32_le32)
  have i5': "fact_id c5 \<noteq> WAV_FACT_CHUNK_ID"
    by (simp add: i5(1) WAV_DATA_CHUNK_ID_def WAV_FACT_CHUNK_ID_def)
  have "wav_parse_header_tail self c4 g =
             Some (self\<lparr>fp := Some (g\<lparr>fpos := fpos g + 8\<rparr>),
                       chunk := c5\<lparr>data_id := WAV_DATA_CHUNK_ID, data_size := d, fact_size := 0\<rparr>,
                       error_code := WAV_OK\<rparr>)"
    unfolding wav_parse_header_tail_def
    using r5 i5 i5' by (simp add: offsetof_fact_chunk_def WAV_RIFF_HEADER_SIZE_def)
  then show ?thesis using i5 by (intro exI [of _ c5]) simp
qed

lemma data_header_bytes: "take 8 (drop 72 (chunk_bytes c)) = le32 (data_id c) @ le32 (data_size c)"
  by (simp add: chunk_bytes_def)

lemma wav_parse_written_header:
  assumes g: "readable g" "\<not> broken g" "fpos g = 0"
    and hdr: "contents g = header_image c @ rest"
    and c: "riff_id c = WAV_RIFF_CHUNK_ID" "wave_id c = WAV_WAVE_ID" "fmt_id c = WAV_FORMAT_CHUNK_ID"
      "fact_id c \<noteq> WAV_FACT_CHUNK_ID" "data_id c = WAV_DATA_CHUNK_ID"
    and n: "2 \<le> unat (fmt_size c)" "unat (fmt_size c) \<le> 40"
    and tag: "format_tag c = WAV_FORMAT_PCM \<or> format_tag c = WAV_FORMAT_IEEE_FLOAT \<or>
              format_tag c = WAV_FORMAT_ALAW \<or> format_tag c = WAV_FORMAT_MULAW"
    and s: "fp self = Some g"
  shows "\<exists>r. wav_parse_header self = Some r \<and> error_code r = WAV_OK \<and>
             fmt_size (chunk r) = fmt_size c \<and> fact_id (chunk r) = WAV_DATA_CHUNK_ID \<and>
             data_size (chunk r) = data_size c \<and>
             fp r = Some (g\<lparr>fpos := 28 + unat (fmt_size c)\<rparr>) \<and> mode r = mode self"
proof -
  let ?n = "unat (fmt_size c)"
  have nf: "fact_id c \<noteq> WAV_FACT_CHUNK_ID"
    by (rule c(4))
  have u: "unat (8 + fmt_size c) = 8 + ?n" using n(2) by (simp add: unat_word_ariths)
  have B: "contents g = fmt_image c @ (take 8 (drop 72 (chunk_bytes c)) @ rest)"
    by (simp add: hdr header_image_def nf)
  have lf: "length (fmt_image c) = 20 + ?n"
    using n(2) by (simp add: fmt_image_def u)
  obtain c4 where c4: "fmt_size c4 = fmt_size c"
     and p4: "wav_parse_header self = wav_parse_header_tail self c4 (g\<lparr>fpos := 20 + ?n\<rparr>)"
    using wav_parse_header_fmt [OF g B c(1,2,3) n s] tag by auto
  let ?g4 = "g\<lparr>fpos := 20 + ?n\<rparr>"
  have d5: "take 8 (drop (fpos ?g4) (contents ?g4)) = le32 WAV_DATA_CHUNK_ID @ le32 (data_size c)"
    by (simp add: B lf data_header_bytes c(5))
  have l5: "fpos ?g4 + 8 \<le> length (contents ?g4)"
    by (simp add: B lf)
  obtain c5 where c5: "fmt_size c5 = fmt_size c4" and
    p5: "wav_parse_header_tail self c4 ?g4 =
             Some (self\<lparr>fp := Some (?g4\<lparr>fpos := fpos ?g4 + 8\<rparr>),
                       chunk := c5\<lparr>data_id := WAV_DATA_CHUNK_ID, data_size := data_size c, fact_size := 0\<rparr>,
                       error_code := WAV_OK\<rparr>)"
    and f5: "fact_id c5 = WAV_DATA_CHUNK_ID"
    using wav_parse_header_tail_data [of ?g4 "data_size c" c4 self] g(1,2) l5 d5 by auto
  show ?thesis
    by (intro exI [of _ "self\<lparr>fp := Some (?g4\<lparr>fpos := fpos ?g4 + 8\<rparr>),
                       chunk := c5\<lparr>data_id := WAV_DATA_CHUNK_ID, data_size := data_size c, fact_size := 0\<rparr>,
                       error_code := WAV_OK\<rparr>"])
       (simp add: p4 p5 c4 c5 f5)
qed

subsection \<open>The format tags the parser accepts\<close>

text \<open>
  Claim C4, as amended.  The parser ends in the format error on every tag other than PCM,
  IEEE float, A-law and mu-law: whenever it returns holding such a tag the status is the
  format error, and on a stream that starts with a RIFF header, the WAVE id and a fmt chunk
  of 2 to 40 bytes carrying such a tag it does return, with that status.  The extensible
  tag is outside the set: a well-formed extensible file is rejected.
\<close>

theorem wav_parse_header_rejects_tag:
  assumes tag: "t \<noteq> WAV_FORMAT_PCM" "t \<noteq> WAV_FORMAT_IEEE_FLOAT"
      "t \<noteq> WAV_FORMAT_ALAW" "t \<noteq> WAV_FORMAT_MULAW"
  shows "(wav_parse_header self = Some s' \<and> format_tag (chunk s') = t \<longrightarrow>
            error_code s' = WAV_ERR_FORMAT) \<and>
         (fp self = Some g \<and> readable g \<and> \<not> broken g \<and> fpos g = 0 \<and>
          contents g = fmt_image c @ rest \<and>
          riff_id c = WAV_RIFF_CHUNK_ID \<and> wave_id c = WAV_WAVE_ID \<and>
          fmt_id c = WAV_FORMAT_CHUNK_ID \<and>
          2 \<le> unat (fmt_size c) \<and> unat (fmt_size c) \<le> 40 \<and> format_tag c = t \<longrightarrow>
            (\<exists>r. wav_parse_header self = Some r \<and> error_code r = WAV_ERR_FORMAT \<and>
                 format_tag (chunk r) = t))"
proof (intro conjI impI)
  assume "wav_parse_header self = Some s' \<and> format_tag (chunk s') = t"
  then show "error_code s' = WAV_ERR_FORMAT"
    using tag unfolding wav_parse_header_def format_error_def
    by (auto split: option.splits prod.splits if_splits dest: wav_parse_header_tail_tag)
next
  assume a: "fp self = Some g \<and> readable g \<and> \<not> broken g \<and> fpos g = 0 \<and>
          contents g = fmt_image c @ rest \<and>
          riff_id c = WAV_RIFF_CHUNK_ID \<and> wave_id c = WAV_WAVE_ID \<and>
          fmt_id c = WAV_FORMAT_CHUNK_ID \<and>
          2 \<le> unat (fmt_size c) \<and> unat (fmt_size c) \<le> 40 \<and> format_tag c = t"
  then have g: "readable g" "\<not> broken g" "fpos g = 0" and hdr: "contents g = fmt_image c @ rest"
    and c: "riff_id c = WAV_RIFF_CHUNK_ID" "wave_id c = WAV_WAVE_ID" "fmt_id c = WAV_FORMAT_CHUNK_ID"
    and n: "2 \<le> unat (fmt_size c)" "unat (fmt_size c) \<le> 40"
    and s: "fp self = Some g" and t: "format_tag c = t"
    by simp_all
  obtain c4 where c4: "format_tag c4 = format_tag c"
    and p: "wav_parse_header self = format_error self c4 (g\<lparr>fpos := 20 + unat (fmt_size c)\<rparr>)"
    using wav_parse_header_fmt [OF g hdr c n s] tag t by auto
  show "\<exists>r. wav_parse_header self = Some r \<and> error_code r = WAV_ERR_FORMAT \<and>
            format_tag (chunk r) = t"
    by (simp add: p format_error_def c4 t)
qed

theorem wav_parse_header_rejects_tag_witness:
  "wav_parse_header ext_handle \<noteq> None \<and>
   contents (the (fp ext_handle)) =
     fmt_image (chunk (the (wav_parse_header ext_handle))) @ drop 60 ext_file \<and>
   format_tag (chunk (the (wav_parse_header ext_handle))) = WAV_FORMAT_EXTENSIBLE \<and>
   error_code (the (wav_parse_header ext_handle)) = WAV_ERR_FORMAT"
proof -
  let ?r = "the (wav_parse_header ext_handle)"
  let ?g = "the (fp ext_handle)"
  have r: "wav_parse_header ext_handle \<noteq> None"
    by code_simp
  have t: "format_tag (chunk ?r) = WAV_FORMAT_EXTENSIBLE"
    by code_simp
  have g: "fp ext_handle = Some ?g"
    by code_simp
  have g': "readable ?g" "\<not> broken ?g" "fpos ?g = 0"
    by (simp_all add: ext_handle_def fopen_def zero_WavFile_def)
  have hdr: "contents ?g = fmt_image (chunk ?r) @ drop 60 ext_file"
    by code_simp
  have c1: "riff_id (chunk ?r) = WAV_RIFF_CHUNK_ID"
    by code_simp
  have c2: "wave_id (chunk ?r) = WAV_WAVE_ID"
    by code_simp
  have c3: "fmt_id (chunk ?r) = WAV_FORMAT_CHUNK_ID"
    by code_simp
  have n: "fmt_size (chunk ?r) = 40"
    by code_simp
  from r have e: "wav_parse_header ext_handle = Some ?r"
    by simp
  have tag: "WAV_FORMAT_EXTENSIBLE \<noteq> WAV_FORMAT_PCM" "WAV_FORMAT_EXTENSIBLE \<noteq> WAV_FORMAT_IEEE_FLOAT"
    "WAV_FORMAT_EXTENSIBLE \<noteq> WAV_FORMAT_ALAW" "WAV_FORMAT_EXTENSIBLE \<noteq> WAV_FORMAT_MULAW"
    by (simp_all add: WAV_FORMAT_EXTENSIBLE_def WAV_FORMAT_PCM_def WAV_FORMAT_IEEE_FLOAT_def
        WAV_FORMAT_ALAW_def WAV_FORMAT_MULAW_def)
  note th = wav_parse_header_rejects_tag [OF tag, of ext_handle ?r ?g "chunk ?r" "drop 60 ext_file"]
  from th have "\<exists>r. wav_parse_header ext_handle = Some r \<and> error_code r = WAV_ERR_FORMAT \<and>
                 format_tag (chunk r) = WAV_FORMAT_EXTENSIBLE"
    using g g' hdr c1 c2 c3 t by (simp add: n)
  moreover from th have "error_code ?r = WAV_ERR_FORMAT"
    using e t by simp
  ultimately show ?thesis using r t hdr by simp
qed

text \<open>Claim C4 as stated fails: opening the extensible file for reading ends in the format
  error.\<close>

theorem wav_parse_header_extensible_counterexample:
  "map_option error_code (wav_init (Some ext_file) ''r'') = Some WAV_ERR_FORMAT \<and>
   rd16 ext_file 20 = WAV_FORMAT_EXTENSIBLE \<and>
   map_option error_code (wav_init (Some pcm_file) ''r'') = Some WAV_OK"
  by code_simp

section \<open>Reading: the clamped count\<close>

lemma pcm_handle_reached: "wav_init (Some pcm_file) ''r'' = Some pcm_handle"
  by code_simp


lemma wav_tell_ok:
  assumes "fp self = Some f" "\<not> broken f" "wav_get_header_size self \<le> fpos f"
    "block_align (chunk self) \<noteq> 0"
  shows "wav_tell self = Some (self\<lparr>error_code := WAV_OK\<rparr>,
           int ((fpos f - wav_get_header_size self) div unat (block_align (chunk self))))"
proof -
  have "(int (fpos f) - int (wav_get_header_size self)) div uint (block_align (chunk self))
        = int ((fpos f - wav_get_header_size self) div unat (block_align (chunk self)))"
    using assms(3) by (simp add: zdiv_int of_nat_diff)
  then show ?thesis
    using assms by (simp add: wav_tell_def ftell_def Let_def)
qed

lemma buffers_fit_mono: "buffers_fit bs n k \<Longrightarrow> k' \<le> k \<Longrightarrow> buffers_fit bs n k'"
  by (auto simp: buffers_fit_def list_all_iff)

lemma wav_scratch_ok:
  assumes "alloc need"
  shows "\<exists>s2 t. wav_scratch alloc s1 need = (s2, True) \<and> fp s2 = fp s1 \<and> tmp s2 = Some t \<and>
           error_code s2 = error_code s1 \<and> chunk s2 = chunk s1 \<and> mode s2 = mode s1"
  using assms by (cases "tmp_size s1 < need \<or> tmp s1 = None") (auto simp: wav_scratch_def)


lemma fread_ok:
  assumes "readable f" "\<not> broken f"
  shows "fread f sz n =
          (f\<lparr>fpos := fpos f + length (take (sz * n) (drop (fpos f) (contents f))),
             eof_ind := (eof_ind f \<or> length (take (sz * n) (drop (fpos f) (contents f))) < sz * n)\<rparr>,
           take (sz * n) (drop (fpos f) (contents f)),
           length (take (sz * n) (drop (fpos f) (contents f))) div sz)"
proof (cases "sz * n = 0")
  case True
  then show ?thesis by (auto simp: fread_def)
next
  case False
  then show ?thesis using assms by (simp add: fread_def Let_def)
qed



lemma wav_read_head:
  assumes m: "mode self = Some m"
      "\<not> (strncmp_eq m ''wb'' 2 \<or> strncmp_eq m ''wbx'' 3 \<or> strncmp_eq m ''ab'' 2)"
    and tag: "format_tag (chunk self) \<noteq> WAV_FORMAT_EXTENSIBLE"
    and f: "fp self = Some f" "\<not> broken f"
    and fmt: "n_channels (chunk self) \<noteq> 0" "block_align (chunk self) \<noteq> 0"
      "unat (block_align (chunk self)) div unat (n_channels (chunk self)) = ss" "ss < 5"
    and pos: "wav_get_header_size self \<le> fpos f"
      "(fpos f - wav_get_header_size self) div unat (block_align (chunk self))
         \<le> unat (data_size (chunk self)) div unat (block_align (chunk self))"
  shows "wav_read alloc self buffers count =
          (if min count (frames_remaining self f) = 0 then Some (self\<lparr>error_code := WAV_OK\<rparr>, buffers, 0)
           else wav_read_transfer alloc (self\<lparr>error_code := WAV_OK\<rparr>) buffers
                  (unat (n_channels (chunk self))) ss (wav_container_sizes ! ss)
                  (min count (frames_remaining self f)))"
proof -
  let ?r = "frames_remaining self f"
  let ?s1 = "self\<lparr>error_code := WAV_OK\<rparr>"
  have t: "wav_tell self = Some (?s1,
             int ((fpos f - wav_get_header_size self) div unat (block_align (chunk self))))"
    using f pos(1) fmt(2) by (rule wav_tell_ok)
  have l: "wav_get_length self = Some (unat (data_size (chunk self)) div unat (block_align (chunk self)))"
    using fmt(2) by (simp add: wav_get_length_def)
  have "unat (data_size (chunk self)) div unat (block_align (chunk self)) < 2 ^ 64"
  proof -
    have "unat (data_size (chunk self)) < 2 ^ 32"
      using unsigned_less [of "data_size (chunk self)", where 'a = nat] by simp
    then have "unat (data_size (chunk self)) div unat (block_align (chunk self)) < 2 ^ 32"
      by (meson div_le_dividend le_less_trans)
    also have "(2::nat) ^ 32 < 2 ^ 64" by simp
    finally show ?thesis .
  qed
  then have rem: "size_t_sub (unat (data_size (chunk self)) div unat (block_align (chunk self)))
                   (int ((fpos f - wav_get_header_size self) div unat (block_align (chunk self)))) = ?r"
    using pos(2) unfolding frames_remaining_def size_t_sub_def
    by (simp add: of_nat_diff [symmetric] nat_mod_distrib del: of_nat_diff)
  show ?thesis
    unfolding wav_read_def
    using m tag fmt(1,3,4) by (simp add: wav_get_sample_size_def wav_calc_container_size_def l t rem
            wav_get_num_channels_def Let_def min_def)
qed





section \<open>The sample transcoder: writing and reading back\<close>

lemma writesI:
  assumes "\<And>b. length (g b) = length b"
    and "\<And>b x. x < length b \<Longrightarrow> x \<in> S \<Longrightarrow> g b ! x = v x"
    and "\<And>b x. x < length b \<Longrightarrow> x \<notin> S \<Longrightarrow> g b ! x = b ! x"
  shows "writes g S v"
  using assms by (simp add: writes_def)

lemma writes_length: "writes g S v \<Longrightarrow> length (g b) = length b"
  by (simp add: writes_def)

lemma writes_in: "writes g S v \<Longrightarrow> x < length b \<Longrightarrow> x \<in> S \<Longrightarrow> g b ! x = v x"
  by (simp add: writes_def)

lemma writes_out: "writes g S v \<Longrightarrow> x < length b \<Longrightarrow> x \<notin> S \<Longrightarrow> g b ! x = b ! x"
  by (simp add: writes_def)

lemma writes_update: "v i = a \<Longrightarrow> writes (\<lambda>b. b[i := a]) {i} v"
  by (rule writesI) (auto simp: nth_list_update)

lemma writes_id: "writes (\<lambda>b. b) {} v"
  by (rule writesI) auto

lemma writes_comp:
  assumes "writes g S v" "writes h T v"
  shows "writes (\<lambda>b. h (g b)) (S \<union> T) v"
proof (rule writesI)
  fix b :: "byte list" show "length (h (g b)) = length b"
    using assms by (simp add: writes_length)
next
  fix b :: "byte list" and x assume x: "x < length b" "x \<in> S \<union> T"
  then have xg: "x < length (g b)" using assms(1) by (simp add: writes_length)
  show "h (g b) ! x = v x"
  proof (cases "x \<in> T")
    case True
    then show ?thesis using assms(2) xg by (simp add: writes_in)
  next
    case False
    then have "x \<in> S" using x by simp
    then show ?thesis using False assms xg x by (simp add: writes_in writes_out)
  qed
next
  fix b :: "byte list" and x assume x: "x < length b" "x \<notin> S \<union> T"
  then have xg: "x < length (g b)" using assms(1) by (simp add: writes_length)
  show "h (g b) ! x = b ! x"
    using x xg assms by (simp add: writes_out)
qed

lemma writes_fold:
  assumes "\<And>k. k \<in> set ks \<Longrightarrow> writes (g k) (S k) v"
  shows "writes (fold g ks) (\<Union>k\<in>set ks. S k) v"
  using assms
proof (induction ks rule: rev_induct)
  case Nil
  then show ?case using writes_id by (simp add: id_def)
next
  case (snoc a ks)
  have 1: "writes (fold g ks) (\<Union>k\<in>set ks. S k) v" using snoc by simp
  have 2: "writes (g a) (S a) v" using snoc by simp
  have "writes (\<lambda>b. g a (fold g ks b)) ((\<Union>k\<in>set ks. S k) \<union> S a) v"
    using 1 2 by (rule writes_comp)
  moreover have "(\<Union>k\<in>set (ks @ [a]). S k) = (\<Union>k\<in>set ks. S k) \<union> S a" by auto
  moreover have "fold g (ks @ [a]) = (\<lambda>b. g a (fold g ks b))" by (simp add: fun_eq_iff)
  ultimately show ?case by simp
qed

lemma writes_weaken: "writes g S v \<Longrightarrow> S = T \<Longrightarrow> writes g T v"
  by simp


subsection \<open>Index arithmetic\<close>

lemma frame_index:
  fixes i j k n_ch ss :: nat
  assumes "i < n_ch" "k < ss"
  shows "(j * n_ch * ss + i * ss + k) div ss mod n_ch = i"
    and "(j * n_ch * ss + i * ss + k) div (n_ch * ss) = j"
    and "(j * n_ch * ss + i * ss + k) mod ss = k"
proof -
  have e: "j * n_ch * ss + i * ss + k = (j * n_ch + i) * ss + k"
    by (simp add: algebra_simps)
  have d: "(j * n_ch * ss + i * ss + k) div ss = j * n_ch + i"
    unfolding e using assms(2) by simp
  show "(j * n_ch * ss + i * ss + k) div ss mod n_ch = i"
    unfolding d using assms(1) by simp
  show "(j * n_ch * ss + i * ss + k) mod ss = k"
    unfolding e using assms(2) by simp
  have "(j * n_ch * ss + i * ss + k) div (n_ch * ss) = (j * n_ch * ss + i * ss + k) div ss div n_ch"
    by (simp only: div_mult2_eq [of _ ss n_ch] mult.commute [of n_ch ss])
  also have "\<dots> = j" unfolding d using assms(1) by simp
  finally show "(j * n_ch * ss + i * ss + k) div (n_ch * ss) = j" .
qed

lemma frame_index_bound:
  fixes i j k n_ch ss count :: nat
  assumes "i < n_ch" "k < ss" "j < count"
  shows "j * n_ch * ss + i * ss + k < n_ch * count * ss"
proof -
  have "j * n_ch * ss + i * ss + k < (j * n_ch + i) * ss + ss"
    using assms(2) by (simp add: algebra_simps)
  also have "\<dots> = (j * n_ch + i + 1) * ss" by (simp add: algebra_simps)
  also have "\<dots> \<le> (j * n_ch + n_ch) * ss"
    using assms(1) by (intro mult_le_mono1) simp
  also have "\<dots> = (j + 1) * n_ch * ss" by (simp add: algebra_simps)
  also have "\<dots> \<le> count * n_ch * ss"
    using assms(3) by (intro mult_le_mono1) simp
  finally show ?thesis by (simp add: mult.commute mult.left_commute)
qed

lemma container_index:
  fixes j k cs :: nat
  assumes "k < cs"
  shows "(j * cs + k) div cs = j" and "(j * cs + k) mod cs = k"
  using assms by simp_all

lemma container_index_bound:
  fixes j k cs count :: nat
  assumes "k < cs" "j < count"
  shows "j * cs + k < count * cs"
proof -
  have "j * cs + k < (j + 1) * cs" using assms(1) by simp
  also have "\<dots> \<le> count * cs" using assms(2) by (intro mult_le_mono1) simp
  finally show ?thesis .
qed

subsection \<open>The interleaving loops\<close>

lemma write_sample_writes:
  assumes "i < n_ch"
  shows "writes (write_sample buffers n_ch ss cs i j)
           (\<Union>k\<in>set [0..<ss]. {j * n_ch * ss + i * ss + k}) (vwrite buffers n_ch ss cs)"
  unfolding write_sample_def
proof (rule writes_fold)
  fix k assume "k \<in> set [0..<ss]"
  then have k: "k < ss" by simp
  show "writes (\<lambda>b. b[j * n_ch * ss + i * ss + k := buffers ! i ! (j * cs + k)])
          {j * n_ch * ss + i * ss + k} (vwrite buffers n_ch ss cs)"
    by (rule writes_update) (simp add: vwrite_def frame_index [OF assms k])
qed

lemma write_channel_writes:
  assumes "i < n_ch"
  shows "writes (write_channel buffers n_ch ss cs count i)
           (\<Union>j\<in>set [0..<count]. \<Union>k\<in>set [0..<ss]. {j * n_ch * ss + i * ss + k})
           (vwrite buffers n_ch ss cs)"
  unfolding write_channel_def
  by (rule writes_fold) (rule write_sample_writes [OF assms])

lemma interleave_writes:
  "writes (interleave buffers n_ch ss cs count)
     (\<Union>i\<in>set [0..<n_ch]. \<Union>j\<in>set [0..<count]. \<Union>k\<in>set [0..<ss]. {j * n_ch * ss + i * ss + k})
     (vwrite buffers n_ch ss cs)"
  unfolding interleave_def
  by (rule writes_fold) (rule write_channel_writes, simp)

lemma interleave_length: "length (interleave buffers n_ch ss cs count t) = length t"
  using interleave_writes by (rule writes_length)

lemma interleave_nth:
  assumes "i < n_ch" "j < count" "k < ss" "n_ch * count * ss \<le> length t"
  shows "interleave buffers n_ch ss cs count t ! (j * n_ch * ss + i * ss + k) = buffers ! i ! (j * cs + k)"
proof -
  have "j * n_ch * ss + i * ss + k < length t"
    using frame_index_bound [OF assms(1,3,2)] assms(4) by simp
  moreover have "j * n_ch * ss + i * ss + k \<in>
     (\<Union>i\<in>set [0..<n_ch]. \<Union>j\<in>set [0..<count]. \<Union>k\<in>set [0..<ss]. {j * n_ch * ss + i * ss + k})"
    using assms(1,2,3) by (intro UN_I [of i] UN_I [of j] UN_I [of k]) simp_all
  ultimately have "interleave buffers n_ch ss cs count t ! (j * n_ch * ss + i * ss + k)
      = vwrite buffers n_ch ss cs (j * n_ch * ss + i * ss + k)"
    by (rule writes_in [OF interleave_writes])
  then show ?thesis
    by (simp add: vwrite_def frame_index [OF assms(1,3)])
qed


subsection \<open>The de-interleaving loops\<close>

lemma fill_fold_writes:
  "writes (fold (\<lambda>k b. b[j * cs + k := c]) ks) (\<Union>k\<in>set ks. {j * cs + k}) (\<lambda>x. c)"
  by (rule writes_fold) (rule writes_update, simp)

lemma copy_fold_writes:
  fixes ss cs :: nat
  assumes "ss \<le> cs"
  shows "writes (fold (\<lambda>k b. b[j * cs + k := t ! (j * n_ch * ss + i * ss + k)]) [0..<ss])
           (\<Union>k\<in>set [0..<ss]. {j * cs + k}) (vread t n_ch ss cs i)"
proof (rule writes_fold)
  fix k assume "k \<in> set [0..<ss]"
  then have k: "k < ss" "k < cs" using assms by simp_all
  show "writes (\<lambda>b. b[j * cs + k := t ! (j * n_ch * ss + i * ss + k)]) {j * cs + k} (vread t n_ch ss cs i)"
    by (rule writes_update) (use k in \<open>simp add: vread_def\<close>)
qed

lemma read_sample_writes:
  fixes ss cs :: nat
  assumes ss: "0 < ss" "ss \<le> cs"
  shows "writes (read_sample t n_ch ss cs i j) (\<Union>k\<in>set [0..<cs]. {j * cs + k}) (vread t n_ch ss cs i)"
proof (rule writesI)
  fix b :: "byte list"
  define b1 where "b1 = fold (\<lambda>k b. b[j * cs + k := t ! (j * n_ch * ss + i * ss + k)]) [0..<ss] b"
  define c :: byte where "c = (if (b1 ! (j * cs + ss - 1)) AND 0x80 \<noteq> 0 then 0xff else 0x00)"
  have rs: "read_sample t n_ch ss cs i j b = fold (\<lambda>k b. b[j * cs + k := c]) [ss..<cs] b1"
    by (simp add: read_sample_def b1_def c_def Let_def)
  have l1: "length b1 = length b"
    unfolding b1_def by (rule writes_length [OF copy_fold_writes [OF ss(2)]])
  show "length (read_sample t n_ch ss cs i j b) = length b"
    unfolding rs using l1 by (simp add: writes_length [OF fill_fold_writes])
  have copy_in: "b1 ! (j * cs + k) = t ! (j * n_ch * ss + i * ss + k)" if "k < ss" "j * cs + k < length b" for k
  proof -
    have "j * cs + k \<in> (\<Union>k\<in>set [0..<ss]. {j * cs + k})" using that(1) by auto
    then have "b1 ! (j * cs + k) = vread t n_ch ss cs i (j * cs + k)"
      unfolding b1_def using that(2) by (intro writes_in [OF copy_fold_writes [OF ss(2)]])
    moreover have "k < cs" using that(1) ss(2) by simp
    ultimately show ?thesis using that(1) by (simp add: vread_def container_index)
  qed
  {
    fix x assume x: "x < length b" "x \<in> (\<Union>k\<in>set [0..<cs]. {j * cs + k})"
    then obtain k where k: "k < cs" "x = j * cs + k" by auto
    show "read_sample t n_ch ss cs i j b ! x = vread t n_ch ss cs i x"
    proof (cases "k < ss")
      case True
      have "x \<notin> (\<Union>k\<in>set [ss..<cs]. {j * cs + k})" using True k(2) by auto
      then have "read_sample t n_ch ss cs i j b ! x = b1 ! x"
        unfolding rs using x(1) l1 by (intro writes_out [OF fill_fold_writes]) simp_all
      also have "\<dots> = t ! (j * n_ch * ss + i * ss + k)"
        using copy_in [OF True] x(1) k(2) by simp
      finally show ?thesis using True k by (simp add: vread_def container_index)
    next
      case False
      then have "x \<in> (\<Union>k\<in>set [ss..<cs]. {j * cs + k})" using k by auto
      then have "read_sample t n_ch ss cs i j b ! x = c"
        unfolding rs using x(1) l1 by (intro writes_in [OF fill_fold_writes]) simp_all
      moreover have "b1 ! (j * cs + ss - 1) = t ! (j * n_ch * ss + i * ss + ss - 1)"
      proof -
        have "j * cs + (ss - 1) < length b" using x(1) k(2) False ss(1) by simp
        then have "b1 ! (j * cs + (ss - 1)) = t ! (j * n_ch * ss + i * ss + (ss - 1))"
          using ss(1) by (intro copy_in) simp_all
        then show ?thesis using ss(1) by simp
      qed
      ultimately show ?thesis using False k by (simp add: vread_def container_index c_def)
    qed
  }
  {
    fix x assume x: "x < length b" "x \<notin> (\<Union>k\<in>set [0..<cs]. {j * cs + k})"
    then have "x \<notin> (\<Union>k\<in>set [ss..<cs]. {j * cs + k})" by auto
    then have "read_sample t n_ch ss cs i j b ! x = b1 ! x"
      unfolding rs using x(1) l1 by (intro writes_out [OF fill_fold_writes]) simp_all
    moreover have "x \<notin> (\<Union>k\<in>set [0..<ss]. {j * cs + k})" using x(2) ss(2) by auto
    then have "b1 ! x = b ! x"
      unfolding b1_def using x(1) by (intro writes_out [OF copy_fold_writes [OF ss(2)]])
    ultimately show "read_sample t n_ch ss cs i j b ! x = b ! x" by simp
  }
qed

lemma read_channel_writes:
  fixes ss cs :: nat
  assumes ss: "0 < ss" "ss \<le> cs"
  shows "writes (read_channel t n_ch ss cs frames i)
           (\<Union>j\<in>set [0..<frames]. \<Union>k\<in>set [0..<cs]. {j * cs + k}) (vread t n_ch ss cs i)"
  unfolding read_channel_def
  by (rule writes_fold) (rule read_sample_writes [OF ss])

lemma read_channel_length: 
  fixes ss cs :: nat
  shows "0 < ss \<Longrightarrow> ss \<le> cs \<Longrightarrow> length (read_channel t n_ch ss cs frames i b) = length b"
  by (rule writes_length [OF read_channel_writes])

lemma read_channel_nth:
  fixes ss cs :: nat
  assumes ss: "0 < ss" "ss \<le> cs" and "j < frames" "k < cs" "frames * cs \<le> length b"
  shows "read_channel t n_ch ss cs frames i b ! (j * cs + k) = vread t n_ch ss cs i (j * cs + k)"
proof -
  have "j * cs + k < length b"
    using container_index_bound [OF assms(4,3)] assms(5) by simp
  moreover have "j * cs + k \<in> (\<Union>j\<in>set [0..<frames]. \<Union>k\<in>set [0..<cs]. {j * cs + k})"
    using assms(3,4) by (intro UN_I [of j] UN_I [of k]) simp_all
  ultimately show ?thesis
    by (rule writes_in [OF read_channel_writes [OF ss]])
qed

lemma channel_fold_length:
  "length (fold (\<lambda>i bs. bs[i := h i (bs ! i)]) [0..<n] bs) = length bs"
  by (induction n) simp_all

lemma channel_fold_above:
  "n \<le> i \<Longrightarrow> fold (\<lambda>i bs. bs[i := h i (bs ! i)]) [0..<n] bs ! i = bs ! i"
  by (induction n) simp_all

lemma channel_fold_nth:
  "i < n \<Longrightarrow> n \<le> length bs \<Longrightarrow> fold (\<lambda>i bs. bs[i := h i (bs ! i)]) [0..<n] bs ! i = h i (bs ! i)"
proof (induction n)
  case 0
  then show ?case by simp
next
  case (Suc n)
  show ?case
  proof (cases "i = n")
    case True
    then show ?thesis using Suc.prems by (simp add: channel_fold_length channel_fold_above)
  next
    case False
    then have "i < n" using Suc.prems by simp
    then show ?thesis using Suc False by simp
  qed
qed

lemma deinterleave_nth:
  "i < n_ch \<Longrightarrow> n_ch \<le> length buffers \<Longrightarrow>
   deinterleave t n_ch ss cs frames buffers ! i = read_channel t n_ch ss cs frames i (buffers ! i)"
  unfolding deinterleave_def by (rule channel_fold_nth)

lemma deinterleave_length: "length (deinterleave t n_ch ss cs frames buffers) = length buffers"
  unfolding deinterleave_def by (rule channel_fold_length)

lemma same_tail_refl: "same_tail p f f"
  by (simp add: same_tail_def)

lemma same_tail_trans: "same_tail p f g \<Longrightarrow> same_tail p g h \<Longrightarrow> same_tail p f h"
  by (simp add: same_tail_def)

lemma fwrite_below:
  assumes "writable f" "\<not> broken f" "\<not> append_mode f"
    and "length bs = n" "0 < n" "fpos f + n \<le> p" "p \<le> length (contents f)"
  shows "\<exists>f'. fwrite bs n 1 f = (f', 1) \<and> fpos f' = fpos f + n \<and> same_tail p f f'"
proof -
  let ?c = "contents f"
  let ?f' = "f\<lparr>contents := take (fpos f) ?c @ bs @ drop (fpos f + n) ?c, fpos := fpos f + n\<rparr>"
  have le: "fpos f \<le> length ?c" using assms(6,7) by simp
  have w: "fwrite bs n 1 f = (?f', 1)"
    using assms(1-5) le by (simp add: fwrite_def Let_def)
  have "drop p (take (fpos f) ?c @ bs @ drop (fpos f + n) ?c) = drop p ?c"
    using assms(4,5,6,7) le by (simp add: min_def)
  moreover have "length (take (fpos f) ?c @ bs @ drop (fpos f + n) ?c) = length ?c"
    using assms(4,5,6,7) by (simp add: min_def)
  ultimately have "same_tail p f ?f'" by (simp add: same_tail_def)
  with w show ?thesis by (intro exI [of _ ?f']) simp
qed

lemma chunk_load_len:
  "off + n \<le> 80 \<Longrightarrow> \<exists>b. chunk_load c off n = Some b \<and> length b = n"
  by (simp add: chunk_load_def sizeof_WavMasterChunk_def)

lemma header_size_simple:
  assumes "unat (fmt_size (chunk s)) \<le> 40" "unat (fact_size (chunk s)) \<le> 4"
  shows "wav_get_header_size s =
           28 + unat (fmt_size (chunk s)) +
           (if fact_id (chunk s) = WAV_FACT_CHUNK_ID then 8 + unat (fact_size (chunk s)) else 0)"
proof -
  have "unat (8 + 4 + 8 + fmt_size (chunk s) + 8) = 28 + unat (fmt_size (chunk s))"
    using assms(1) by (simp add: unat_word_ariths)
  moreover have "unat (8 + fact_size (chunk s)) = 8 + unat (fact_size (chunk s))"
    using assms(2) by (simp add: unat_word_ariths)
  ultimately show ?thesis by (simp add: wav_get_header_size_def Let_def)
qed

lemma wav_write_header_data_below:
  assumes "writable f" "\<not> broken f" "\<not> append_mode f" "fpos f + 8 \<le> p" "p \<le> length (contents f)"
  shows "\<exists>f'. wav_write_header_data s f = Some (s\<lparr>fp := Some f', error_code := WAV_OK\<rparr>) \<and>
              fpos f' = fpos f + 8 \<and> same_tail p f f'"
proof -
  obtain b where b: "chunk_load (chunk s) offsetof_data_chunk WAV_RIFF_HEADER_SIZE = Some b" "length b = 8"
    using chunk_load_len [of 72 8 "chunk s"] by (auto simp: offsetof_data_chunk_def WAV_RIFF_HEADER_SIZE_def)
  obtain f' where f': "fwrite b 8 1 f = (f', 1)" "fpos f' = fpos f + 8" "same_tail p f f'"
    using fwrite_below [OF assms(1-3) b(2) _ assms(4,5)] by auto
  show ?thesis
    using b(1) f' by (intro exI [of _ f']) (simp add: wav_write_header_data_def WAV_RIFF_HEADER_SIZE_def)
qed


lemma wav_write_header_below:
  assumes f: "fp s = Some f" "writable f" "\<not> broken f" "\<not> append_mode f"
    and sz: "unat (fmt_size (chunk s)) \<le> 40" "unat (fact_size (chunk s)) \<le> 4"
    and p: "wav_get_header_size s \<le> p" "p \<le> length (contents f)"
  shows "\<exists>f'. wav_write_header s =
                 Some (s\<lparr>chunk := wav_riff_size (chunk s), fp := Some f', error_code := WAV_OK\<rparr>) \<and>
              same_tail p f f'"
proof -
  let ?c = "wav_riff_size (chunk s)"
  let ?s = "s\<lparr>chunk := ?c\<rparr>"
  let ?fs = "unat (fmt_size (chunk s))"
  let ?fa = "unat (fact_size (chunk s))"
  define f0 where "f0 = fst (fseek_set f 0)"
  have f0: "fpos f0 = 0" "same_tail p f f0" "writable f0" "\<not> broken f0" "\<not> append_mode f0"
    "length (contents f0) = length (contents f)"
    using f by (simp_all add: f0_def fseek_set_def same_tail_def)
  have H: "wav_get_header_size s = 28 + ?fs + (if fact_id (chunk s) = WAV_FACT_CHUNK_ID then 8 + ?fa else 0)"
    using sz by (rule header_size_simple)
  have u2: "unat (8 + fmt_size (chunk s)) = 8 + ?fs" using sz(1) by (simp add: unat_word_ariths)
  have u3: "unat (8 + fact_size (chunk s)) = 8 + ?fa" using sz(2) by (simp add: unat_word_ariths)
  obtain b1 where b1: "chunk_load ?c 0 (WAV_RIFF_HEADER_SIZE + 4) = Some b1" "length b1 = 12"
    using chunk_load_len [of 0 12 ?c] by (auto simp: WAV_RIFF_HEADER_SIZE_def)
  obtain f1 where f1: "fwrite b1 12 1 f0 = (f1, 1)" "fpos f1 = 12" "same_tail p f0 f1"
    using fwrite_below [OF f0(3,4,5) b1(2), of p] f0(1,6) p H by auto
  have f1': "writable f1" "\<not> broken f1" "\<not> append_mode f1" "length (contents f1) = length (contents f)"
    using f1(3) f0 by (simp_all add: same_tail_def)
  obtain b2 where b2: "chunk_load ?c offsetof_format_chunk (unat (8 + fmt_size ?c)) = Some b2"
      "length b2 = 8 + ?fs"
    using chunk_load_len [of 12 "8 + ?fs" ?c] sz(1) by (auto simp: offsetof_format_chunk_def u2 wav_riff_size_other)
  obtain f2 where f2: "fwrite b2 (8 + ?fs) 1 f1 = (f2, 1)" "fpos f2 = 20 + ?fs" "same_tail p f1 f2"
    using fwrite_below [OF f1'(1,2,3) b2(2), of p] f1(2) f1'(4) p H by auto
  have f2': "writable f2" "\<not> broken f2" "\<not> append_mode f2" "length (contents f2) = length (contents f)"
    using f2(3) f1' by (simp_all add: same_tail_def)
  have t2: "same_tail p f f2"
    using f0(2) f1(3) f2(3) by (blast intro: same_tail_trans)
  show ?thesis
  proof (cases "fact_id (chunk s) = WAV_FACT_CHUNK_ID")
    case False
    obtain f4 where f4: "wav_write_header_data ?s f2 = Some (?s\<lparr>fp := Some f4, error_code := WAV_OK\<rparr>)"
        "same_tail p f2 f4"
      using wav_write_header_data_below [OF f2'(1,2,3), of p ?s] f2(2) f2'(4) p H False by auto
    have "wav_write_header s = Some (?s\<lparr>fp := Some f4, error_code := WAV_OK\<rparr>)"
      unfolding wav_write_header_def
      using False f(1) b1(1) f1(1) b2(1) f2(1) f4(1)
      by (simp add: Let_def f0_def [symmetric] WAV_RIFF_HEADER_SIZE_def u2 wav_riff_size_other)
    moreover have "same_tail p f f4" using t2 f4(2) by (rule same_tail_trans)
    ultimately show ?thesis by (intro exI [of _ f4]) simp
  next
    case True
    obtain b3 where b3: "chunk_load ?c offsetof_fact_chunk (unat (8 + fact_size ?c)) = Some b3"
        "length b3 = 8 + ?fa"
      using chunk_load_len [of 60 "8 + ?fa" ?c] sz(2) by (auto simp: offsetof_fact_chunk_def u3 wav_riff_size_other)
    obtain f3 where f3: "fwrite b3 (8 + ?fa) 1 f2 = (f3, 1)" "fpos f3 = 28 + ?fs + ?fa" "same_tail p f2 f3"
      using fwrite_below [OF f2'(1,2,3) b3(2), of p] f2(2) f2'(4) p H True by auto
    have f3': "writable f3" "\<not> broken f3" "\<not> append_mode f3" "length (contents f3) = length (contents f)"
      using f3(3) f2' by (simp_all add: same_tail_def)
    obtain f4 where f4: "wav_write_header_data ?s f3 = Some (?s\<lparr>fp := Some f4, error_code := WAV_OK\<rparr>)"
        "same_tail p f3 f4"
      using wav_write_header_data_below [OF f3'(1,2,3), of p ?s] f3(2) f3'(4) p H True by auto
    have "wav_write_header s = Some (?s\<lparr>fp := Some f4, error_code := WAV_OK\<rparr>)"
      unfolding wav_write_header_def
      using True f(1) b1(1) f1(1) b2(1) f2(1) b3(1) f3(1) f4(1)
      by (simp add: Let_def f0_def [symmetric] WAV_RIFF_HEADER_SIZE_def u2 u3 wav_riff_size_other)
    moreover have "same_tail p f f4" using t2 f3(3) f4(2) by (blast intro: same_tail_trans)
    ultimately show ?thesis by (intro exI [of _ f4]) simp
  qed
qed

lemma container_size_ge: "ss < 5 \<Longrightarrow> ss \<le> wav_container_sizes ! ss"
proof -
  assume "ss < 5"
  then have "ss = 0 \<or> ss = 1 \<or> ss = 2 \<or> ss = 3 \<or> ss = 4" by auto
  then show ?thesis by (auto simp: wav_container_sizes_def)
qed

lemma write_sizes_fields:
  "fmt_size (wav_write_sizes c wc ss n) = fmt_size c"
  "fact_size (wav_write_sizes c wc ss n) = fact_size c"
  "fact_id (wav_write_sizes c wc ss n) = fact_id c"
  "n_channels (wav_write_sizes c wc ss n) = n_channels c"
  "block_align (wav_write_sizes c wc ss n) = block_align c"
  "format_tag (wav_write_sizes c wc ss n) = format_tag c"
  "data_size (wav_write_sizes c wc ss n) = data_size c + of_nat (wc * ss)"
  by (simp_all add: wav_write_sizes_def Let_def)

lemma riff_size_fields:
  "n_channels (wav_riff_size c) = n_channels c"
  "block_align (wav_riff_size c) = block_align c"
  "format_tag (wav_riff_size c) = format_tag c"
  by (simp_all add: wav_riff_size_def Let_def)

lemma wav_write_finish_ok:
  assumes f: "writable f1" "\<not> broken f1" "\<not> append_mode f1"
    and sz: "unat (fmt_size (chunk s)) \<le> 40" "unat (fact_size (chunk s)) \<le> 4"
    and p: "wav_get_header_size s \<le> p" "p \<le> length (contents f1)"
    and n: "0 < n_ch"
  shows "\<exists>f'. wav_write_finish s f1 (n_ch * count) ss n_ch =
                 Some (s\<lparr>chunk := wav_riff_size (wav_write_sizes (chunk s) (n_ch * count) ss n_ch),
                          fp := Some f', error_code := WAV_OK\<rparr>, count) \<and>
              same_tail p f1 f' \<and> fpos f' = fpos f1"
proof -
  define s4 where "s4 = s\<lparr>fp := Some f1, chunk := wav_write_sizes (chunk s) (n_ch * count) ss n_ch\<rparr>"
  have H4: "wav_get_header_size s4 = wav_get_header_size s"
    by (simp add: wav_get_header_size_def s4_def write_sizes_fields Let_def)
  obtain f5 where f5: "wav_write_header s4 =
        Some (s4\<lparr>chunk := wav_riff_size (chunk s4), fp := Some f5, error_code := WAV_OK\<rparr>)"
      "same_tail p f1 f5"
    using wav_write_header_below [of s4 f1 p] f sz p H4 by (auto simp: s4_def write_sizes_fields)
  have b5: "\<not> broken f5" using f5(2) f(2) by (simp add: same_tail_def)
  define f6 where "f6 = f5\<lparr>fpos := fpos f1, eof_ind := False\<rparr>"
  have sk: "fseek_set f5 (int (fpos f1)) = (f6, True)"
    using b5 by (simp add: fseek_set_def f6_def)
  have t6: "same_tail p f1 f6" "fpos f6 = fpos f1"
    using f5(2) by (simp_all add: same_tail_def f6_def)
  have "wav_write_finish s f1 (n_ch * count) ss n_ch =
          Some (s4\<lparr>chunk := wav_riff_size (chunk s4), fp := Some f6, error_code := WAV_OK\<rparr>, count)"
    unfolding wav_write_finish_def
    using f(2) n f5(1) sk
    by (simp add: Let_def ftell_def s4_def [symmetric])
  then have "wav_write_finish s f1 (n_ch * count) ss n_ch =
          Some (s\<lparr>chunk := wav_riff_size (wav_write_sizes (chunk s) (n_ch * count) ss n_ch),
                   fp := Some f6, error_code := WAV_OK\<rparr>, count)"
    by (simp add: s4_def)
  with t6 show ?thesis by (intro exI [of _ f6]) simp
qed


lemma wav_scratch_len:
  assumes "alloc need" "scratch_ok s1"
  shows "\<exists>t. wav_scratch alloc s1 need = (s1\<lparr>tmp := Some t, tmp_size := length t\<rparr>, True) \<and>
             need \<le> length t"
proof (cases "tmp_size s1 < need \<or> tmp s1 = None")
  case True
  then show ?thesis using assms(1)
    by (intro exI [of _ "replicate need 0"]) (simp add: wav_scratch_def)
next
  case False
  then obtain t where t: "tmp s1 = Some t" "need \<le> tmp_size s1" by auto
  then have "length t = tmp_size s1" using assms(2) by (simp add: scratch_ok_def)
  then show ?thesis using False t
    by (intro exI [of _ t]) (simp add: wav_scratch_def)
qed

lemma fwrite_data:
  assumes "writable f" "\<not> broken f" "\<not> append_mode f" "fpos f \<le> length (contents f)"
    and "sz * n \<noteq> 0" "sz * n \<le> length bs"
  shows "fwrite bs sz n f =
          (f\<lparr>contents := take (fpos f) (contents f) @ take (sz * n) bs @ drop (fpos f + sz * n) (contents f),
             fpos := fpos f + sz * n\<rparr>, n)"
  using assms by (simp add: fwrite_def Let_def min_def)

lemma wav_write_ok:
  assumes m: "mode w = Some m" "\<not> strncmp_eq m ''rb'' 2"
    and tag: "format_tag (chunk w) \<noteq> WAV_FORMAT_EXTENSIBLE"
    and f: "fp w = Some f" "writable f" "\<not> broken f" "\<not> append_mode f" "\<not> err_ind f"
    and fmt: "n_channels (chunk w) \<noteq> 0" "block_align (chunk w) \<noteq> 0"
      "unat (block_align (chunk w)) div unat (n_channels (chunk w)) = ss" "0 < ss" "ss < 5"
    and sz: "unat (fmt_size (chunk w)) \<le> 40" "unat (fact_size (chunk w)) \<le> 4"
    and p: "wav_get_header_size w \<le> fpos f" "fpos f \<le> length (contents f)"
    and n: "0 < count"
    and a: "alloc (unat (n_channels (chunk w)) * count * ss)" "scratch_ok w"
    and b: "buffers_fit buffers (unat (n_channels (chunk w))) (count * (wav_container_sizes ! ss))"
  shows "\<exists>w' f'. wav_write alloc w buffers count = Some (w', count) \<and>
           error_code w' = WAV_OK \<and> mode w' = mode w \<and>
           chunk w' = wav_riff_size (wav_write_sizes (chunk w) (unat (n_channels (chunk w)) * count) ss
                                       (unat (n_channels (chunk w)))) \<and>
           fp w' = Some f' \<and>
           fpos f + unat (n_channels (chunk w)) * count * ss \<le> length (contents f') \<and>
           (\<forall>i j k. i < unat (n_channels (chunk w)) \<and> j < count \<and> k < ss \<longrightarrow>
              contents f' ! (fpos f + (j * unat (n_channels (chunk w)) * ss + i * ss + k)) =
              buffers ! i ! (j * (wav_container_sizes ! ss) + k))"
proof -
  let ?n = "unat (n_channels (chunk w))"
  let ?cs = "wav_container_sizes ! ss"
  let ?m = "?n * count * ss"
  let ?p = "fpos f"
  let ?s1 = "w\<lparr>error_code := WAV_OK\<rparr>"
  have n0: "0 < ?n" using fmt(1) by (simp add: unat_gt_0)
  have m0: "ss * (?n * count) \<noteq> 0" using n0 n fmt(4) by simp
  have mm: "ss * (?n * count) = ?m" by (simp add: mult.commute mult.left_commute)
  have t: "wav_tell w = Some (?s1,
             int ((fpos f - wav_get_header_size w) div unat (block_align (chunk w))))"
    using f(1,3) p(1) fmt(2) by (rule wav_tell_ok)
  have "scratch_ok ?s1" using a(2) by (simp add: scratch_ok_def split: option.splits)
  then obtain t0 where sc: "wav_scratch alloc ?s1 ?m = (?s1\<lparr>tmp := Some t0, tmp_size := length t0\<rparr>, True)"
      and t0: "?m \<le> length t0"
    using wav_scratch_len [of alloc ?m ?s1] a(1) by auto
  let ?s2 = "?s1\<lparr>tmp := Some t0, tmp_size := length t0\<rparr>"
  define t1 where "t1 = interleave buffers ?n ss ?cs count t0"
  have l1: "?m \<le> length t1" using t0 by (simp add: t1_def interleave_length)
  let ?s3 = "?s2\<lparr>tmp := Some t1\<rparr>"
  have cs: "ss \<le> ?cs" using fmt(5) by (rule container_size_ge)
  have "(count - 1) * ?cs + ss \<le> count * ?cs"
  proof -
    have "(count - 1) * ?cs + ss \<le> (count - 1) * ?cs + ?cs" using cs by simp
    also have "\<dots> = count * ?cs" using n by (simp add: algebra_simps)
    finally show ?thesis .
  qed
  then have fit: "buffers_fit buffers ?n ((count - 1) * ?cs + ss)"
    using b by (rule buffers_fit_mono [rotated])
  define f1 where "f1 = f\<lparr>contents := take ?p (contents f) @ take ?m t1 @ drop (?p + ?m) (contents f),
                           fpos := ?p + ?m\<rparr>"
  have fw: "fwrite t1 ss (?n * count) f = (f1, ?n * count)"
    using fwrite_data [OF f(2,3,4) p(2) m0, of t1] l1 by (simp add: mm f1_def)
  have f1: "writable f1" "\<not> broken f1" "\<not> append_mode f1" "\<not> ferror f1"
    "?p \<le> length (contents f1)" "fpos f1 = ?p + ?m"
    using f p(2) by (simp_all add: f1_def ferror_def)
  have d1: "drop ?p (contents f1) = take ?m t1 @ drop (?p + ?m) (contents f)"
    using p(2) by (simp add: f1_def)
  have H3: "wav_get_header_size ?s3 = wav_get_header_size w"
    by (simp add: wav_get_header_size_def Let_def)
  obtain f' where fin: "wav_write_finish ?s3 f1 (?n * count) ss ?n =
                 Some (?s3\<lparr>chunk := wav_riff_size (wav_write_sizes (chunk ?s3) (?n * count) ss ?n),
                          fp := Some f', error_code := WAV_OK\<rparr>, count)"
      and tail: "same_tail ?p f1 f'"
    using wav_write_finish_ok [of f1 ?s3 ?p ?n count ss] f1(1,2,3,5) sz p(1) n0 H3 by auto
  have tr: "wav_write_transfer alloc ?s1 buffers ?n ss ?cs count =
          Some (?s3\<lparr>chunk := wav_riff_size (wav_write_sizes (chunk ?s3) (?n * count) ss ?n),
                          fp := Some f', error_code := WAV_OK\<rparr>, count)"
    unfolding wav_write_transfer_def
    using fit f1(4) f(1) fin by (simp add: sc Let_def t1_def [symmetric] fw)
  have wr: "wav_write alloc w buffers count =
          Some (?s3\<lparr>chunk := wav_riff_size (wav_write_sizes (chunk ?s3) (?n * count) ss ?n),
                          fp := Some f', error_code := WAV_OK\<rparr>, count)"
    unfolding wav_write_def
    using m tag fmt(1,3,5) n tr
    by (simp add: wav_get_sample_size_def wav_calc_container_size_def t wav_get_num_channels_def)
  have d': "drop ?p (contents f') = take ?m t1 @ drop (?p + ?m) (contents f)"
    using tail d1 by (simp add: same_tail_def)
  have len: "?p + ?m \<le> length (contents f')"
  proof -
    have "length (drop ?p (contents f')) \<ge> ?m" unfolding d' using l1 by simp
    moreover have "?p \<le> length (contents f')" using tail f1(5) by (simp add: same_tail_def)
    ultimately show ?thesis by simp
  qed
  have lay: "contents f' ! (?p + (j * ?n * ss + i * ss + k)) = buffers ! i ! (j * ?cs + k)"
    if "i < ?n \<and> j < count \<and> k < ss" for i j k
  proof -
    have x: "j * ?n * ss + i * ss + k < ?m"
      using that by (intro frame_index_bound) simp_all
    have "contents f' ! (?p + (j * ?n * ss + i * ss + k)) = drop ?p (contents f') ! (j * ?n * ss + i * ss + k)"
      using len by simp
    also have "\<dots> = t1 ! (j * ?n * ss + i * ss + k)"
      unfolding d' using x l1 by (simp add: nth_append)
    also have "\<dots> = buffers ! i ! (j * ?cs + k)"
      unfolding t1_def using that t0 by (intro interleave_nth) simp_all
    finally show ?thesis .
  qed
  show ?thesis
    by (rule exI [of _ "?s3\<lparr>chunk := wav_riff_size (wav_write_sizes (chunk ?s3) (?n * count) ss ?n),
                          fp := Some f', error_code := WAV_OK\<rparr>"], rule exI [of _ f'])
       (use wr len lay in simp)
qed

lemma wav_read_transfer_full:
  assumes f: "fp s1 = Some f" "readable f" "\<not> broken f" "\<not> err_ind f"
    and a: "alloc (n_ch * count * ss)"
    and b: "buffers_fit buffers n_ch (count * cs)"
    and n: "0 < n_ch" "0 < ss"
    and av: "fpos f + n_ch * count * ss \<le> length (contents f)"
  shows "\<exists>s' t. wav_read_transfer alloc s1 buffers n_ch ss cs count =
                  Some (s', deinterleave t n_ch ss cs count buffers, count) \<and>
               error_code s' = WAV_OK \<and>
               (\<forall>x < n_ch * count * ss. t ! x = contents f ! (fpos f + x))"
proof -
  obtain s2 t0 where sc: "wav_scratch alloc s1 (n_ch * count * ss) = (s2, True)"
    and s2: "fp s2 = Some f" and t0: "tmp s2 = Some t0"
    using wav_scratch_ok [of alloc "n_ch * count * ss" s1] a f(1) by auto
  define got where "got = take (ss * (n_ch * count)) (drop (fpos f) (contents f))"
  define f1 where "f1 = f\<lparr>fpos := fpos f + length got, eof_ind := (eof_ind f \<or> length got < ss * (n_ch * count))\<rparr>"
  define rc where "rc = length got div ss"
  have fr: "fread f ss (n_ch * count) = (f1, got, rc)"
    unfolding f1_def got_def rc_def by (rule fread_ok [OF f(2,3)])
  have e: "\<not> ferror f1" using f(4) by (simp add: f1_def ferror_def)
  have lg: "length got = n_ch * count * ss"
    using av by (simp add: got_def mult.commute mult.left_commute)
  then have "rc = n_ch * count" using n(2) by (simp add: rc_def)
  then have k: "rc div n_ch = count" using n(1) by simp
  let ?t = "got @ drop (length got) t0"
  have "wav_read_transfer alloc s1 buffers n_ch ss cs count =
          Some (s2\<lparr>fp := Some f1, tmp := Some ?t, error_code := WAV_OK\<rparr>,
                deinterleave ?t n_ch ss cs count buffers, count)"
    unfolding wav_read_transfer_def using b e k
    by (simp add: sc s2 t0 fr Let_def)
  moreover have "\<forall>x < n_ch * count * ss. ?t ! x = contents f ! (fpos f + x)"
    using lg av by (simp add: nth_append got_def)
  ultimately show ?thesis by (intro exI [of _ "s2\<lparr>fp := Some f1, tmp := Some ?t, error_code := WAV_OK\<rparr>"] exI [of _ ?t]) simp
qed

lemma deinterleave_result:
  fixes ss cs :: nat
  assumes ss: "0 < ss" "ss \<le> cs" and i: "i < n_ch" and b: "buffers_fit out n_ch (count * cs)"
    and j: "j < count"
  shows "k < ss \<Longrightarrow> deinterleave t n_ch ss cs count out ! i ! (j * cs + k) = t ! (j * n_ch * ss + i * ss + k)"
    and "ss \<le> k \<Longrightarrow> k < cs \<Longrightarrow> deinterleave t n_ch ss cs count out ! i ! (j * cs + k) =
          (if (t ! (j * n_ch * ss + i * ss + ss - 1)) AND 0x80 \<noteq> 0 then 0xff else 0x00)"
proof -
  have n: "n_ch \<le> length out" and l: "count * cs \<le> length (out ! i)"
    using b i by (auto simp: buffers_fit_def list_all_length)
  have d: "deinterleave t n_ch ss cs count out ! i = read_channel t n_ch ss cs count i (out ! i)"
    using i n by (rule deinterleave_nth)
  have v: "deinterleave t n_ch ss cs count out ! i ! (j * cs + k) = vread t n_ch ss cs i (j * cs + k)" if "k < cs" for k
    unfolding d using ss j that l by (rule read_channel_nth)
  show "deinterleave t n_ch ss cs count out ! i ! (j * cs + k) = t ! (j * n_ch * ss + i * ss + k)" if "k < ss"
  proof -
    have "k < cs" using that ss(2) by simp
    then show ?thesis using that by (simp add: v vread_def)
  qed
  show "deinterleave t n_ch ss cs count out ! i ! (j * cs + k) =
          (if (t ! (j * n_ch * ss + i * ss + ss - 1)) AND 0x80 \<noteq> 0 then 0xff else 0x00)"
    if "ss \<le> k" "k < cs"
    using that by (simp add: v vread_def)
qed

lemma deinterleave_channel_length:
  fixes ss cs :: nat
  assumes "0 < ss" "ss \<le> cs" "i < n_ch" "n_ch \<le> length out"
  shows "length (deinterleave t n_ch ss cs count out ! i) = length (out ! i)"
  using assms by (simp add: deinterleave_nth read_channel_length)

lemma header_size_cong:
  "fmt_size (chunk a) = fmt_size (chunk b) \<Longrightarrow> fact_id (chunk a) = fact_id (chunk b) \<Longrightarrow>
   fact_size (chunk a) = fact_size (chunk b) \<Longrightarrow> wav_get_header_size a = wav_get_header_size b"
  by (simp add: wav_get_header_size_def Let_def)

lemma unat_add_of_nat:
  assumes "unat (w :: u32) + n < 2 ^ 32"
  shows "unat (w + of_nat n) = unat w + n"
proof -
  have n: "n < 2 ^ 32" using assms by simp
  have "unat (of_nat n :: u32) = n" using n by (simp add: unat_of_nat)
  then have "unat (w + of_nat n) = (unat w + n) mod 2 ^ 32"
    by (simp add: unat_word_ariths)
  then show ?thesis using assms by simp
qed

text \<open>
  The transcoder.  Take a handle whose mode passes the write check, with a tag other than
  the extensible one, \<open>n_ch\<close> channels of \<open>ss\<close> bytes (1, 2, 3 or 4) and so containers of \<open>cs\<close>
  bytes, a healthy stream that is not in append mode and is positioned after the header and
  inside the recorded data, and \<open>N\<close> frames in buffers that hold them.  Then \<open>wav_write\<close>
  returns \<open>N\<close> with status OK, and a handle whose mode passes the read check, that holds the
  writer's chunk model and whose stream holds the same bytes at the same position reads
  \<open>N\<close> frames back with status OK: the \<open>ss\<close> sample bytes of every container are the ones
  written, the bytes above them are 0xFF when the top bit of the last sample byte is set and
  0x00 otherwise.  Whether a reader obtained by opening the written file holds the writer's
  chunk model is a matter of the header, not of these loops.
\<close>

lemma transcoder_round_trip:
  assumes wm: "mode w = Some m" "\<not> strncmp_eq m ''rb'' 2"
    and rm: "mode r = Some m'"
      "\<not> (strncmp_eq m' ''wb'' 2 \<or> strncmp_eq m' ''wbx'' 3 \<or> strncmp_eq m' ''ab'' 2)"
    and tag: "format_tag (chunk w) \<noteq> WAV_FORMAT_EXTENSIBLE"
    and f: "fp w = Some f" "writable f" "\<not> broken f" "\<not> append_mode f" "\<not> err_ind f"
    and fmt: "n_ch = unat (n_channels (chunk w))" "0 < n_ch" "ss \<in> {1, 2, 3, 4}"
      "unat (block_align (chunk w)) = n_ch * ss" "cs = wav_container_sizes ! ss"
    and sz: "unat (fmt_size (chunk w)) \<le> 40" "unat (fact_size (chunk w)) \<le> 4"
    and p: "wav_get_header_size w \<le> fpos f" "fpos f \<le> length (contents f)"
      "fpos f \<le> wav_get_header_size w + unat (data_size (chunk w))"
    and d: "unat (data_size (chunk w)) + n_ch * N * ss < 2 ^ 32"
    and n: "0 < N"
    and a: "alloc (n_ch * N * ss)" "scratch_ok w"
    and b: "buffers_fit buffers n_ch (N * cs)" "buffers_fit out n_ch (N * cs)"
  shows "\<exists>w' f'. wav_write alloc w buffers N = Some (w', N) \<and> error_code w' = WAV_OK \<and> fp w' = Some f' \<and>
          (\<forall>g. fp r = Some g \<and> chunk r = chunk w' \<and> contents g = contents f' \<and> fpos g = fpos f \<and>
                readable g \<and> \<not> broken g \<and> \<not> err_ind g \<longrightarrow>
             (\<exists>r' bufs'. wav_read alloc r out N = Some (r', bufs', N) \<and> error_code r' = WAV_OK \<and>
                (\<forall>i j. i < n_ch \<and> j < N \<longrightarrow>
                   (\<forall>k. k < ss \<longrightarrow> bufs' ! i ! (j * cs + k) = buffers ! i ! (j * cs + k)) \<and>
                   (\<forall>k. ss \<le> k \<and> k < cs \<longrightarrow> bufs' ! i ! (j * cs + k) =
                         (if (buffers ! i ! (j * cs + ss - 1)) AND 0x80 \<noteq> 0 then 0xff else 0x00)) \<and>
                   (sign_extended ss cs (buffers ! i) j \<longrightarrow>
                      take cs (drop (j * cs) (bufs' ! i)) = take cs (drop (j * cs) (buffers ! i))))))"
proof -
  let ?p = "fpos f"
  let ?H = "wav_get_header_size w"
  let ?ba = "unat (block_align (chunk w))"
  let ?D = "unat (data_size (chunk w))"
  have ss: "0 < ss" "ss < 5" using fmt(3) by auto
  have cs: "ss \<le> cs" unfolding fmt(5) using ss(2) by (rule container_size_ge)
  have nz: "n_channels (chunk w) \<noteq> 0" using fmt(1,2) by (simp add: unat_gt_0)
  have ba: "0 < ?ba" using fmt(2,4) ss(1) by simp
  then have baz: "block_align (chunk w) \<noteq> 0" by (simp add: unat_gt_0)
  have sdiv: "?ba div unat (n_channels (chunk w)) = ss"
    using fmt(1,2,4) by simp
  obtain w' f' where w': "wav_write alloc w buffers N = Some (w', N)" "error_code w' = WAV_OK"
      "chunk w' = wav_riff_size (wav_write_sizes (chunk w) (n_ch * N) ss n_ch)" "fp w' = Some f'"
      "?p + n_ch * N * ss \<le> length (contents f')"
    and lay: "\<And>i j k. i < n_ch \<and> j < N \<and> k < ss \<Longrightarrow>
                contents f' ! (?p + (j * n_ch * ss + i * ss + k)) = buffers ! i ! (j * cs + k)"
    using wav_write_ok [OF wm tag f nz baz sdiv ss sz p(1,2) n, of alloc buffers] a b(1)
    unfolding fmt(1) fmt(5) by blast
  have cf: "fmt_size (chunk w') = fmt_size (chunk w)" "fact_id (chunk w') = fact_id (chunk w)"
    "fact_size (chunk w') = fact_size (chunk w)" "n_channels (chunk w') = n_channels (chunk w)"
    "block_align (chunk w') = block_align (chunk w)" "format_tag (chunk w') = format_tag (chunk w)"
    "data_size (chunk w') = data_size (chunk w) + of_nat (n_ch * N * ss)"
    unfolding w'(3) by (simp_all add: wav_riff_size_other riff_size_fields write_sizes_fields)
  have D': "unat (data_size (chunk w')) = ?D + n_ch * N * ss"
    unfolding cf using d by (rule unat_add_of_nat)
  have read: "\<exists>r' bufs'. wav_read alloc r out N = Some (r', bufs', N) \<and> error_code r' = WAV_OK \<and>
                (\<forall>i j. i < n_ch \<and> j < N \<longrightarrow>
                   (\<forall>k. k < ss \<longrightarrow> bufs' ! i ! (j * cs + k) = buffers ! i ! (j * cs + k)) \<and>
                   (\<forall>k. ss \<le> k \<and> k < cs \<longrightarrow> bufs' ! i ! (j * cs + k) =
                         (if (buffers ! i ! (j * cs + ss - 1)) AND 0x80 \<noteq> 0 then 0xff else 0x00)) \<and>
                   (sign_extended ss cs (buffers ! i) j \<longrightarrow>
                      take cs (drop (j * cs) (bufs' ! i)) = take cs (drop (j * cs) (buffers ! i))))"
    if g: "fp r = Some g \<and> chunk r = chunk w' \<and> contents g = contents f' \<and> fpos g = fpos f \<and>
                readable g \<and> \<not> broken g \<and> \<not> err_ind g" for g
  proof -
    have cr: "chunk r = chunk w'" using g by simp
    have Hr: "wav_get_header_size r = ?H"
      by (rule header_size_cong) (simp_all add: cr cf)
    have gp: "fpos g = ?p" and g1: "fp r = Some g" and g3: "\<not> broken g" using g by simp_all
    have tag_r: "format_tag (chunk r) \<noteq> WAV_FORMAT_EXTENSIBLE" using tag by (simp add: cr cf(6))
    have nz_r: "n_channels (chunk r) \<noteq> 0" using nz by (simp add: cr cf(4))
    have baz_r: "block_align (chunk r) \<noteq> 0" using baz by (simp add: cr cf(5))
    have sdiv_r: "unat (block_align (chunk r)) div unat (n_channels (chunk r)) = ss"
      using sdiv by (simp add: cr cf(4,5))
    have nr: "unat (n_channels (chunk r)) = n_ch" by (simp add: cr cf(4) fmt(1))
    have pos1_r: "wav_get_header_size r \<le> fpos g" using p(1) by (simp add: Hr gp)
    have Dr: "unat (data_size (chunk r)) = ?D + n_ch * N * ss" unfolding cr by (rule D')
    have bar: "unat (block_align (chunk r)) = ?ba" by (simp add: cr cf(5))
    have q: "(?D + n_ch * N * ss) div ?ba = ?D div ?ba + N"
      using ba fmt(4) by (simp add: mult.commute mult.left_commute)
    have q2: "(?p - ?H) div ?ba \<le> ?D div ?ba"
      using p(3) by (intro div_le_mono) simp
    have rem: "N \<le> frames_remaining r g"
      unfolding frames_remaining_def Dr bar Hr gp q using q2 by simp
    have pos2: "(fpos g - wav_get_header_size r) div unat (block_align (chunk r))
         \<le> unat (data_size (chunk r)) div unat (block_align (chunk r))"
      unfolding Dr bar Hr gp q using q2 by simp
    have mn: "min N (frames_remaining r g) = N" using rem by simp
    have head: "wav_read alloc r out N =
          wav_read_transfer alloc (r\<lparr>error_code := WAV_OK\<rparr>) out n_ch ss cs N"
      using wav_read_head [OF rm tag_r g1 g3 nz_r baz_r sdiv_r ss(2) pos1_r pos2, of alloc out N] n
      unfolding mn nr fmt(5) by simp
    obtain r' t where tr: "wav_read_transfer alloc (r\<lparr>error_code := WAV_OK\<rparr>) out n_ch ss cs N =
                  Some (r', deinterleave t n_ch ss cs N out, N)" "error_code r' = WAV_OK"
        and t: "\<And>x. x < n_ch * N * ss \<Longrightarrow> t ! x = contents g ! (fpos g + x)"
      using wav_read_transfer_full [of "r\<lparr>error_code := WAV_OK\<rparr>" g alloc n_ch N ss out cs]
        g a(1) b(2) fmt(2) ss(1) w'(5) by auto
    let ?bufs = "deinterleave t n_ch ss cs N out"
    have tb: "t ! (j * n_ch * ss + i * ss + k) = buffers ! i ! (j * cs + k)"
      if "i < n_ch" "j < N" "k < ss" for i j k
    proof -
      have "j * n_ch * ss + i * ss + k < n_ch * N * ss"
        using that by (intro frame_index_bound)
      then have "t ! (j * n_ch * ss + i * ss + k) = contents f' ! (?p + (j * n_ch * ss + i * ss + k))"
        using t g by simp
      then show ?thesis using lay that by simp
    qed
    have low: "?bufs ! i ! (j * cs + k) = buffers ! i ! (j * cs + k)" if "i < n_ch" "j < N" "k < ss" for i j k
      using deinterleave_result(1) [OF ss(1) cs that(1) b(2) that(2) that(3), of t] tb [OF that] by simp
    have high: "?bufs ! i ! (j * cs + k) =
          (if (buffers ! i ! (j * cs + ss - 1)) AND 0x80 \<noteq> 0 then 0xff else 0x00)"
      if "i < n_ch" "j < N" "ss \<le> k" "k < cs" for i j k
    proof -
      have "t ! (j * n_ch * ss + i * ss + (ss - 1)) = buffers ! i ! (j * cs + (ss - 1))"
        using that(1,2) ss(1) by (intro tb) simp_all
      then have "t ! (j * n_ch * ss + i * ss + ss - 1) = buffers ! i ! (j * cs + ss - 1)"
        using ss(1) by simp
      then show ?thesis
        using deinterleave_result(2) [OF ss(1) cs that(1) b(2) that(2) that(3) that(4), of t] by simp
    qed
    have whole: "take cs (drop (j * cs) (?bufs ! i)) = take cs (drop (j * cs) (buffers ! i))"
      if "i < n_ch" "j < N" "sign_extended ss cs (buffers ! i) j" for i j
    proof (rule nth_equalityI)
      have lo: "n_ch \<le> length out" "N * cs \<le> length (out ! i)"
        using b(2) that(1) by (auto simp: buffers_fit_def list_all_length)
      have lb: "N * cs \<le> length (buffers ! i)"
        using b(1) that(1) by (auto simp: buffers_fit_def list_all_length)
      have l1: "length (?bufs ! i) = length (out ! i)"
        using ss(1) cs that(1) lo(1) by (rule deinterleave_channel_length)
      have je: "j * cs + cs \<le> N * cs"
      proof -
        have "j * cs + cs = (j + 1) * cs" by simp
        also have "\<dots> \<le> N * cs" using that(2) by (intro mult_le_mono1) simp
        finally show ?thesis .
      qed
      show "length (take cs (drop (j * cs) (?bufs ! i))) = length (take cs (drop (j * cs) (buffers ! i)))"
        using l1 lo(2) lb je by simp
      fix k assume "k < length (take cs (drop (j * cs) (?bufs ! i)))"
      then have k: "k < cs" by simp
      have e: "?bufs ! i ! (j * cs + k) = buffers ! i ! (j * cs + k)"
      proof (cases "k < ss")
        case True
        then show ?thesis using low that(1,2) by simp
      next
        case False
        then have "buffers ! i ! (j * cs + k) =
            (if (buffers ! i ! (j * cs + ss - 1)) AND 0x80 \<noteq> 0 then 0xff else 0x00)"
          using that(3) k by (simp add: sign_extended_def list_all_iff)
        then show ?thesis using high [OF that(1,2) _ k] False by simp
      qed
      show "take cs (drop (j * cs) (?bufs ! i)) ! k = take cs (drop (j * cs) (buffers ! i)) ! k"
        using k e l1 lo(2) lb je by simp
    qed
    show ?thesis
      apply (rule exI [of _ r'], rule exI [of _ ?bufs])
      using head tr low high whole by simp
  qed
  show ?thesis
    apply (rule exI [of _ w'], rule exI [of _ f'])
    using w'(1,2,4) read by blast
qed

section \<open>Closing a handle opened for writing\<close>

subsection \<open>The header the writer leaves in the file\<close>

lemma fwrite_prefix:
  assumes "writable f" "\<not> broken f" "\<not> append_mode f"
    and "length bs = n" "0 < n"
    and "fpos f = length pre" "take (length pre) (contents f) = pre"
  shows "\<exists>f'. fwrite bs n 1 f = (f', 1) \<and> fpos f' = length pre + n \<and>
              take (length pre + n) (contents f') = pre @ bs \<and>
              drop (length pre + n) (contents f') = drop (length pre + n) (contents f) \<and>
              writable f' \<and> \<not> broken f' \<and> \<not> append_mode f'"
proof -
  let ?c = "contents f"
  let ?p = "length pre"
  let ?f' = "f\<lparr>contents := pre @ bs @ drop (?p + n) ?c, fpos := ?p + n\<rparr>"
  have le: "?p \<le> length ?c"
    using assms(7) by (metis length_take min.cobounded1)
  have w: "fwrite bs n 1 f = (?f', 1)"
    using assms le by (simp add: fwrite_def Let_def)
  have t: "take (?p + n) (pre @ bs @ drop (?p + n) ?c) = pre @ bs"
    using assms(4) by simp
  have d: "drop (?p + n) (pre @ bs @ drop (?p + n) ?c) = drop (?p + n) ?c"
    using assms(4) by simp
  show ?thesis
    using w t d assms(1,2,3) by (intro exI [of _ ?f']) simp
qed

text \<open>A header write that succeeds on a stream not opened for appending leaves the header
  image of the handle's chunk model at the head of the file, the stream just behind it and
  the bytes behind the header as they were.\<close>

lemma wav_write_header_image:
  assumes f: "fp s = Some f" "writable f" "\<not> broken f" "\<not> append_mode f"
    and sz: "unat (fmt_size (chunk s)) \<le> 40" "fact_id (chunk s) \<noteq> WAV_FACT_CHUNK_ID"
  shows "\<exists>f'. wav_write_header s =
                 Some (s\<lparr>chunk := wav_riff_size (chunk s), fp := Some f', error_code := WAV_OK\<rparr>) \<and>
              fpos f' = 28 + unat (fmt_size (chunk s)) \<and>
              take (28 + unat (fmt_size (chunk s))) (contents f') = header_image (wav_riff_size (chunk s)) \<and>
              drop (28 + unat (fmt_size (chunk s))) (contents f') =
                drop (28 + unat (fmt_size (chunk s))) (contents f)"
proof -
  let ?c = "wav_riff_size (chunk s)"
  let ?s = "s\<lparr>chunk := ?c\<rparr>"
  let ?fs = "unat (fmt_size (chunk s))"
  let ?B = "chunk_bytes ?c"
  define f0 where "f0 = fst (fseek_set f 0)"
  have f0: "fpos f0 = 0" "writable f0" "\<not> broken f0" "\<not> append_mode f0" "contents f0 = contents f"
    using f by (simp_all add: f0_def fseek_set_def)
  have u2: "unat (8 + fmt_size (chunk s)) = 8 + ?fs" using sz(1) by (simp add: unat_word_ariths)
  define b1 where "b1 = take 12 ?B"
  define b2 where "b2 = take (8 + ?fs) (drop 12 ?B)"
  define b3 where "b3 = take 8 (drop 72 ?B)"
  have l: "length b1 = 12" "length b2 = 8 + ?fs" "length b3 = 8"
    using sz(1) by (simp_all add: b1_def b2_def b3_def)
  have c1: "chunk_load ?c 0 (WAV_RIFF_HEADER_SIZE + 4) = Some b1"
    by (simp add: chunk_load_def sizeof_WavMasterChunk_def WAV_RIFF_HEADER_SIZE_def b1_def)
  have c2: "chunk_load ?c offsetof_format_chunk (unat (8 + fmt_size ?c)) = Some b2"
    using sz(1)
    by (simp add: chunk_load_def sizeof_WavMasterChunk_def offsetof_format_chunk_def
        wav_riff_size_other u2 b2_def)
  have c3: "chunk_load ?c offsetof_data_chunk WAV_RIFF_HEADER_SIZE = Some b3"
    by (simp add: chunk_load_def sizeof_WavMasterChunk_def offsetof_data_chunk_def
        WAV_RIFF_HEADER_SIZE_def b3_def)
  obtain f1 where f1: "fwrite b1 12 1 f0 = (f1, 1)" "fpos f1 = 12" "take 12 (contents f1) = b1"
      "drop 12 (contents f1) = drop 12 (contents f)" "writable f1" "\<not> broken f1" "\<not> append_mode f1"
    using fwrite_prefix [OF f0(2,3,4) l(1), of "[]"] f0(1,5) by auto
  obtain f2 where f2: "fwrite b2 (8 + ?fs) 1 f1 = (f2, 1)" "fpos f2 = 20 + ?fs"
      "take (20 + ?fs) (contents f2) = b1 @ b2"
      "drop (20 + ?fs) (contents f2) = drop (20 + ?fs) (contents f1)"
      "writable f2" "\<not> broken f2" "\<not> append_mode f2"
    using fwrite_prefix [OF f1(5,6,7) l(2), of b1] f1(2,3) l(1) by auto
  have d2: "drop (20 + ?fs) (contents f1) = drop (20 + ?fs) (contents f)"
  proof -
    have "drop (20 + ?fs) (contents f1) = drop (8 + ?fs) (drop 12 (contents f1))" by simp
    also have "\<dots> = drop (8 + ?fs) (drop 12 (contents f))" by (simp only: f1(4))
    finally show ?thesis by simp
  qed
  have l12: "length (b1 @ b2) = 20 + ?fs" using l by simp
  obtain f3 where f3: "fwrite b3 8 1 f2 = (f3, 1)" "fpos f3 = 28 + ?fs"
      "take (28 + ?fs) (contents f3) = (b1 @ b2) @ b3"
      "drop (28 + ?fs) (contents f3) = drop (28 + ?fs) (contents f2)"
    using fwrite_prefix [OF f2(5,6,7) l(3), of "b1 @ b2"] f2(2,3) unfolding l12 by auto
  have d3: "drop (28 + ?fs) (contents f2) = drop (28 + ?fs) (contents f)"
  proof -
    have "drop (28 + ?fs) (contents f2) = drop 8 (drop (20 + ?fs) (contents f2))" by simp
    also have "\<dots> = drop 8 (drop (20 + ?fs) (contents f))" by (simp only: f2(4) d2)
    finally show ?thesis by simp
  qed
  have img: "header_image ?c = (b1 @ b2) @ b3"
    using sz(2) by (simp add: header_image_def fmt_image_def wav_riff_size_other u2 b1_def b2_def b3_def)
  have d: "wav_write_header_data ?s f2 = Some (?s\<lparr>fp := Some f3, error_code := WAV_OK\<rparr>)"
    using c3 f3(1) by (simp add: wav_write_header_data_def WAV_RIFF_HEADER_SIZE_def)
  have "wav_write_header s = Some (?s\<lparr>fp := Some f3, error_code := WAV_OK\<rparr>)"
    unfolding wav_write_header_def
    using sz(2) f(1) c1 f1(1) c2 f2(1) d
    by (simp add: Let_def f0_def [symmetric] WAV_RIFF_HEADER_SIZE_def u2 wav_riff_size_other)
  then show ?thesis
    using f3(2,3,4) d3 img by (intro exI [of _ f3]) simp
qed

subsection \<open>The pad byte\<close>

lemma header_size_no_fact:
  assumes "fact_id (chunk s) \<noteq> WAV_FACT_CHUNK_ID" "unat (fmt_size (chunk s)) \<le> 40"
  shows "wav_get_header_size s = 28 + unat (fmt_size (chunk s))"
proof -
  have "unat (8 + 4 + 8 + fmt_size (chunk s) + 8) = 28 + unat (fmt_size (chunk s))"
    using assms by (simp add: unat_word_ariths)
  then show ?thesis using assms by (simp add: wav_get_header_size_def)
qed

lemma data_not_fact: "WAV_DATA_CHUNK_ID \<noteq> WAV_FACT_CHUNK_ID"
  by (simp add: WAV_DATA_CHUNK_ID_def WAV_FACT_CHUNK_ID_def)

text \<open>Opening for reading a file that starts with the header the writer emits.\<close>

lemma wav_init_read_written:
  assumes hdr: "bs = header_image c @ rest"
    and c: "riff_id c = WAV_RIFF_CHUNK_ID" "wave_id c = WAV_WAVE_ID" "fmt_id c = WAV_FORMAT_CHUNK_ID"
      "fact_id c \<noteq> WAV_FACT_CHUNK_ID" "data_id c = WAV_DATA_CHUNK_ID"
    and n: "2 \<le> unat (fmt_size c)" "unat (fmt_size c) \<le> 40"
    and tag: "format_tag c = WAV_FORMAT_PCM \<or> format_tag c = WAV_FORMAT_IEEE_FLOAT \<or>
              format_tag c = WAV_FORMAT_ALAW \<or> format_tag c = WAV_FORMAT_MULAW"
  shows "\<exists>r g. wav_init (Some bs) ''r'' = Some r \<and> error_code r = WAV_OK \<and> fp r = Some g \<and>
           contents g = bs \<and> fpos g = 28 + unat (fmt_size c) \<and> \<not> eof_ind g \<and> \<not> broken g \<and>
           wav_get_header_size r = 28 + unat (fmt_size c) \<and>
           data_size (chunk r) = data_size c"
proof -
  define g0 where "g0 = \<lparr>contents = bs, fpos = 0, eof_ind = False, err_ind = False,
                              readable = True, writable = False, append_mode = False, broken = False\<rparr>"
  define s0 where "s0 = zero_WavFile\<lparr>mode := Some ''rb'', fp := Some g0\<rparr>"
  have m: "wav_init_mode ''r'' = Some ''rb''" by code_simp
  have o: "fopen (Some bs) ''rb'' = Some g0" by (simp add: fopen_def g0_def)
  have i: "wav_init (Some bs) ''r'' = wav_parse_header s0"
    by (simp add: wav_init_def m o char0_def s0_def)
  have g: "readable g0" "\<not> broken g0" "fpos g0 = 0" "contents g0 = header_image c @ rest"
    by (simp_all add: g0_def hdr)
  have s: "fp s0 = Some g0" by (simp add: s0_def)
  obtain r where r: "wav_parse_header s0 = Some r" "error_code r = WAV_OK"
      "fmt_size (chunk r) = fmt_size c" "fact_id (chunk r) = WAV_DATA_CHUNK_ID"
      "data_size (chunk r) = data_size c" "fp r = Some (g0\<lparr>fpos := 28 + unat (fmt_size c)\<rparr>)"
    using wav_parse_written_header [OF g c n tag s] by auto
  have h: "wav_get_header_size r = 28 + unat (fmt_size c)"
    using header_size_no_fact [of r] r(3,4) n(2) data_not_fact by simp
  show ?thesis
    by (intro exI [of _ r] exI [of _ "g0\<lparr>fpos := 28 + unat (fmt_size c)\<rparr>"])
       (simp add: i r h, simp add: g0_def)
qed

lemma wav_eof_at:
  assumes "fp s = Some g" "\<not> eof_ind g" "\<not> broken g"
  shows "wav_eof s = Some (fpos g = wav_get_header_size s + unat (data_size (chunk s)))"
proof -
  have "(int (fpos g) = int (wav_get_header_size s + unat (data_size (chunk s)))) =
        (fpos g = wav_get_header_size s + unat (data_size (chunk s)))"
    by (rule of_nat_eq_iff)
  then show ?thesis
    unfolding wav_eof_def feof_def ftell_def using assms by simp
qed

lemma fwrite_byte:
  assumes "writable f" "\<not> broken f"
  shows "\<exists>f'. fwrite [b] 1 1 f = (f', 1) \<and> \<not> broken f' \<and>
           contents f' =
             (if write_pos f = length (contents f) then contents f @ [b]
              else if write_pos f < length (contents f) then (contents f)[write_pos f := b]
              else contents f @ replicate (write_pos f - length (contents f)) 0 @ [b])"
proof -
  let ?c = "contents f"
  let ?p = "write_pos f"
  let ?old = "?c @ replicate (?p - length ?c) 0"
  let ?f' = "f\<lparr>contents := take ?p ?old @ [b] @ drop (?p + 1) ?old, fpos := ?p + 1\<rparr>"
  have w: "fwrite [b] 1 1 f = (?f', 1)"
    using assms by (simp add: fwrite_def Let_def write_pos_def)
  have c: "take ?p ?old @ [b] @ drop (?p + 1) ?old =
             (if ?p = length ?c then ?c @ [b]
              else if ?p < length ?c then ?c[?p := b]
              else ?c @ replicate (?p - length ?c) 0 @ [b])"
  proof (cases "?p < length ?c")
    case True
    then show ?thesis by (simp add: upd_conv_take_nth_drop)
  next
    case False
    then show ?thesis by simp
  qed
  show ?thesis
    using w c assms(2) by (intro exI [of _ ?f']) simp
qed

lemma wav_finalize_odd:
  assumes f: "fp self = Some f" "writable f" "\<not> broken f"
    and m: "mode self = Some m"
      "m = ''wb'' \<or> m = ''wb+'' \<or> m = ''wbx'' \<or> m = ''wb+x'' \<or> m = ''ab'' \<or> m = ''ab+''"
    and odd: "data_size (chunk self) mod 2 \<noteq> 0"
  shows "\<exists>s'. wav_finalize self = Some s' \<and> error_code s' = WAV_OK \<and> chunk s' = chunk self \<and>
           file_bytes s' =
             (if wav_eof self \<noteq> Some True then contents f
              else if write_pos f = length (contents f) then contents f @ [0]
              else if write_pos f < length (contents f) then (contents f)[write_pos f := 0]
              else contents f @ replicate (write_pos f - length (contents f)) 0 @ [0])"
proof (cases "wav_eof self = Some True")
  case True
  obtain f' where f': "fwrite [0] 1 1 f = (f', 1)" "\<not> broken f'"
    "contents f' =
             (if write_pos f = length (contents f) then contents f @ [0]
              else if write_pos f < length (contents f) then (contents f)[write_pos f := 0]
              else contents f @ replicate (write_pos f - length (contents f)) 0 @ [0])"
    using fwrite_byte [OF f(2,3), of 0] by auto
  have md: "strncmp_eq m ''wb'' 2 \<or> strncmp_eq m ''wb+'' 3 \<or> strncmp_eq m ''wbx'' 3 \<or>
          strncmp_eq m ''wb+x'' 4 \<or> strncmp_eq m ''ab'' 2 \<or> strncmp_eq m ''ab+'' 3"
    using m(2) by (auto simp: strncmp_eq_def)
  have "wav_finalize self = Some (self\<lparr>fp := Some f', error_code := WAV_OK\<rparr>)"
    unfolding wav_finalize_def using f(1) m(1) md odd True f'(1,2)
    by (simp add: wav_finalize_close_def fclose_ok_def)
  then show ?thesis
    using True f'(3)
    by (intro exI [of _ "self\<lparr>fp := Some f', error_code := WAV_OK\<rparr>"]) (simp add: file_bytes_def)
next
  case False
  have "wav_finalize self = Some (self\<lparr>fp := Some f, error_code := WAV_OK\<rparr>)"
    unfolding wav_finalize_def using f(1,3) m(1) False
    by (simp add: wav_finalize_close_def fclose_ok_def)
  then show ?thesis
    using False
    by (intro exI [of _ "self\<lparr>fp := Some f, error_code := WAV_OK\<rparr>"]) (simp add: file_bytes_def)
qed

text \<open>
  Claim C9, as amended.  Take a handle in a write or append mode whose recorded data size
  is odd and whose stream is open, writable and working.  Finalizing it (all that
  \<open>wav_close\<close> does to the file, and the first half of \<open>wav_reopen\<close>) succeeds and leaves the
  recorded data size as it is.  It writes nothing unless \<open>wav_eof\<close> holds at that moment;
  when it holds, one zero byte goes where the stream writes: it is appended when that place
  is the end of the file, it replaces the byte there when the place is inside the file, and
  it follows a gap of zero bytes when the place is beyond the end.  Whenever the file so
  left begins with the handle's current header (the four ids, no fact chunk, a fmt body of
  2 to 40 bytes, a tag the parser accepts), opening it for reading succeeds with the same
  header length and the same data size, and \<open>wav_eof\<close> then holds at the position header
  length plus data size and at no other.
\<close>

theorem wav_finalize_pad_byte:
  assumes f: "fp self = Some f" "writable f" "\<not> broken f"
    and m: "mode self = Some m"
      "m = ''wb'' \<or> m = ''wb+'' \<or> m = ''wbx'' \<or> m = ''wb+x'' \<or> m = ''ab'' \<or> m = ''ab+''"
    and odd: "data_size (chunk self) mod 2 \<noteq> 0"
  shows "\<exists>s'. wav_finalize self = Some s' \<and> error_code s' = WAV_OK \<and> chunk s' = chunk self \<and>
           file_bytes s' =
             (if wav_eof self \<noteq> Some True then contents f
              else if write_pos f = length (contents f) then contents f @ [0]
              else if write_pos f < length (contents f) then (contents f)[write_pos f := 0]
              else contents f @ replicate (write_pos f - length (contents f)) 0 @ [0]) \<and>
           (file_bytes s' = header_image (chunk self) @ rest \<and>
            riff_id (chunk self) = WAV_RIFF_CHUNK_ID \<and> wave_id (chunk self) = WAV_WAVE_ID \<and>
            fmt_id (chunk self) = WAV_FORMAT_CHUNK_ID \<and>
            fact_id (chunk self) \<noteq> WAV_FACT_CHUNK_ID \<and> data_id (chunk self) = WAV_DATA_CHUNK_ID \<and>
            2 \<le> unat (fmt_size (chunk self)) \<and> unat (fmt_size (chunk self)) \<le> 40 \<and>
            (format_tag (chunk self) = WAV_FORMAT_PCM \<or>
             format_tag (chunk self) = WAV_FORMAT_IEEE_FLOAT \<or>
             format_tag (chunk self) = WAV_FORMAT_ALAW \<or>
             format_tag (chunk self) = WAV_FORMAT_MULAW) \<longrightarrow>
            (\<exists>r g. wav_init (Some (file_bytes s')) ''r'' = Some r \<and>
                   wav_reopen self (Some (file_bytes s')) ''r'' = Some r \<and>
                   error_code r = WAV_OK \<and> fp r = Some g \<and>
                   wav_get_header_size r = wav_get_header_size self \<and>
                   data_size (chunk r) = data_size (chunk self) \<and>
                   fpos g = wav_get_header_size self \<and>
                   (\<forall>q. wav_eof (r\<lparr>fp := Some (g\<lparr>fpos := q\<rparr>)\<rparr>) =
                          Some (q = wav_get_header_size self + unat (data_size (chunk self))))))"
proof -
  obtain s' where s': "wav_finalize self = Some s'" "error_code s' = WAV_OK" "chunk s' = chunk self"
    and fb: "file_bytes s' =
             (if wav_eof self \<noteq> Some True then contents f
              else if write_pos f = length (contents f) then contents f @ [0]
              else if write_pos f < length (contents f) then (contents f)[write_pos f := 0]
              else contents f @ replicate (write_pos f - length (contents f)) 0 @ [0])"
    using wav_finalize_odd [OF f m odd] by (elim exE conjE)
  have inner: "\<exists>r g. wav_init (Some (file_bytes s')) ''r'' = Some r \<and>
                   wav_reopen self (Some (file_bytes s')) ''r'' = Some r \<and>
                   error_code r = WAV_OK \<and> fp r = Some g \<and>
                   wav_get_header_size r = wav_get_header_size self \<and>
                   data_size (chunk r) = data_size (chunk self) \<and>
                   fpos g = wav_get_header_size self \<and>
                   (\<forall>q. wav_eof (r\<lparr>fp := Some (g\<lparr>fpos := q\<rparr>)\<rparr>) =
                          Some (q = wav_get_header_size self + unat (data_size (chunk self))))"
    if a: "file_bytes s' = header_image (chunk self) @ rest \<and>
            riff_id (chunk self) = WAV_RIFF_CHUNK_ID \<and> wave_id (chunk self) = WAV_WAVE_ID \<and>
            fmt_id (chunk self) = WAV_FORMAT_CHUNK_ID \<and>
            fact_id (chunk self) \<noteq> WAV_FACT_CHUNK_ID \<and> data_id (chunk self) = WAV_DATA_CHUNK_ID \<and>
            2 \<le> unat (fmt_size (chunk self)) \<and> unat (fmt_size (chunk self)) \<le> 40 \<and>
            (format_tag (chunk self) = WAV_FORMAT_PCM \<or>
             format_tag (chunk self) = WAV_FORMAT_IEEE_FLOAT \<or>
             format_tag (chunk self) = WAV_FORMAT_ALAW \<or>
             format_tag (chunk self) = WAV_FORMAT_MULAW)"
  proof -
    from a have b: "file_bytes s' = header_image (chunk self) @ rest"
      and c: "riff_id (chunk self) = WAV_RIFF_CHUNK_ID" "wave_id (chunk self) = WAV_WAVE_ID"
        "fmt_id (chunk self) = WAV_FORMAT_CHUNK_ID"
        "fact_id (chunk self) \<noteq> WAV_FACT_CHUNK_ID" "data_id (chunk self) = WAV_DATA_CHUNK_ID"
      and n: "2 \<le> unat (fmt_size (chunk self))" "unat (fmt_size (chunk self)) \<le> 40"
      and tag: "format_tag (chunk self) = WAV_FORMAT_PCM \<or>
             format_tag (chunk self) = WAV_FORMAT_IEEE_FLOAT \<or>
             format_tag (chunk self) = WAV_FORMAT_ALAW \<or>
             format_tag (chunk self) = WAV_FORMAT_MULAW"
      by simp_all
    have H: "wav_get_header_size self = 28 + unat (fmt_size (chunk self))"
      using header_size_no_fact [of self] c(4) n(2) by simp
    obtain r g where r: "wav_init (Some (file_bytes s')) ''r'' = Some r" "error_code r = WAV_OK"
       "fp r = Some g" "fpos g = 28 + unat (fmt_size (chunk self))" "\<not> eof_ind g" "\<not> broken g"
       "wav_get_header_size r = 28 + unat (fmt_size (chunk self))"
       "data_size (chunk r) = data_size (chunk self)"
      using wav_init_read_written [OF b c n tag] by auto
    have ro: "wav_reopen self (Some (file_bytes s')) ''r'' = Some r"
      by (simp add: wav_reopen_def s'(1) r(1))
    have hq: "wav_get_header_size (r\<lparr>fp := Some (g\<lparr>fpos := q\<rparr>)\<rparr>) = wav_get_header_size r" for q
      by (simp add: wav_get_header_size_def Let_def)
    have eq: "wav_eof (r\<lparr>fp := Some (g\<lparr>fpos := q\<rparr>)\<rparr>) =
                Some (q = wav_get_header_size self + unat (data_size (chunk self)))" for q
      using wav_eof_at [of "r\<lparr>fp := Some (g\<lparr>fpos := q\<rparr>)\<rparr>" "g\<lparr>fpos := q\<rparr>"] r(5,6)
      by (simp add: hq r(7,8) H)
    show ?thesis
      apply (rule exI [of _ r], rule exI [of _ g])
      apply (intro conjI r(1,2,3) ro allI eq r(8))
       apply (simp add: r(7) H)
      apply (simp add: r(4) H)
      done
  qed
  show ?thesis
    apply (rule exI [of _ s'])
    apply (intro conjI s' fb impI)
    apply (erule inner)
    done
qed

theorem wav_finalize_pad_byte_witness:
  "wav_eof mono8_handle = Some True \<and> data_size (chunk mono8_handle) = 3 \<and>
   wav_get_header_size mono8_handle = 36 \<and>
   write_pos (the (fp mono8_handle)) = length (file_bytes mono8_handle) \<and>
   file_bytes mono8_handle = header_image (chunk mono8_handle) @ [1, 2, 3] \<and>
   (\<exists>s' r g. wav_finalize mono8_handle = Some s' \<and> error_code s' = WAV_OK \<and>
      data_size (chunk s') = 3 \<and>
      file_bytes s' = file_bytes mono8_handle @ [0] \<and>
      wav_init (Some (file_bytes s')) ''r'' = Some r \<and> error_code r = WAV_OK \<and>
      fp r = Some g \<and> wav_get_header_size r = 36 \<and> data_size (chunk r) = 3 \<and>
      wav_eof (r\<lparr>fp := Some (g\<lparr>fpos := 39\<rparr>)\<rparr>) = Some True \<and>
      wav_eof (r\<lparr>fp := Some (g\<lparr>fpos := 40\<rparr>)\<rparr>) = Some False) \<and>
   mode (the append_handle) = Some ''ab'' \<and> data_size (chunk (the append_handle)) = 3 \<and>
   wav_eof (the append_handle) = Some False \<and>
   (\<exists>s'. wav_finalize (the append_handle) = Some s' \<and> error_code s' = WAV_OK \<and>
      data_size (chunk s') = 3 \<and> file_bytes s' = file_bytes (the append_handle))"
proof -
  let ?a = "the append_handle"
  let ?g = "the (fp ?a)"
  have af: "fp ?a = Some ?g"
    by code_simp
  have aw: "writable ?g"
    by code_simp
  have ab: "\<not> broken ?g"
    by code_simp
  have am: "mode ?a = Some ''ab''"
    by code_simp
  have am': "''ab'' = ''wb'' \<or> ''ab'' = ''wb+'' \<or> ''ab'' = ''wbx'' \<or> ''ab'' = ''wb+x'' \<or>
     ''ab'' = ''ab'' \<or> ''ab'' = ''ab+''"
    by simp
  have ad: "data_size (chunk ?a) = 3"
    by code_simp
  have aodd: "data_size (chunk ?a) mod 2 \<noteq> 0"
    unfolding ad by simp
  have ae: "wav_eof ?a = Some False"
    by code_simp
  have afb: "file_bytes ?a = contents ?g"
    unfolding file_bytes_def by (subst af) simp
  from wav_finalize_pad_byte [OF af aw ab am am' aodd, of "[]"]
  obtain t' where t: "wav_finalize ?a = Some t'" "error_code t' = WAV_OK"
      "chunk t' = chunk ?a" "file_bytes t' = contents ?g"
    unfolding ae by (elim exE conjE) simp
  have agoal: "\<exists>s'. wav_finalize ?a = Some s' \<and> error_code s' = WAV_OK \<and>
      data_size (chunk s') = 3 \<and> file_bytes s' = file_bytes ?a"
    by (rule exI [of _ t']) (simp add: t ad afb)
  let ?f = "the (fp mono8_handle)"
  have f: "fp mono8_handle = Some ?f" "writable ?f" "\<not> broken ?f"
    by (simp_all add: mono8_handle_def)
  have m: "mode mono8_handle = Some ''wb''"
    "''wb'' = ''wb'' \<or> ''wb'' = ''wb+'' \<or> ''wb'' = ''wbx'' \<or> ''wb'' = ''wb+x'' \<or>
     ''wb'' = ''ab'' \<or> ''wb'' = ''ab+''"
    by (simp_all add: mono8_handle_def)
  have d: "data_size (chunk mono8_handle) = 3"
    by (simp add: mono8_handle_def)
  have odd: "data_size (chunk mono8_handle) mod 2 \<noteq> 0"
    unfolding d by simp
  have fb: "file_bytes mono8_handle = contents ?f"
    by (simp add: file_bytes_def mono8_handle_def)
  have p: "write_pos ?f = length (contents ?f)"
    by (simp add: write_pos_def mono8_handle_def)
  have hdr: "contents ?f = header_image (chunk mono8_handle) @ [1, 2, 3]"
    by code_simp
  have c: "riff_id (chunk mono8_handle) = WAV_RIFF_CHUNK_ID"
    "wave_id (chunk mono8_handle) = WAV_WAVE_ID"
    "fmt_id (chunk mono8_handle) = WAV_FORMAT_CHUNK_ID"
    "fact_id (chunk mono8_handle) \<noteq> WAV_FACT_CHUNK_ID"
    "data_id (chunk mono8_handle) = WAV_DATA_CHUNK_ID"
    by (simp_all add: mono8_handle_def WAV_RIFF_CHUNK_ID_def WAV_WAVE_ID_def
        WAV_FORMAT_CHUNK_ID_def WAV_DATA_CHUNK_ID_def WAV_FACT_CHUNK_ID_def)
  have n: "2 \<le> unat (fmt_size (chunk mono8_handle))" "unat (fmt_size (chunk mono8_handle)) \<le> 40"
    by (simp_all add: mono8_handle_def)
  have tag: "format_tag (chunk mono8_handle) = WAV_FORMAT_PCM"
    by (simp add: mono8_handle_def WAV_FORMAT_PCM_def)
  have e: "wav_eof mono8_handle = Some True"
    by code_simp
  have h: "wav_get_header_size mono8_handle = 36"
    by code_simp
  from wav_finalize_pad_byte [OF f m odd, of "[1, 2, 3, 0]"]
  obtain s' where s: "wav_finalize mono8_handle = Some s'" "error_code s' = WAV_OK"
      "chunk s' = chunk mono8_handle" "file_bytes s' = contents ?f @ [0]"
      and imp: "file_bytes s' = header_image (chunk mono8_handle) @ [1, 2, 3, 0] \<longrightarrow>
         (\<exists>r g. wav_init (Some (file_bytes s')) ''r'' = Some r \<and>
                   wav_reopen mono8_handle (Some (file_bytes s')) ''r'' = Some r \<and>
                   error_code r = WAV_OK \<and> fp r = Some g \<and>
                   wav_get_header_size r = 36 \<and>
                   data_size (chunk r) = 3 \<and>
                   fpos g = 36 \<and>
                   (\<forall>q. wav_eof (r\<lparr>fp := Some (g\<lparr>fpos := q\<rparr>)\<rparr>) = Some (q = 39)))"
    unfolding e h d using p c n tag by (elim exE conjE) simp
  have "file_bytes s' = header_image (chunk mono8_handle) @ [1, 2, 3, 0]"
    by (simp add: s(4) hdr)
  with imp obtain r g where r: "wav_init (Some (file_bytes s')) ''r'' = Some r" "error_code r = WAV_OK"
      "fp r = Some g" "wav_get_header_size r = 36" "data_size (chunk r) = 3"
      and q: "\<And>q. wav_eof (r\<lparr>fp := Some (g\<lparr>fpos := q\<rparr>)\<rparr>) = Some (q = 39)"
    by (elim impE exE conjE) simp_all
  have goal: "\<exists>s' r g. wav_finalize mono8_handle = Some s' \<and> error_code s' = WAV_OK \<and>
      data_size (chunk s') = 3 \<and>
      file_bytes s' = file_bytes mono8_handle @ [0] \<and>
      wav_init (Some (file_bytes s')) ''r'' = Some r \<and> error_code r = WAV_OK \<and>
      fp r = Some g \<and> wav_get_header_size r = 36 \<and> data_size (chunk r) = 3 \<and>
      wav_eof (r\<lparr>fp := Some (g\<lparr>fpos := 39\<rparr>)\<rparr>) = Some True \<and>
      wav_eof (r\<lparr>fp := Some (g\<lparr>fpos := 40\<rparr>)\<rparr>) = Some False"
    apply (rule exI [of _ s'], rule exI [of _ r], rule exI [of _ g])
    apply (intro conjI s(1,2) r)
       apply (simp add: s(3) d)
      apply (simp add: s(4) fb)
     apply (simp add: q)
    apply (simp add: q)
    done
  show ?thesis
    apply (intro conjI e d h goal am ad ae agoal)
     apply (simp add: p fb)
    apply (simp add: fb hdr)
    done
qed

text \<open>Claim C9 as stated fails.  After three one-byte frames a change of the sample rate
  rewrites the header and leaves the stream behind it, at byte 36 of 39: the handle is
  closed with the odd data size 3 and no pad byte.  On the handle whose header has shrunk
  \<open>wav_eof\<close> holds at byte 40 of a file of 68 bytes: the zero byte replaces byte 40 and
  nothing is appended.  On the append handle every header went to the end of the file:
  \<open>wav_eof\<close> does not hold, no pad byte is written, and a reader of the file finds the data
  size 0 of the first header.\<close>

theorem wav_finalize_no_pad_counterexample:
  "map_option (\<lambda>h. (mode h, data_size (chunk h), wav_eof h, map_option fpos (fp h),
                      length (file_bytes h)))
     (wav_set_sample_rate mono8_handle 8000) = Some (Some ''wb'', 3, Some False, Some 36, 39) \<and>
   map_option (\<lambda>s. (error_code s, file_bytes s))
     (Option.bind (wav_set_sample_rate mono8_handle 8000) wav_finalize) =
     Some (WAV_OK,
           [82, 73, 70, 70, 32, 0, 0, 0, 87, 65, 86, 69, 102, 109, 116, 32, 8, 0, 0, 0,
            1, 0, 1, 0, 64, 31, 0, 0, 100, 97, 116, 97, 3, 0, 0, 0, 1, 2, 3]) \<and>
   map_option (\<lambda>h. (mode h, data_size (chunk h), wav_eof h, map_option fpos (fp h),
                      length (file_bytes h),
                      map_option (\<lambda>s. (error_code s, length (file_bytes s))) (wav_finalize h)))
     shrunk_header_handle = Some (Some ''wb'', 3, Some True, Some 40, 68, Some (WAV_OK, 68)) \<and>
   map_option (\<lambda>h. (mode h, data_size (chunk h), wav_eof h, length (file_bytes h),
                      map_option (\<lambda>s. (error_code s, length (file_bytes s),
                                     map_option (\<lambda>r. (error_code r, data_size (chunk r)))
                                       (wav_init (Some (file_bytes s)) ''r'')))
                        (wav_finalize h)))
     append_handle = Some (Some ''ab'', 3, Some False, 147, Some (WAV_OK, 147, Some (WAV_OK, 0)))"
  by code_simp

section \<open>Where the code departs from its specification\<close>

text \<open>
  Claim C1.  Written through a new file with the default header, two frames of one 24-bit
  channel cannot be read back: the fmt chunk of the file is 8 bytes long and ends before
  the block alignment and the sample width, the handle that opens the file for reading
  holds 0 for both, and \<open>wav_read\<close> divides by the block alignment.  When the fmt body is 40
  bytes long (the extensible format selected, then PCM again) the same session reads back
  the containers that were written, the fourth byte of the negative sample included.
\<close>

theorem round_trip_default_session:
  "session_file [] =
     Some [82, 73, 70, 70, 34, 0, 0, 0, 87, 65, 86, 69, 102, 109, 116, 32, 8, 0, 0, 0,
           1, 0, 1, 0, 68, 172, 0, 0, 100, 97, 116, 97, 6, 0, 0, 0, 1, 2, 131, 4, 5, 6] \<and>
   Option.bind (session_file [])
     (\<lambda>bs. map_option (\<lambda>r. (error_code r, wav_get_header_size r, data_size (chunk r),
                              n_channels (chunk r), block_align (chunk r), bits_per_sample (chunk r),
                              wav_get_length r))
              (wav_init (Some bs) ''r''))
     = Some (WAV_OK, 36, 6, 1, 0, 0, None) \<and>
   Option.bind (session_file []) read_back = None \<and>
   Option.bind (session_file [WAV_FORMAT_EXTENSIBLE, WAV_FORMAT_PCM]) read_back =
     Some (WAV_OK, [[0x01, 0x02, 0x83, 0xFF, 0x04, 0x05, 0x06, 0x00]], 2)"
  by code_simp

text \<open>
  Claim C8.  The mode string is matched by prefix, and the one-letter prefixes come first
  in the chain: every string that begins with r, w or a is accepted and resolved to the
  bare binary mode (the branches for the plus and x variants are never reached), so a
  string outside the grammar such as rz opens the file for reading.
\<close>

theorem wav_init_mode_prefix:
  "wav_init_mode (CHR ''r'' # rest) = Some ''rb'' \<and>
   wav_init_mode (CHR ''w'' # rest) = Some ''wb'' \<and>
   wav_init_mode (CHR ''a'' # rest) = Some ''ab'' \<and>
   map_option error_code (wav_init (Some pcm_file) ''rz'') = Some WAV_OK"
proof -
  have "map_option error_code (wav_init (Some pcm_file) ''rz'') = Some WAV_OK"
    by code_simp
  then show ?thesis
    by (simp add: wav_init_mode_def strncmp_eq_def)
qed

text \<open>
  Claim C5.  A new file gets the PCM defaults, but the fmt size is a difference of
  \<open>uint16_t\<close> pointers, 8 elements and not 16 bytes: the header the handle computes and
  writes is 36 bytes long.
\<close>

theorem wav_init_default_header:
  "map_option (\<lambda>h. (fmt_size (chunk h), wav_get_header_size h, map_option (\<lambda>f. length (contents f)) (fp h),
                     n_channels (chunk h), sample_rate (chunk h), bits_per_sample (chunk h),
                     block_align (chunk h), fact_id (chunk h) = WAV_FACT_CHUNK_ID))
      (wav_init None ''w'')
   = Some (8, 36, Some 36, 2, 44100, 16, 4, False)"
  by code_simp

text \<open>
  Claim C2.  On the two-frame file (header 44 bytes, block alignment 4) a seek to the end
  succeeds but leaves the stream at byte 4, the block alignment, not at byte 52; the next
  \<open>wav_tell\<close> fails its assertion.
\<close>

theorem wav_seek_end_position:
  "Option.bind (wav_init (Some pcm_file) ''r'')
     (\<lambda>h. map_option (\<lambda>(h', e). (wav_get_header_size h, wav_get_length h, e, map_option fpos (fp h'), wav_tell h'))
             (wav_seek h 0 SEEK_END))
   = Some (44, Some 2, WAV_OK, Some 4, None)"
  by code_simp

text \<open>
  Claim C3.  A handle opened with w+ holds the mode wb and \<open>wav_read\<close> refuses it with a mode
  error, as it refuses the canonical wb+; a handle opened with r+ holds rb and \<open>wav_write\<close>
  refuses it, as it refuses the canonical rb+.
\<close>

theorem wav_read_write_mode_check:
  "Option.bind (wav_init None ''w+'')
     (\<lambda>h. map_option (\<lambda>(s, b, n). (mode s, error_code s, n)) (wav_read (\<lambda>n. True) h [[0, 0], [0, 0]] 1))
     = Some (Some ''wb'', WAV_ERR_MODE, 0) \<and>
   Option.bind (wav_init None ''w+'')
     (\<lambda>h. map_option (\<lambda>(s, b, n). (error_code s, n))
             (wav_read (\<lambda>n. True) (h\<lparr>mode := Some ''wb+''\<rparr>) [[0, 0], [0, 0]] 1))
     = Some (WAV_ERR_MODE, 0) \<and>
   Option.bind (wav_init (Some pcm_file) ''r+'')
     (\<lambda>h. map_option (\<lambda>(s, n). (mode s, error_code s, n)) (wav_write (\<lambda>n. True) h [[0, 0], [0, 0]] 1))
     = Some (Some ''rb'', WAV_ERR_MODE, 0) \<and>
   Option.bind (wav_init (Some pcm_file) ''r+'')
     (\<lambda>h. map_option (\<lambda>(s, n). (error_code s, n))
             (wav_write (\<lambda>n. True) (h\<lparr>mode := Some ''rb+''\<rparr>) [[0, 0], [0, 0]] 1))
     = Some (WAV_ERR_MODE, 0)"
  by code_simp


end
